(* ===== verification/Prelude.thy ===== *)
theory Prelude
  imports Complex_Main
begin

text \<open>
  Shared vocabulary of the development: the error values that model the exceptions
  raised by geomstats and by the array runtime it calls, the result type
  \<open>error + 'a\<close> with its bind, and the list lemmas on row-major blocks
  (\<open>chunks\<close>) on which every reshape of the N-fold composer rests.
  Python floats are modelled as \<open>real\<close> (no rounding); Python ints as \<open>int\<close>,
  array sizes as \<open>nat\<close>.
\<close>

named_theorems arr_simps "shape and data equations of the array operations"
named_theorems chunk_simps "equations of chunks on lists of known length"

section \<open>Errors as values\<close>

datatype error =
    ValueError string
  | NotImplementedError string
  | RuntimeError string
  | IndexError string
  | AxisError string

type_synonym 'a result = "error + 'a"

definition bindE :: "'a result \<Rightarrow> ('a \<Rightarrow> 'b result) \<Rightarrow> 'b result" where
  "bindE m f = (case m of Inl e \<Rightarrow> Inl e | Inr a \<Rightarrow> f a)"

section \<open>Row-major blocks\<close>

text \<open>
  \<open>chunks k xs\<close> cuts \<open>xs\<close> into consecutive blocks of \<open>k\<close> elements, the last
  one possibly shorter. On the flat row-major data of an array of shape
  \<open>(n, k)\<close> it gives the \<open>n\<close> rows: this is what \<^verbatim>\<open>reshape(x, (-1, k))\<close>
  followed by iteration over the first axis does.
\<close>

function chunks :: "nat \<Rightarrow> 'a list \<Rightarrow> 'a list list" where
  "chunks k xs = (if k = 0 \<or> xs = [] then [] else take k xs # chunks k (drop k xs))"
  by pat_completeness auto
termination
  by (relation "measure (\<lambda>(k, xs). length xs)") auto

declare chunks.simps [simp del]

text \<open>\<open>block p x k\<close> is the flat data of the \<open>k\<close>-th point of size \<open>p\<close> in \<open>x\<close>.\<close>

definition block :: "nat \<Rightarrow> 'a list \<Rightarrow> nat \<Rightarrow> 'a list" where
  "block p x k = take p (drop (k * p) x)"

text \<open>
  A Python list comprehension over a list whose items may raise: the items are
  computed in order and the first exception propagates.
\<close>

fun mapE :: "('a \<Rightarrow> 'b result) \<Rightarrow> 'a list \<Rightarrow> 'b list result" where
  "mapE f [] = Inr []"
| "mapE f (x # xs) = bindE (f x) (\<lambda>y. bindE (mapE f xs) (\<lambda>ys. Inr (y # ys)))"

section \<open>Facts on results\<close>

lemma bindE_Inl [simp]: "bindE (Inl e) f = Inl e"
  by (simp add: bindE_def)

lemma bindE_Inr [simp]: "bindE (Inr a) f = f a"
  by (simp add: bindE_def)

lemma bindE_eq_Inr_iff: "bindE m f = Inr b \<longleftrightarrow> (\<exists>a. m = Inr a \<and> f a = Inr b)"
  by (cases m) auto

lemma bindE_eq_Inl_iff:
  "bindE m f = Inl e \<longleftrightarrow> m = Inl e \<or> (\<exists>a. m = Inr a \<and> f a = Inl e)"
  by (cases m) auto

section \<open>Facts on blocks\<close>

lemma chunks_Nil [simp]: "chunks k [] = []"
  by (simp add: chunks.simps)

lemma chunks_0 [simp]: "chunks 0 xs = []"
  by (simp add: chunks.simps)

lemma chunks_block [chunk_simps]:
  "length ys = k \<Longrightarrow> 0 < k \<Longrightarrow> chunks k (ys @ zs) = ys # chunks k zs"
  by (subst chunks.simps) auto

lemma chunks_append:
  "length ys = n * k \<Longrightarrow> chunks k (ys @ zs) = chunks k ys @ chunks k zs"
proof (induction n arbitrary: ys)
  case 0
  then show ?case by simp
next
  case (Suc n)
  show ?case
  proof (cases "k = 0")
    case True
    then show ?thesis by simp
  next
    case False
    let ?a = "take k ys" and ?b = "drop k ys"
    have ys: "ys = ?a @ ?b" by simp
    have la: "length ?a = k" and lb: "length ?b = n * k"
      using Suc.prems by auto
    have "chunks k (ys @ zs) = ?a # chunks k (?b @ zs)"
      using ys la False chunks_block [of ?a k "?b @ zs"] by (metis append.assoc gr0I)
    also have "\<dots> = (?a # chunks k ?b) @ chunks k zs"
      using Suc.IH [OF lb] by simp
    also have "?a # chunks k ?b = chunks k ys"
      using ys la False chunks_block [of ?a k ?b] by (metis gr0I)
    finally show ?thesis .
  qed
qed

lemma length_chunks [chunk_simps]:
  "0 < k \<Longrightarrow> length xs = n * k \<Longrightarrow> length (chunks k xs) = n"
proof (induction n arbitrary: xs)
  case 0
  then show ?case by simp
next
  case (Suc n)
  then have "xs \<noteq> []" by auto
  with Suc show ?case by (subst chunks.simps) simp
qed

lemma length_chunk_elem:
  "0 < k \<Longrightarrow> length xs = n * k \<Longrightarrow> c \<in> set (chunks k xs) \<Longrightarrow> length c = k"
proof (induction n arbitrary: xs)
  case 0
  then show ?case by simp
next
  case (Suc n)
  then have ne: "xs \<noteq> []" by auto
  have "c = take k xs \<or> c \<in> set (chunks k (drop k xs))"
    using Suc.prems(3) ne Suc.prems(1) by (subst (asm) chunks.simps) auto
  then show ?case
    using Suc.prems(1,2) Suc.IH [of "drop k xs"] by auto
qed

lemma concat_chunks [simp]: "concat (chunks k xs) = (if k = 0 then [] else xs)"
proof (induction k xs rule: chunks.induct)
  case (1 k xs)
  then show ?case by (subst chunks.simps) auto
qed

lemma chunks_concat:
  "0 < k \<Longrightarrow> \<forall>c \<in> set cs. length c = k \<Longrightarrow> chunks k (concat cs) = cs"
  by (induction cs) (auto simp: chunks_block)

lemma nth_chunks:
  "0 < k \<Longrightarrow> length xs = n * k \<Longrightarrow> i < n \<Longrightarrow> chunks k xs ! i = take k (drop (i * k) xs)"
proof (induction n arbitrary: xs i)
  case 0
  then show ?case by simp
next
  case (Suc n)
  then have ne: "xs \<noteq> []" by auto
  show ?case
  proof (cases i)
    case 0
    with Suc.prems ne show ?thesis by (subst chunks.simps) simp
  next
    case (Suc j)
    with Suc.prems have "chunks k (drop k xs) ! j = take k (drop (j * k) (drop k xs))"
      by (intro Suc.IH) auto
    with Suc Suc.prems ne show ?thesis
      by (subst chunks.simps) (simp add: add.commute)
  qed
qed

lemma chunks_map: "chunks k (map f xs) = map (map f) (chunks k xs)"
proof (induction k xs rule: chunks.induct)
  case (1 k xs)
  then show ?case
    by (cases "k = 0 \<or> xs = []")
       (simp_all add: chunks.simps [of k xs] chunks.simps [of k "map f xs"] take_map drop_map)
qed

lemma set_chunks_subset: "c \<in> set (chunks k xs) \<Longrightarrow> set c \<subseteq> set xs"
proof (induction k xs rule: chunks.induct)
  case (1 k xs)
  then show ?case
    by (subst (asm) chunks.simps) (auto split: if_splits dest: in_set_takeD in_set_dropD)
qed

lemma drop_last_one: "xs \<noteq> [] \<Longrightarrow> drop (length xs - Suc 0) xs = [last xs]"
  by (induction xs) (auto simp: drop_Cons' split: if_splits)

lemma zip_map2_right: "zip (map2 g xs ys) ys = map (\<lambda>(x, y). (g x y, y)) (zip xs ys)"
  by (induction xs arbitrary: ys) (auto simp: zip_Cons1 split: list.splits)

lemma chunks_zip:
  "length xs = length ys \<Longrightarrow> chunks k (zip xs ys) = map2 zip (chunks k xs) (chunks k ys)"
proof (induction k xs arbitrary: ys rule: chunks.induct)
  case (1 k xs)
  show ?case
  proof (cases "k = 0 \<or> xs = []")
    case True
    with "1.prems" show ?thesis by auto
  next
    case False
    with "1.prems" have "ys \<noteq> []" by auto
    with False "1.prems" "1.IH" [of "drop k ys"] show ?thesis
      by (simp add: chunks.simps [of k xs] chunks.simps [of k ys]
                    chunks.simps [of k "zip xs ys"] take_zip drop_zip)
  qed
qed

text \<open>
  Flattening two leading axes into one: the rows of length \<open>m * k\<close>, each cut into
  \<open>m\<close> blocks of \<open>k\<close>, are the blocks of \<open>k\<close> grouped by \<open>m\<close>. This is the
  identity behind \<^verbatim>\<open>reshape(x, (-1, *base_shape))\<close> followed by
  \<^verbatim>\<open>reshape(y, batch_shape + (n_copies,))\<close>.
\<close>

lemma chunks_chunks:
  assumes "0 < k" and "0 < m" and "length xs = n * (m * k)"
  shows "chunks m (chunks k xs) = map (chunks k) (chunks (m * k) xs)"
  using assms(3)
proof (induction n arbitrary: xs)
  case 0
  then show ?case by simp
next
  case (Suc n)
  let ?a = "take (m * k) xs" and ?b = "drop (m * k) xs"
  have la: "length ?a = m * k" and lb: "length ?b = n * (m * k)"
    using Suc.prems by auto
  have "chunks k xs = chunks k ?a @ chunks k ?b"
    using chunks_append [of ?a m k ?b] la by (simp add: mult.commute)
  moreover have "length (chunks k ?a) = m"
    using length_chunks [OF assms(1), of ?a m] la by simp
  moreover have "chunks (m * k) xs = ?a # chunks (m * k) ?b"
    using chunks_block [of ?a "m * k" ?b] la assms(1,2) by simp
  ultimately show ?case
    using chunks_block [of "chunks k ?a" m "chunks k ?b"] assms(2) Suc.IH [OF lb] by simp
qed

lemma list_all_id_map [simp]: "list_all id (map f xs) = list_all f xs"
  by (induction xs) auto

lemma length_concat_const:
  "\<forall>c \<in> set cs. length c = p \<Longrightarrow> length (concat cs) = length cs * p"
  by (induction cs) auto

lemma zip_chunks_lengths:
  assumes "0 < p" "length xs = N * p" "length ys = N * p"
    and "(a, b) \<in> set (zip (chunks p xs) (chunks p ys))"
  shows "length a = p \<and> length b = p"
  using assms set_zip_leftD [OF assms(4)] set_zip_rightD [OF assms(4)]
    length_chunk_elem [of p xs N] length_chunk_elem [of p ys N] by blast

lemma length_concat_map2_chunks:
  assumes "\<forall>x y. length x = p \<longrightarrow> length y = p \<longrightarrow> length (g x y) = p"
    and "0 < p" "length xs = N * p" "length ys = N * p"
  shows "length (concat (map2 g (chunks p xs) (chunks p ys))) = N * p"
proof -
  have "\<forall>c \<in> set (map2 g (chunks p xs) (chunks p ys)). length c = p"
    using assms(1) zip_chunks_lengths [OF assms(2-4)] by auto
  then have "length (concat (map2 g (chunks p xs) (chunks p ys))) =
             length (map2 g (chunks p xs) (chunks p ys)) * p"
    by (rule length_concat_const)
  then show ?thesis
    using assms(2-4) by (simp add: length_chunks)
qed

lemma map2_idem:
  "\<forall>(x, y) \<in> set (zip xs ys). g (g x y) y = g x y \<Longrightarrow> map2 g (map2 g xs ys) ys = map2 g xs ys"
proof (induction xs arbitrary: ys)
  case Nil
  then show ?case by simp
next
  case (Cons x xs)
  then show ?case by (cases ys) auto
qed

lemma chunks_1: "chunks (Suc 0) xs = map (\<lambda>x. [x]) xs"
proof (induction xs)
  case Nil
  then show ?case by simp
next
  case (Cons x xs)
  have "chunks (Suc 0) ([x] @ xs) = [x] # chunks (Suc 0) xs"
    by (rule chunks_block) simp_all
  with Cons show ?case by simp
qed

lemma index_lt: "j < n \<Longrightarrow> i < N \<Longrightarrow> i * n + j < N * (n :: nat)"
proof -
  assume a: "j < n" "i < N"
  have "i * n + j < i * n + n" using a(1) by simp
  also have "\<dots> = Suc i * n" by simp
  also have "\<dots> \<le> N * n" using a(2) by (intro mult_le_mono1) simp
  finally show ?thesis .
qed

lemma nth_block:
  "j < n \<Longrightarrow> length E = N * n \<Longrightarrow> i < N \<Longrightarrow> block n E i ! j = E ! (i * n + j)"
  using index_lt [of j n i N] by (simp add: block_def add.commute)

lemma length_block: "length E = N * n \<Longrightarrow> i < N \<Longrightarrow> length (block n E i) = n"
proof -
  assume a: "length E = N * n" "i < N"
  have "Suc i * n \<le> N * n" using a(2) by (intro mult_le_mono1) simp
  then have "i * n + n \<le> N * n" by simp
  with a(1) show ?thesis by (simp add: block_def)
qed

lemma nth_chunks_block:
  "0 < k \<Longrightarrow> length xs = n * k \<Longrightarrow> i < n \<Longrightarrow> chunks k xs ! i = block k xs i"
  by (simp add: nth_chunks block_def)

lemma block_concat:
  assumes "0 < p" "\<forall>c \<in> set L. length c = p" "k < length L"
  shows "block p (concat L) k = L ! k"
proof -
  have "length (concat L) = length L * p" using assms(2) by (rule length_concat_const)
  then have "block p (concat L) k = chunks p (concat L) ! k"
    using assms(1,3) by (simp add: nth_chunks_block)
  also have "\<dots> = L ! k" using chunks_concat [OF assms(1,2)] by simp
  finally show ?thesis .
qed

lemma map_chunks_upt:
  "0 < k \<Longrightarrow> length xs = N * k \<Longrightarrow> map F (chunks k xs) = map (\<lambda>i. F (block k xs i)) [0..<N]"
  by (rule nth_equalityI) (simp_all add: length_chunks nth_chunks block_def)

lemma map2_map2_left: "map2 g (map2 f xs ys) ys = map2 (\<lambda>x y. g (f x y) y) xs ys"
proof (induction xs arbitrary: ys)
  case Nil
  then show ?case by simp
next
  case (Cons x xs)
  then show ?case by (cases ys) auto
qed

lemma map2_map2_right: "map2 g ys (map2 f xs ys) = map2 (\<lambda>x y. g y (f x y)) xs ys"
proof (induction xs arbitrary: ys)
  case Nil
  then show ?case by simp
next
  case (Cons x xs)
  then show ?case by (cases ys) auto
qed

lemma map2_map_zip_left: "map2 g (map h (zip xs ys)) ys = map2 (\<lambda>x y. g (h (x, y)) y) xs ys"
proof (induction xs arbitrary: ys)
  case Nil
  then show ?case by simp
next
  case (Cons x xs)
  then show ?case by (cases ys) auto
qed

lemma map2_map_zip_right: "map2 g ys (map h (zip xs ys)) = map2 (\<lambda>x y. g y (h (x, y))) xs ys"
proof (induction xs arbitrary: ys)
  case Nil
  then show ?case by simp
next
  case (Cons x xs)
  then show ?case by (cases ys) auto
qed

lemma map2_map2_cancel:
  "length V = length P \<Longrightarrow> \<forall>(x, y) \<in> set (zip V P). g (f x y) y = x \<Longrightarrow> map2 g (map2 f V P) P = V"
proof (induction V arbitrary: P)
  case Nil
  then show ?case by simp
next
  case (Cons x V)
  then show ?case by (cases P) auto
qed

lemma list_all_zip_D:
  "list_all P xs \<Longrightarrow> list_all Q ys \<Longrightarrow> (a, b) \<in> set (zip xs ys) \<Longrightarrow> P a \<and> Q b"
  by (auto simp: list_all_iff dest: set_zip_leftD set_zip_rightD)

lemma concat_map2_singletons_hd:
  "concat (map2 (\<lambda>x y. [f (hd x) (hd y)]) (map (\<lambda>x. [x]) v) (map (\<lambda>x. [x]) b)) = map2 f v b"
proof (induction v arbitrary: b)
  case Nil
  then show ?case by simp
next
  case (Cons a v)
  then show ?case by (cases b) simp_all
qed

lemma map2_fst_eq: "length ys = length xs \<Longrightarrow> map2 (\<lambda>x y. x) xs ys = xs"
  by (intro nth_equalityI) simp_all

section \<open>Sums of reals\<close>

lemma sum_list_sum_lessThan: "length L = n \<Longrightarrow> sum_list L = (\<Sum>j<n. L ! j)"
  by (simp add: sum_list_sum_nth atLeast0LessThan)

lemma sum_list_map2_mult:
  "length s = n \<Longrightarrow> length L = n \<Longrightarrow> sum_list (map2 (*) s L) = (\<Sum>j<n. s ! j * L ! j :: real)"
  by (simp add: sum_list_sum_lessThan)

lemma concat_map2_singletons:
  "concat (map2 (\<lambda>s blk. map ((*) s) blk) sc (map (\<lambda>x. [x]) row)) = map2 (*) sc (row :: real list)"
proof (induction sc arbitrary: row)
  case Nil
  then show ?case by simp
next
  case (Cons s sc)
  then show ?case by (cases row) simp_all
qed

lemma block_block:
  "j < n \<Longrightarrow> block q (block (n * q) x i) j = block q x (i * n + j)"
proof -
  assume j: "j < n"
  have le: "j * q + q \<le> n * q" using j by (metis add.commute mult_Suc Suc_leI mult_le_mono1)
  have "take q (drop (j * q) (take (n * q) (drop (i * (n * q)) x))) =
        take q (drop (j * q) (drop (i * (n * q)) x))"
    using le by (simp add: take_drop min_def)
  also have "\<dots> = take q (drop ((i * n + j) * q) x)"
    by (simp add: algebra_simps)
  finally show ?thesis by (simp add: block_def)
qed

lemma nth_concat_const:
  "\<forall>c \<in> set L. length c = n \<Longrightarrow> i < length L \<Longrightarrow> j < n \<Longrightarrow> concat L ! (i * n + j) = L ! i ! j"
proof -
  assume a: "\<forall>c \<in> set L. length c = n" "i < length L" "j < n"
  then have n0: "0 < n" by simp
  have "block n (concat L) i = L ! i" by (rule block_concat [OF n0 a(1,2)])
  moreover have "length (concat L) = length L * n" using a(1) by (rule length_concat_const)
  ultimately show ?thesis using nth_block [OF a(3) _ a(2), of "concat L"] by simp
qed

lemma concat_map_concat_fun: "concat (map (\<lambda>x. concat (f x)) xs) = concat (concat (map f xs))"
  by (induct xs) simp_all


lemma map_mult_one: "map ((*) (1::'a::monoid_mult)) xs = xs"
  by (induct xs) simp_all


lemma chunks_chunks_elem:
  assumes "0 < k" "0 < m" "length xs = n * (m * k)" "q \<in> set (chunks (m * k) xs)" "c \<in> set (chunks k q)"
  shows "c \<in> set (chunks k xs)"
proof -
  have "chunks k q \<in> set (chunks m (chunks k xs))"
    using chunks_chunks [OF assms(1-3)] assms(4) by simp
  then have "c \<in> set (concat (chunks m (chunks k xs)))" using assms(5) by (simp only: set_concat) blast
  then show ?thesis using assms(2) by simp
qed

lemma map_all_True: "\<forall>x \<in> set L. P x \<Longrightarrow> map P L = replicate (length L) True"
  by (induct L) auto


lemma map2_replicate_left: "length d = m \<Longrightarrow> map2 f (replicate m c) d = map (f c) d"
  by (induct d arbitrary: m) auto

lemma map2_replicate_right: "length d = m \<Longrightarrow> map2 f d (replicate m c) = map (\<lambda>x. f x c) d"
  by (induct d arbitrary: m) auto


lemma length_concat_replicate [simp]: "length (concat (replicate m d)) = m * length d"
  by (induct m) simp_all

lemma map2_concat:
  "list_all2 (\<lambda>a b. length a = length b) A B \<Longrightarrow> map2 f (concat A) (concat B) = concat (map2 (map2 f) A B)"
  by (induct A B rule: list_all2_induct) auto

lemma chunks_concat_blocks:
  "0 < p \<Longrightarrow> \<forall>c \<in> set L. length c = n * p \<Longrightarrow> chunks p (concat L) = concat (map (chunks p) L)"
  by (induct L) (auto simp: chunks_append)

lemma map2_eq_left: "length X = length Y \<Longrightarrow> \<forall>(x, y) \<in> set (zip X Y). f x y = x \<Longrightarrow> map2 f X Y = X"
  by (induct X Y rule: list_induct2) auto

lemma map2_eq_right: "length X = length Y \<Longrightarrow> \<forall>(x, y) \<in> set (zip X Y). f x y = y \<Longrightarrow> map2 f X Y = Y"
  by (induct X Y rule: list_induct2) auto

lemma map_map2: "map h (map2 f xs ys) = map2 (\<lambda>x y. h (f x y)) xs ys"
  by (simp add: case_prod_unfold)

lemma map2_map_map2: "map2 g (map h (map2 f xs ys)) ys = map2 (\<lambda>x y. g (h (f x y)) y) xs ys"
  by (simp only: map_map2 map2_map2_left)


lemma mapE_map: "\<forall>x \<in> set xs. f (k x) = Inr (h x) \<Longrightarrow> mapE f (map k xs) = Inr (map h xs)"
  by (induct xs) auto

lemma zip_map_same: "zip (map f xs) (map g xs) = map (\<lambda>x. (f x, g x)) xs"
  by (induct xs) auto

lemma concat_map2_chunks_regroup:
  assumes p: "0 < p" and n: "0 < n" and xs: "length xs = m * (n * p)" and ys: "length ys = m * (n * p)"
  shows "concat (map2 g (chunks p xs) (chunks p ys)) =
         concat (map2 (\<lambda>a b. concat (map2 g (chunks p a) (chunks p b))) (chunks (n * p) xs) (chunks (n * p) ys))"
proof -
  let ?X = "map (chunks p) (chunks (n * p) xs)" and ?Y = "map (chunks p) (chunks (n * p) ys)"
  have cx: "chunks p xs = concat ?X"
    using arg_cong [OF chunks_chunks [OF p n xs], of concat] concat_chunks [of n "chunks p xs"] n by simp
  have cy: "chunks p ys = concat ?Y"
    using arg_cong [OF chunks_chunks [OF p n ys], of concat] concat_chunks [of n "chunks p ys"] n by simp
  have ex: "length a = n * p" if "a \<in> set (chunks (n * p) xs)" for a
    using length_chunk_elem [OF _ xs that] p n by simp
  have ey: "length b = n * p" if "b \<in> set (chunks (n * p) ys)" for b
    using length_chunk_elem [OF _ ys that] p n by simp
  have lxy: "length (chunks (n * p) xs) = length (chunks (n * p) ys)"
    using xs ys p n by (simp add: length_chunks)
  have la: "list_all2 (\<lambda>a b. length a = length b) ?X ?Y"
  proof (rule list_all2_all_nthI)
    show "length ?X = length ?Y" using lxy by simp
  next
    fix i assume "i < length ?X"
    then have i1: "i < length (chunks (n * p) xs)" and i2: "i < length (chunks (n * p) ys)" using lxy by simp_all
    have "length (chunks (n * p) xs ! i) = n * p" "length (chunks (n * p) ys ! i) = n * p"
      using ex [OF nth_mem [OF i1]] ey [OF nth_mem [OF i2]] by simp_all
    then show "length (?X ! i) = length (?Y ! i)" using i1 i2 p by (simp add: length_chunks)
  qed
  have "map2 g (chunks p xs) (chunks p ys) = concat (map2 (map2 g) ?X ?Y)"
    unfolding cx cy by (rule map2_concat [OF la])
  then show ?thesis
    by (simp add: concat_map_concat_fun [symmetric] zip_map_map case_prod_unfold comp_def map_concat)
qed

lemma block_concat_map2_chunks:
  assumes p: "0 < p" and n: "0 < n" and g: "\<forall>x y. length x = p \<longrightarrow> length y = p \<longrightarrow> length (g x y) = p"
    and xs: "length xs = m * (n * p)" and ys: "length ys = m * (n * p)" and i: "i < m"
  shows "block (n * p) (concat (map2 g (chunks p xs) (chunks p ys))) i =
         concat (map2 g (chunks p (block (n * p) xs i)) (chunks p (block (n * p) ys i)))"
proof -
  let ?F = "\<lambda>a b. concat (map2 g (chunks p a) (chunks p b))"
  let ?L = "map2 ?F (chunks (n * p) xs) (chunks (n * p) ys)"
  have np: "0 < n * p" using p n by simp
  have lx: "length (chunks (n * p) xs) = m" and ly: "length (chunks (n * p) ys) = m"
    using xs ys np by (simp_all add: length_chunks)
  have el: "\<forall>c \<in> set ?L. length c = n * p"
  proof
    fix c assume "c \<in> set ?L"
    then obtain a b where c: "c = ?F a b" and ab: "(a, b) \<in> set (zip (chunks (n * p) xs) (chunks (n * p) ys))"
      by auto
    have "length a = n * p" "length b = n * p"
      using length_chunk_elem [OF np xs set_zip_leftD [OF ab]] length_chunk_elem [OF np ys set_zip_rightD [OF ab]]
      by simp_all
    then show "length c = n * p"
      unfolding c using length_concat_map2_chunks [OF g p, of a n b] by (simp add: mult.commute)
  qed
  have "block (n * p) (concat ?L) i = ?L ! i"
    using block_concat [OF np el] i lx ly by simp
  also have "\<dots> = ?F (block (n * p) xs i) (block (n * p) ys i)"
    using i lx ly nth_chunks_block [OF np xs i] nth_chunks_block [OF np ys i] by simp
  finally show ?thesis by (simp only: concat_map2_chunks_regroup [OF p n xs ys])
qed

lemma block_concat_upt:
  assumes "\<forall>j < b. length (D j) = K" "i < b"
  shows "block K (concat (map D [0..<b])) i = D i"
proof (cases "K = 0")
  case True
  then have "D i = []" using assms by simp
  then show ?thesis by (simp only: block_def True take_0)
next
  case False
  then show ?thesis using block_concat [of K "map D [0..<b]" i] assms by auto
qed

end
