(* ===== verification/Arrays.thy ===== *)
theory Arrays
  imports Prelude
begin

text \<open>
  The array runtime that \<^verbatim>\<open>geomstats.backend\<close> (\<open>gs\<close>) exposes and that the N-fold
  composer calls: an n-dimensional array is its shape and its flat row-major data.
  Each operation below is the NumPy behaviour of the \<open>gs\<close> function of the same
  name on the arguments the sources pass, failures included: NumPy reports a shape
  that does not fit as \<open>ValueError\<close>, and an axis out of range as
  \<open>AxisError\<close> (a subclass of both \<open>ValueError\<close> and \<open>IndexError\<close>).
  The batch-shape resolver of \<^verbatim>\<open>geomstats.vectorization.get_batch_shape\<close>
  closes the theory.
\<close>

record 'a arr =
  ashape :: "nat list"
  adata :: "'a list"

definition wf_arr :: "'a arr \<Rightarrow> bool" where
  "wf_arr a \<longleftrightarrow> length (adata a) = prod_list (ashape a)"

text \<open>\<^verbatim>\<open>gs.array(xs)\<close> of a flat list.\<close>

definition array1 :: "'a list \<Rightarrow> 'a arr" where
  "array1 xs = \<lparr>ashape = [length xs], adata = xs\<rparr>"

section \<open>Reshaping\<close>

text \<open>\<^verbatim>\<open>gs.reshape(a, s)\<close> with a fully given shape: the data is kept, the size must match.\<close>

definition reshape :: "nat list \<Rightarrow> 'a arr \<Rightarrow> 'a arr result" where
  "reshape s a =
     (if prod_list s = length (adata a) then Inr \<lparr>ashape = s, adata = adata a\<rparr>
      else Inl (ValueError ''cannot reshape array''))"

text \<open>
  \<^verbatim>\<open>gs.reshape(a, (-1, *s))\<close>: the leading size is inferred; NumPy refuses when the
  known sizes have product 0 or do not divide the size of \<open>a\<close>.
\<close>

definition reshape_flat :: "nat list \<Rightarrow> 'a arr \<Rightarrow> 'a arr result" where
  "reshape_flat s a =
     (let p = prod_list s; n = length (adata a) in
      if p \<noteq> 0 \<and> n mod p = 0 then Inr \<lparr>ashape = n div p # s, adata = adata a\<rparr>
      else Inl (ValueError ''cannot reshape array''))"

definition expand_dims_last :: "'a arr \<Rightarrow> 'a arr" where
  "expand_dims_last a = a\<lparr>ashape := ashape a @ [1]\<rparr>"

text \<open>\<^verbatim>\<open>gs.squeeze(a)\<close> drops every axis of size 1; \<^verbatim>\<open>gs.squeeze(a, axis=0)\<close> only the first, which must have size 1.\<close>

definition squeeze :: "'a arr \<Rightarrow> 'a arr" where
  "squeeze a = a\<lparr>ashape := filter (\<lambda>d. d \<noteq> 1) (ashape a)\<rparr>"

definition squeeze0 :: "'a arr \<Rightarrow> 'a arr result" where
  "squeeze0 a =
     (case ashape a of
        [] \<Rightarrow> Inl (AxisError ''axis 0 is out of bounds for array of dimension 0'')
      | d # s \<Rightarrow> if d = 1 then Inr (a\<lparr>ashape := s\<rparr>)
                 else Inl (ValueError ''cannot select an axis to squeeze out which has size not equal to one''))"

section \<open>Broadcasting\<close>

text \<open>
  NumPy's rule, read from the trailing axes: two sizes agree when they are equal or
  one of them is 1; the missing leading axes of the shorter shape count as 1.
\<close>

fun bshape_rev :: "nat list \<Rightarrow> nat list \<Rightarrow> nat list option" where
  "bshape_rev [] ys = Some ys"
| "bshape_rev xs [] = Some xs"
| "bshape_rev (x # xs) (y # ys) =
     (if x = y \<or> y = 1 then map_option ((#) x) (bshape_rev xs ys)
      else if x = 1 then map_option ((#) y) (bshape_rev xs ys)
      else None)"

definition broadcast_shape :: "nat list \<Rightarrow> nat list \<Rightarrow> nat list result" where
  "broadcast_shape s t =
     (case bshape_rev (rev s) (rev t) of
        None \<Rightarrow> Inl (ValueError ''shape mismatch: objects cannot be broadcast to a single shape'')
      | Some r \<Rightarrow> Inr (rev r))"

fun broadcast_shapes :: "nat list list \<Rightarrow> nat list result" where
  "broadcast_shapes [] = Inr []"
| "broadcast_shapes (s # ss) = bindE (broadcast_shapes ss) (broadcast_shape s)"

text \<open>
  \<open>bcast src t d\<close> lays out the data \<open>d\<close> of shape \<open>src\<close> on the larger shape
  \<open>t\<close>: an axis that \<open>src\<close> lacks, or has with size 1, repeats the sub-array; an axis
  of equal size maps each row on its own.
\<close>

fun bcast :: "nat list \<Rightarrow> nat list \<Rightarrow> 'a list \<Rightarrow> 'a list" where
  "bcast src [] d = d"
| "bcast src (t # ts) d =
     (if length ts < length src then
        (if hd src = t then concat (map (bcast (tl src) ts) (chunks (prod_list (tl src)) d))
         else concat (replicate t (bcast (tl src) ts d)))
      else concat (replicate t (bcast src ts d)))"

definition broadcast_to :: "nat list \<Rightarrow> 'a arr \<Rightarrow> 'a arr result" where
  "broadcast_to t a =
     (if broadcast_shape (ashape a) t = Inr t
      then Inr \<lparr>ashape = t, adata = bcast (ashape a) t (adata a)\<rparr>
      else Inl (ValueError ''operands could not be broadcast together''))"

definition broadcast_arrays2 :: "'a arr \<Rightarrow> 'a arr \<Rightarrow> ('a arr \<times> 'a arr) result" where
  "broadcast_arrays2 a b =
     bindE (broadcast_shapes [ashape a, ashape b]) (\<lambda>s.
     bindE (broadcast_to s a) (\<lambda>a'.
     bindE (broadcast_to s b) (\<lambda>b'. Inr (a', b'))))"

definition broadcast_arrays3 ::
  "'a arr \<Rightarrow> 'a arr \<Rightarrow> 'a arr \<Rightarrow> ('a arr \<times> 'a arr \<times> 'a arr) result" where
  "broadcast_arrays3 a b c =
     bindE (broadcast_shapes [ashape a, ashape b, ashape c]) (\<lambda>s.
     bindE (broadcast_to s a) (\<lambda>a'.
     bindE (broadcast_to s b) (\<lambda>b'.
     bindE (broadcast_to s c) (\<lambda>c'. Inr (a', b', c')))))"

text \<open>Elementwise arithmetic of two arrays, after broadcasting them (\<^verbatim>\<open>a * b\<close>, \<^verbatim>\<open>a / b\<close>, \<^verbatim>\<open>gs.where\<close>).\<close>

definition bin_op :: "('a \<Rightarrow> 'b \<Rightarrow> 'c) \<Rightarrow> 'a arr \<Rightarrow> 'b arr \<Rightarrow> 'c arr result" where
  "bin_op f a b =
     bindE (broadcast_shape (ashape a) (ashape b)) (\<lambda>s.
       if broadcast_shape (ashape a) s = Inr s \<and> broadcast_shape (ashape b) s = Inr s
       then Inr \<lparr>ashape = s, adata = map2 f (bcast (ashape a) s (adata a)) (bcast (ashape b) s (adata b))\<rparr>
       else Inl (ValueError ''operands could not be broadcast together''))"

definition amap :: "('a \<Rightarrow> 'b) \<Rightarrow> 'a arr \<Rightarrow> 'b arr" where
  "amap f a = \<lparr>ashape = ashape a, adata = map f (adata a)\<rparr>"

section \<open>Reductions and contractions over the last axes\<close>

text \<open>\<^verbatim>\<open>gs.all(a, axis=-1)\<close>; over an empty axis the answer is \<open>True\<close>.\<close>

definition all_last :: "bool arr \<Rightarrow> bool arr result" where
  "all_last a =
     (if ashape a = [] then Inl (AxisError ''axis -1 is out of bounds for array of dimension 0'')
      else let k = last (ashape a); s = butlast (ashape a) in
        Inr \<lparr>ashape = s,
             adata = (if k = 0 then replicate (prod_list s) True
                      else map (\<lambda>row. list_all id row) (chunks k (adata a)))\<rparr>)"

text \<open>\<^verbatim>\<open>gs.sum(a, axis=-1)\<close>; over an empty axis the answer is 0.\<close>

definition sum_last :: "real arr \<Rightarrow> real arr result" where
  "sum_last a =
     (if ashape a = [] then Inl (AxisError ''axis -1 is out of bounds for array of dimension 0'')
      else let k = last (ashape a); s = butlast (ashape a) in
        Inr \<lparr>ashape = s,
             adata = (if k = 0 then replicate (prod_list s) 0
                      else map sum_list (chunks k (adata a)))\<rparr>)"

text \<open>
  \<^verbatim>\<open>gs.einsum("j,...j->...j", scales, a)\<close> (\<open>t = 0\<close>) and
  \<^verbatim>\<open>gs.einsum("j,...jkl->...jkl", scales, a)\<close> (\<open>t = 2\<close>): the block of index
  \<open>j\<close> on axis \<open>-(t+1)\<close> is multiplied by \<open>scales[j]\<close>; the labelled sizes must agree.
\<close>

definition einsum_scale :: "real list \<Rightarrow> nat \<Rightarrow> real arr \<Rightarrow> real arr result" where
  "einsum_scale sc t a =
     (let r = length (ashape a) in
      if t < r \<and> ashape a ! (r - Suc t) = length sc then
        (let b = prod_list (drop (r - t) (ashape a)) in
         Inr (a\<lparr>adata := concat (map (\<lambda>row. concat (map2 (\<lambda>s blk. map ((*) s) blk) sc (chunks b row)))
                                        (chunks (length sc * b) (adata a)))\<rparr>))
      else Inl (ValueError ''einstein sum subscripts do not match the operand dimensions''))"

text \<open>\<^verbatim>\<open>gs.stack(list)\<close> along a new first axis: all shapes must be equal.\<close>

definition stack :: "'a arr list \<Rightarrow> 'a arr result" where
  "stack as =
     (case as of
        [] \<Rightarrow> Inl (ValueError ''need at least one array to stack'')
      | a # _ \<Rightarrow> if \<forall>b \<in> set as. ashape b = ashape a
                 then Inr \<lparr>ashape = length as # ashape a, adata = concat (map adata as)\<rparr>
                 else Inl (ValueError ''all input arrays must have the same shape''))"

text \<open>
  Indexing \<^verbatim>\<open>a[i]\<close> selects along the first axis, for \<open>i\<close> below its size;
  iterating over an array (\<^verbatim>\<open>for x in a\<close>, \<^verbatim>\<open>zip(a, b)\<close>) runs over its first
  axis; only arrays of at least one axis are iterated here.
\<close>

definition arr_index :: "'a arr \<Rightarrow> nat \<Rightarrow> 'a arr" where
  "arr_index a i = \<lparr>ashape = tl (ashape a), adata = block (prod_list (tl (ashape a))) (adata a) i\<rparr>"

definition unstack :: "'a arr \<Rightarrow> 'a arr list" where
  "unstack a = (case ashape a of [] \<Rightarrow> [] | d # s \<Rightarrow> map (arr_index a) [0..<d])"

text \<open>
  \<^verbatim>\<open>gs.einsum("...,...ijk->...ijk", t, a)\<close> with \<open>k\<close> named trailing axes of \<open>a\<close>:
  the ellipsis axes of \<open>t\<close> and of \<open>a\<close> are broadcast together, and every point of
  \<open>a\<close> (its \<open>k\<close> trailing axes) is multiplied by the matching entry of \<open>t\<close>.
\<close>

definition einsum_scalar_ellipsis :: "nat \<Rightarrow> real arr \<Rightarrow> real arr \<Rightarrow> real arr result" where
  "einsum_scalar_ellipsis k t a =
     (let n = length (ashape a); E2 = take (n - k) (ashape a); P = drop (n - k) (ashape a) in
      if n < k then Inl (ValueError ''einstein sum subscripts string contains too many subscripts for operand 1'')
      else case broadcast_shape (ashape t) E2 of
             Inl _ \<Rightarrow> Inl (ValueError ''operands could not be broadcast together with remapped shapes'')
           | Inr E \<Rightarrow> Inr \<lparr>ashape = E @ P,
                          adata = concat (map2 (\<lambda>s blk. map ((*) s) blk) (bcast (ashape t) E (adata t))
                                             (chunks (prod_list P) (bcast (E2 @ P) (E @ P) (adata a))))\<rparr>)"

text \<open>
  \<^verbatim>\<open>gs.allclose(a, b)\<close>: after broadcasting, \<open>|x - y| \<le> atol + rtol |y|\<close> at every
  element. The tolerances are the backend defaults \<open>gs_atol\<close> and \<open>gs_rtol\<close>.
\<close>

definition gs_atol :: real where
  "gs_atol = 1 / 10 ^ 12"

definition gs_rtol :: real where
  "gs_rtol = 1 / 10 ^ 6"

definition allclose :: "real arr \<Rightarrow> real arr \<Rightarrow> bool result" where
  "allclose a b =
     bindE (bin_op (\<lambda>x y. \<bar>x - y\<bar> \<le> gs_atol + gs_rtol * \<bar>y\<bar>) a b) (\<lambda>c. Inr (list_all id (adata c)))"

text \<open>
  \<^verbatim>\<open>gs.linspace(start, stop, num)\<close>: \<open>num\<close> evenly spaced values, both ends included,
  computed as \<open>start + i * step\<close> with \<open>step = (stop - start) / (num - 1)\<close>.
\<close>

definition linspace :: "real \<Rightarrow> real \<Rightarrow> nat \<Rightarrow> real arr" where
  "linspace start stop num =
     \<lparr>ashape = [num], adata = map (\<lambda>i. start + real i * ((stop - start) / real (num - 1))) [0..<num]\<rparr>"

text \<open>The slices \<^verbatim>\<open>a[1:]\<close> and \<^verbatim>\<open>a[:-1]\<close> along the first axis.\<close>

definition slice_tail :: "'a arr \<Rightarrow> 'a arr result" where
  "slice_tail a =
     (case ashape a of
        [] \<Rightarrow> Inl (IndexError ''too many indices for array: array is 0-dimensional, but 1 were indexed'')
      | d # s \<Rightarrow> Inr \<lparr>ashape = (d - 1) # s, adata = drop (prod_list s) (adata a)\<rparr>)"

definition slice_init :: "'a arr \<Rightarrow> 'a arr result" where
  "slice_init a =
     (case ashape a of
        [] \<Rightarrow> Inl (IndexError ''too many indices for array: array is 0-dimensional, but 1 were indexed'')
      | d # s \<Rightarrow> Inr \<lparr>ashape = (d - 1) # s, adata = take ((d - 1) * prod_list s) (adata a)\<rparr>)"

text \<open>
  \<^verbatim>\<open>a[..., i, :]\<close>: entry \<open>i\<close> of the second-to-last axis of every batch element,
  a negative \<open>i\<close> counting from the end as in Python.
\<close>

definition index_axis_m2 :: "int \<Rightarrow> 'a arr \<Rightarrow> 'a arr result" where
  "index_axis_m2 i a =
     (if length (ashape a) < 2 then Inl (IndexError ''too many indices for array'')
      else
        let s = butlast (butlast (ashape a)); k = ashape a ! (length (ashape a) - 2); d = last (ashape a);
            j = (if i < 0 then int k + i else i) in
        if j < 0 \<or> int k \<le> j then Inl (IndexError ''index is out of bounds for axis'')
        else Inr \<lparr>ashape = s @ [d], adata = concat (map (\<lambda>c. block d c (nat j)) (chunks (k * d) (adata a)))\<rparr>)"

text \<open>\<^verbatim>\<open>gs.sum(a, axis=1)\<close>.\<close>

definition sum_axis1 :: "real arr \<Rightarrow> real arr result" where
  "sum_axis1 a =
     (case ashape a of
        d0 # d1 # r \<Rightarrow>
          Inr \<lparr>ashape = d0 # r,
               adata = concat (map (\<lambda>i. foldr (map2 (+))
                                        (map (\<lambda>j. block (prod_list r) (adata a) (i * d1 + j)) [0..<d1])
                                        (replicate (prod_list r) 0)) [0..<d0])\<rparr>
      | _ \<Rightarrow> Inl (AxisError ''axis 1 is out of bounds for array of dimension < 2''))"

definition zeros :: "nat list \<Rightarrow> real arr" where
  "zeros s = \<lparr>ashape = s, adata = replicate (prod_list s) 0\<rparr>"

text \<open>The test assertion \<^verbatim>\<open>assertAllClose(a, b, atol=atol)\<close>: \<open>allclose\<close> with the given \<open>atol\<close>.\<close>

definition allclose_tol :: "real \<Rightarrow> real arr \<Rightarrow> real arr \<Rightarrow> bool result" where
  "allclose_tol atol a b =
     bindE (bin_op (\<lambda>x y. \<bar>x - y\<bar> \<le> atol + gs_rtol * \<bar>y\<bar>) a b) (\<lambda>c. Inr (list_all id (adata c)))"

section \<open>The batch-shape resolver\<close>

text \<open>
  \<^verbatim>\<open>get_batch_shape(space, *points)\<close>: the leading axes of the arguments once the
  \<open>point_ndim\<close> trailing axes of a point are removed, after broadcasting them.
\<close>

definition get_batch_shape :: "nat \<Rightarrow> nat list list \<Rightarrow> nat list result" where
  "get_batch_shape point_ndim shapes =
     bindE (broadcast_shapes shapes) (\<lambda>s. Inr (take (length s - point_ndim) s))"

section \<open>Facts\<close>

lemma reshape_Inr [arr_simps]:
  "prod_list s = length (adata a) \<Longrightarrow> reshape s a = Inr \<lparr>ashape = s, adata = adata a\<rparr>"
  by (simp add: reshape_def)

lemma reshape_wf: "reshape s a = Inr b \<Longrightarrow> wf_arr b"
  by (auto simp: reshape_def wf_arr_def split: if_splits)

lemma reshape_flat_Inr [arr_simps]:
  "0 < prod_list s \<Longrightarrow> length (adata a) = n * prod_list s \<Longrightarrow>
   reshape_flat s a = Inr \<lparr>ashape = n # s, adata = adata a\<rparr>"
  by (simp add: reshape_flat_def Let_def)

lemma reshape_flat_wf: "reshape_flat s a = Inr b \<Longrightarrow> wf_arr b"
  by (auto simp: reshape_flat_def wf_arr_def Let_def split: if_splits)

lemma reshape_flat_zero [arr_simps]:
  "prod_list s = 0 \<Longrightarrow> reshape_flat s a = Inl (ValueError ''cannot reshape array'')"
  by (simp add: reshape_flat_def Let_def)

lemma bshape_rev_Nil2 [simp]: "bshape_rev xs [] = Some xs"
  by (cases xs) auto

lemma broadcast_shape_Nil [simp, arr_simps]: "broadcast_shape s [] = Inr s" "broadcast_shape [] s = Inr s"
  by (simp_all add: broadcast_shape_def)

lemma bshape_rev_same [simp]: "bshape_rev xs xs = Some xs"
  by (induction xs) auto

lemma broadcast_shape_same [simp, arr_simps]: "broadcast_shape s s = Inr s"
  by (simp add: broadcast_shape_def)

lemma broadcast_shapes_same [arr_simps]:
  "broadcast_shapes [s, s] = Inr s" "broadcast_shapes [s, s, s] = Inr s"
  by (simp_all add: broadcast_shape_same broadcast_shape_Nil)

lemma bcast_same: "length d = prod_list s \<Longrightarrow> bcast s s d = d"
proof (induction s arbitrary: d)
  case Nil
  then show ?case by simp
next
  case (Cons t ts)
  show ?case
  proof (cases "prod_list ts = 0")
    case True
    with Cons.prems show ?thesis by simp
  next
    case False
    have "\<forall>c \<in> set (chunks (prod_list ts) d). bcast ts ts c = c"
      using Cons.IH length_chunk_elem [of "prod_list ts" d t] Cons.prems False
      by (simp add: mult.commute)
    then have "map (bcast ts ts) (chunks (prod_list ts) d) = chunks (prod_list ts) d"
      by (simp add: map_idI)
    with False show ?thesis by simp
  qed
qed

lemma broadcast_to_same [arr_simps]: "wf_arr a \<Longrightarrow> broadcast_to (ashape a) a = Inr a"
  by (simp add: broadcast_to_def broadcast_shape_same bcast_same wf_arr_def)

lemma broadcast_arrays2_same [arr_simps]:
  "wf_arr a \<Longrightarrow> wf_arr b \<Longrightarrow> ashape a = ashape b \<Longrightarrow> broadcast_arrays2 a b = Inr (a, b)"
  using broadcast_to_same [of a] broadcast_to_same [of b]
  by (simp add: broadcast_arrays2_def broadcast_shapes_same)

lemma broadcast_arrays3_same [arr_simps]:
  "wf_arr a \<Longrightarrow> wf_arr b \<Longrightarrow> wf_arr c \<Longrightarrow> ashape a = ashape b \<Longrightarrow> ashape a = ashape c \<Longrightarrow>
   broadcast_arrays3 a b c = Inr (a, b, c)"
  using broadcast_to_same [of a] broadcast_to_same [of b] broadcast_to_same [of c]
  by (simp add: broadcast_arrays3_def broadcast_shapes_same)

lemma broadcast_shapes_one [arr_simps]: "broadcast_shapes [s] = Inr s"
  by simp

lemma get_batch_shape_one [arr_simps]:
  "get_batch_shape (length s) [bs @ s] = Inr bs"
  by (simp add: get_batch_shape_def broadcast_shapes_one)

lemma all_last_snoc [arr_simps]:
  "0 < n \<Longrightarrow> all_last \<lparr>ashape = bs @ [n], adata = d\<rparr> =
     Inr \<lparr>ashape = bs, adata = map (list_all id) (chunks n d)\<rparr>"
  by (simp add: all_last_def)

lemma sum_last_snoc [arr_simps]:
  "0 < n \<Longrightarrow> sum_last \<lparr>ashape = bs @ [n], adata = d\<rparr> =
     Inr \<lparr>ashape = bs, adata = map sum_list (chunks n d)\<rparr>"
  by (simp add: sum_last_def)

lemma einsum_scale_last [arr_simps]:
  "length sc = n \<Longrightarrow>
   einsum_scale sc 0 \<lparr>ashape = bs @ [n], adata = d\<rparr> =
     Inr \<lparr>ashape = bs @ [n], adata = concat (map (map2 (*) sc) (chunks n d))\<rparr>"
  by (simp add: einsum_scale_def Let_def chunks_1 concat_map2_singletons)

lemma bin_op_same:
  "wf_arr a \<Longrightarrow> wf_arr b \<Longrightarrow> ashape a = ashape b \<Longrightarrow>
   bin_op f a b = Inr \<lparr>ashape = ashape a, adata = map2 f (adata a) (adata b)\<rparr>"
  by (simp add: bin_op_def bcast_same wf_arr_def)

lemma arr_eqI: "ashape a = s \<Longrightarrow> adata a = d \<Longrightarrow> \<lparr>ashape = s, adata = d\<rparr> = a"
  by auto

lemma einsum_scale_blocks:
  assumes sc: "length sc = n" and n0: "0 < n" and q0: "0 < q" and rest: "prod_list rest = q"
    and sh: "ashape a = bs @ n # rest" and len: "length (adata a) = N * (n * q)"
  shows "\<exists>D. einsum_scale sc (length rest) a = Inr (a\<lparr>adata := D\<rparr>) \<and> length D = N * n * q \<and>
           (\<forall>k < N * n. block q D k = map ((*) (sc ! (k mod n))) (block q (adata a) k))"
proof -
  let ?x = "adata a"
  let ?rows = "chunks (n * q) ?x"
  let ?G = "map (\<lambda>row. map2 (\<lambda>s blk. map ((*) s) blk) sc (chunks q row)) ?rows"
  let ?D = "concat (map (\<lambda>row. concat (map2 (\<lambda>s blk. map ((*) s) blk) sc (chunks q row))) ?rows)"
  have nq: "0 < n * q" using n0 q0 by simp
  have lrows: "length ?rows = N" using len nq by (simp add: length_chunks)
  have rowlen: "\<forall>row \<in> set ?rows. length row = n * q"
    using length_chunk_elem [OF nq len] by blast
  have Glen: "\<forall>c \<in> set ?G. length c = n"
    using rowlen sc q0 by (auto simp: length_chunks)
  have blklen: "\<forall>c \<in> set (concat ?G). length c = q"
  proof
    fix c assume "c \<in> set (concat ?G)"
    then obtain row s blk where row: "row \<in> set ?rows"
      and "(s, blk) \<in> set (zip sc (chunks q row))" "c = map ((*) s) blk"
      by auto
    moreover have "length row = n * q" using rowlen row by blast
    ultimately show "length c = q" using length_chunk_elem [OF q0, of row n] by (auto dest: set_zip_rightD)
  qed
  have D: "?D = concat (concat ?G)" by (rule concat_map_concat_fun)
  have lG: "length (concat ?G) = N * n" using length_concat_const [OF Glen] lrows by simp
  have "block q ?D k = map ((*) (sc ! (k mod n))) (block q ?x k)" if k: "k < N * n" for k
  proof -
    let ?i = "k div n" and ?j = "k mod n"
    have i: "?i < N" using k n0 by (simp add: less_mult_imp_div_less)
    have j: "?j < n" using n0 by simp
    have kk: "k = ?i * n + ?j" by simp
    have "block q ?D k = concat ?G ! k" using D block_concat [OF q0 blklen] k lG by simp
    also have "\<dots> = ?G ! ?i ! ?j" using nth_concat_const [OF Glen _ j, of ?i] i lrows kk by simp
    also have "\<dots> = map ((*) (sc ! ?j)) (block q (block (n * q) ?x ?i) ?j)"
      using i j sc q0 lrows len nq rowlen
      by (simp add: nth_chunks_block length_chunks length_block [OF len i] mult.commute)
    also have "\<dots> = map ((*) (sc ! ?j)) (block q ?x k)" by (simp only: block_block [OF j] div_mult_mod_eq)
    finally show ?thesis .
  qed
  moreover have "length ?D = N * n * q" using D length_concat_const [OF blklen] lG by simp
  moreover have "einsum_scale sc (length rest) a = Inr (a\<lparr>adata := ?D\<rparr>)"
    using sh sc rest by (simp add: einsum_scale_def Let_def nth_append)
  ultimately show ?thesis by blast
qed


section \<open>Arrays of one axis and scalar broadcasting\<close>

lemma array1_sel: "ashape (array1 xs) = [length xs]" "adata (array1 xs) = xs"
  by (simp_all add: array1_def)

lemma amap_array1: "amap f (array1 xs) = array1 (map f xs)"
  by (simp add: amap_def array1_def)

lemma broadcast_shape_1_left: "broadcast_shape [Suc 0] [m] = Inr [m]"
  by (simp add: broadcast_shape_def)

lemma broadcast_shape_1_right: "broadcast_shape [m] [Suc 0] = Inr [m]"
  by (simp add: broadcast_shape_def)

lemma bcast_scalar1: "bcast [Suc 0] [m] [c] = replicate m c"
  by (cases "m = Suc 0") (simp_all add: chunks.simps)

lemma bcast_vec_same: "length d = m \<Longrightarrow> bcast [m] [m] d = d"
  by (cases "m = 0") (simp_all add: chunks_1 comp_def)

lemma bin_op_scalar_left:
  "length d = m \<Longrightarrow> bin_op f (array1 [c]) \<lparr>ashape = [m], adata = d\<rparr> = Inr \<lparr>ashape = [m], adata = map (f c) d\<rparr>"
  by (simp add: bin_op_def array1_def broadcast_shape_1_left broadcast_shape_same bcast_scalar1 bcast_vec_same
                map2_replicate_left del: bcast.simps)

lemma bin_op_scalar_right:
  "length d = m \<Longrightarrow> bin_op f \<lparr>ashape = [m], adata = d\<rparr> (array1 [c]) = Inr \<lparr>ashape = [m], adata = map (\<lambda>x. f x c) d\<rparr>"
  by (simp add: bin_op_def array1_def broadcast_shape_1_right broadcast_shape_1_left broadcast_shape_same
                bcast_scalar1 bcast_vec_same map2_replicate_right del: bcast.simps)

lemma broadcast_arrays2_scalar_left:
  "length d = m \<Longrightarrow> broadcast_arrays2 (array1 [c]) \<lparr>ashape = [m], adata = d\<rparr> =
     Inr (\<lparr>ashape = [m], adata = replicate m c\<rparr>, \<lparr>ashape = [m], adata = d\<rparr>)"
  by (simp add: broadcast_arrays2_def broadcast_to_def array1_def broadcast_shape_1_left broadcast_shape_same
                bcast_scalar1 bcast_vec_same del: bcast.simps)

lemma bin_op_array1: "bin_op f (array1 [x]) (array1 [y]) = Inr (array1 [f x y])"
  by (simp add: bin_op_same wf_arr_def array1_def)


lemma bshape_rev_prefix: "bshape_rev (xs @ ys) xs = Some (xs @ ys)" "bshape_rev xs (xs @ ys) = Some (xs @ ys)"
  by (induct xs) simp_all

lemma broadcast_shape_lead: "broadcast_shape (m # s) s = Inr (m # s)" "broadcast_shape s (m # s) = Inr (m # s)"
  by (simp_all add: broadcast_shape_def bshape_rev_prefix)

lemma bcast_lead: "length d = prod_list s \<Longrightarrow> bcast s (m # s) d = concat (replicate m d)"
  by (simp add: bcast_same)

lemma broadcast_arrays2_lead:
  "wf_arr x \<Longrightarrow> wf_arr b \<Longrightarrow> ashape x = m # ashape b \<Longrightarrow>
   broadcast_arrays2 x b = Inr (x, \<lparr>ashape = m # ashape b, adata = concat (replicate m (adata b))\<rparr>)"
  by (simp add: broadcast_arrays2_def broadcast_to_def broadcast_shape_lead bcast_same bcast_lead wf_arr_def
           del: bcast.simps)

lemma get_batch_shape_lead: "get_batch_shape (length s) [m # s, s] = Inr [m]"
  by (simp add: get_batch_shape_def broadcast_shape_lead)

lemma einsum_scalar_ellipsis_points:
  assumes "length (ashape a) = k" "wf_arr a" "0 < prod_list (ashape a)"
  shows "einsum_scalar_ellipsis k (array1 ts) a =
           Inr \<lparr>ashape = length ts # ashape a, adata = concat (map (\<lambda>\<tau>. map ((*) \<tau>) (adata a)) ts)\<rparr>"
proof -
  have "chunks (prod_list (ashape a)) (concat (replicate (length ts) (adata a))) = replicate (length ts) (adata a)"
    by (rule chunks_concat [OF assms(3)]) (use assms(2) in \<open>simp add: wf_arr_def\<close>)
  then show ?thesis
    using assms by (simp add: einsum_scalar_ellipsis_def array1_def bcast_vec_same bcast_lead wf_arr_def
                              map2_replicate_right del: bcast.simps)
qed


lemma stack_same:
  "as \<noteq> [] \<Longrightarrow> \<forall>a \<in> set as. ashape a = s \<Longrightarrow> stack as = Inr \<lparr>ashape = length as # s, adata = concat (map adata as)\<rparr>"
  by (cases as) (auto simp: stack_def)

lemma arr_index_wf:
  "wf_arr a \<Longrightarrow> ashape a = d # s \<Longrightarrow> i < d \<Longrightarrow> wf_arr (arr_index a i)"
  using length_block [of "adata a" d "prod_list s" i] by (simp add: arr_index_def wf_arr_def mult.commute)

end
