(* ===== verification/Manifold.thy ===== *)
theory Manifold
  imports Arrays
begin

text \<open>
  The manifold/metric contract (\<^verbatim>\<open>geomstats.geometry.manifold.Manifold\<close>,
  \<^verbatim>\<open>geomstats.geometry.riemannian_metric.RiemannianMetric\<close>): a manifold is a record
  of its descriptors and of its batched operations, each taking and returning arrays
  with any leading batch axes; the metric it is equipped with is a record of the
  metric's batched operations. A composite such as the N-fold product calls these
  fields of its base manifold and nothing else.

  The contract that the composite relies on (the spec's \<^emph>\<open>external interfaces\<close>:
  the base must accept arbitrary leading batch dimensions) is stated as the
  predicates \<open>*_vectorized\<close>: on an array of shape \<open>(n, *shape)\<close> the batched
  operation succeeds and acts on each of the \<open>n\<close> points independently, by a
  pointwise function of the point's flat data. Lemmas of a composite are proved
  under these predicates; a concrete manifold discharges them.
\<close>

record metric =
  metric_matrix_op :: "real arr \<Rightarrow> real arr result"
  inner_product_op :: "real arr \<Rightarrow> real arr \<Rightarrow> real arr \<Rightarrow> real arr result"
  exp_op :: "real arr \<Rightarrow> real arr \<Rightarrow> real arr result"
  log_op :: "real arr \<Rightarrow> real arr \<Rightarrow> real arr result"

text \<open>
  \<open>m_projection\<close> is \<open>None\<close> when the class has no \<^verbatim>\<open>projection\<close> attribute
  (the composer probes it with \<^verbatim>\<open>hasattr\<close>); \<open>m_random_point n bound\<close> is the
  sample drawn by \<^verbatim>\<open>random_point(n, bound)\<close>, the random source being fixed.
\<close>

record manifold =
  m_dim :: nat
  m_shape :: "nat list"
  m_default_coords_type :: string
  m_belongs :: "real arr \<Rightarrow> real \<Rightarrow> bool arr result"
  m_is_tangent :: "real arr \<Rightarrow> real arr \<Rightarrow> real \<Rightarrow> bool arr result"
  m_to_tangent :: "real arr \<Rightarrow> real arr \<Rightarrow> real arr result"
  m_projection :: "(real arr \<Rightarrow> real arr result) option"
  m_random_point :: "nat \<Rightarrow> real \<Rightarrow> real arr result"
  m_metric :: metric

definition point_size :: "manifold \<Rightarrow> nat" where
  "point_size M = prod_list (m_shape M)"

definition batch_arr :: "manifold \<Rightarrow> nat \<Rightarrow> real list \<Rightarrow> real arr" where
  "batch_arr M n x = \<lparr>ashape = n # m_shape M, adata = x\<rparr>"

section \<open>The vectorization contract\<close>

definition belongs_vectorized :: "manifold \<Rightarrow> (real list \<Rightarrow> real \<Rightarrow> bool) \<Rightarrow> bool" where
  "belongs_vectorized M f \<longleftrightarrow>
     (\<forall>n x atol. length x = n * point_size M \<longrightarrow>
        (\<exists>r. m_belongs M (batch_arr M n x) atol = Inr r \<and>
             adata r = map (\<lambda>p. f p atol) (chunks (point_size M) x)))"

definition is_tangent_vectorized ::
  "manifold \<Rightarrow> (real list \<Rightarrow> real list \<Rightarrow> real \<Rightarrow> bool) \<Rightarrow> bool" where
  "is_tangent_vectorized M f \<longleftrightarrow>
     (\<forall>n v b atol. length v = n * point_size M \<longrightarrow> length b = n * point_size M \<longrightarrow>
        (\<exists>r. m_is_tangent M (batch_arr M n v) (batch_arr M n b) atol = Inr r \<and>
             adata r = map2 (\<lambda>x y. f x y atol) (chunks (point_size M) v) (chunks (point_size M) b)))"

text \<open>
  An operation that returns a point or a tangent vector per point: its pointwise
  function maps points of size \<open>k\<close> to points of size \<open>k\<close>, and the batched call
  concatenates the results.
\<close>

definition binary_vectorized ::
  "manifold \<Rightarrow> (real arr \<Rightarrow> real arr \<Rightarrow> real arr result) \<Rightarrow>
   (real list \<Rightarrow> real list \<Rightarrow> real list) \<Rightarrow> bool" where
  "binary_vectorized M op g \<longleftrightarrow>
     (\<forall>x y. length x = point_size M \<longrightarrow> length y = point_size M \<longrightarrow>
        length (g x y) = point_size M) \<and>
     (\<forall>n v b. length v = n * point_size M \<longrightarrow> length b = n * point_size M \<longrightarrow>
        (\<exists>r. op (batch_arr M n v) (batch_arr M n b) = Inr r \<and>
             adata r = concat (map2 g (chunks (point_size M) v) (chunks (point_size M) b))))"

definition inner_product_vectorized ::
  "manifold \<Rightarrow> (real list \<Rightarrow> real list \<Rightarrow> real list \<Rightarrow> real) \<Rightarrow> bool" where
  "inner_product_vectorized M h \<longleftrightarrow>
     (\<forall>n u v b. length u = n * point_size M \<longrightarrow> length v = n * point_size M \<longrightarrow>
        length b = n * point_size M \<longrightarrow>
        (\<exists>r. inner_product_op (m_metric M) (batch_arr M n u) (batch_arr M n v) (batch_arr M n b) = Inr r \<and>
             adata r = map (\<lambda>(x, y, z). h x y z)
                         (zip (chunks (point_size M) u)
                              (zip (chunks (point_size M) v) (chunks (point_size M) b)))))"

text \<open>
  \<^verbatim>\<open>metric_matrix\<close> on a batch of \<open>n\<close> points returns an array of shape
  \<open>(n, dim, dim)\<close>, one \<open>dim \<times> dim\<close> matrix (flattened row-major by \<open>mm\<close>) per point.
\<close>

definition metric_matrix_vectorized :: "manifold \<Rightarrow> (real list \<Rightarrow> real list) \<Rightarrow> bool" where
  "metric_matrix_vectorized M mm \<longleftrightarrow>
     (\<forall>x. length x = point_size M \<longrightarrow> length (mm x) = m_dim M * m_dim M) \<and>
     (\<forall>n x. length x = n * point_size M \<longrightarrow>
        (\<exists>r. metric_matrix_op (m_metric M) (batch_arr M n x) = Inr r \<and>
             ashape r = [n, m_dim M, m_dim M] \<and> adata r = concat (map mm (chunks (point_size M) x))))"

text \<open>The manifold has a \<^verbatim>\<open>projection\<close>, and it projects each point of a batch by \<open>pr\<close>.\<close>

definition projection_vectorized :: "manifold \<Rightarrow> (real list \<Rightarrow> real list) \<Rightarrow> bool" where
  "projection_vectorized M pr \<longleftrightarrow>
     (\<exists>op. m_projection M = Some op \<and>
        (\<forall>x. length x = point_size M \<longrightarrow> length (pr x) = point_size M) \<and>
        (\<forall>n x. length x = n * point_size M \<longrightarrow>
           (\<exists>r. op (batch_arr M n x) = Inr r \<and> adata r = concat (map pr (chunks (point_size M) x)))))"

text \<open>The base's sampler returns \<open>n\<close> points' worth of data.\<close>

definition sampler_sized :: "manifold \<Rightarrow> bool" where
  "sampler_sized M \<longleftrightarrow>
     (\<forall>n bound r. m_random_point M n bound = Inr r \<longrightarrow> length (adata r) = n * point_size M)"

section \<open>Facts\<close>

lemma reshape_flat_batch:
  "0 < point_size B \<Longrightarrow> length (adata a) = N * point_size B \<Longrightarrow>
   reshape_flat (m_shape B) a = Inr (batch_arr B N (adata a))"
  by (simp add: reshape_flat_def point_size_def batch_arr_def Let_def)

end
