(* ===== verification/NFold.thy ===== *)
theory NFold
  imports Manifold
begin

text \<open>
  The N-fold product of \<^verbatim>\<open>src/geomstats/geometry/nfold_manifold.py\<close>:
  \<open>NFoldManifold\<close> (a record built by the constructor \<open>NFoldManifold\<close>) and its
  operations \<open>NFoldManifold_belongs\<close>, \<open>_is_tangent\<close>, \<open>_to_tangent\<close>,
  \<open>_random_point\<close>, \<open>_projection\<close>; \<open>NFoldMetric\<close> with \<open>_metric_matrix\<close>,
  \<open>_inner_product\<close>, \<open>_exp\<close> and \<open>_log\<close> (\<open>geodesic\<close> is in \<open>NFoldGeodesic\<close>).
  Every operation is the source's flatten / delegate / reshape sequence over the
  array model, each step a possible failure. The lemmas here show what the
  manifold's operations and the inner product compute when the base manifold meets
  the vectorization contract (per-copy membership with a logical AND over the
  copies, the direct sum of tangent projections, the scaled sum of the per-copy
  inner products), the shared flatten / delegate / reshape lemma
  \<open>nfold_delegate2\<close>, and the construction errors; \<open>NFoldMetricMaps\<close> and
  \<open>NFoldSampling\<close> continue with the other operations.
\<close>

section \<open>Validation helpers of geomstats.errors\<close>

definition check_integer :: "int \<Rightarrow> string \<Rightarrow> unit result" where
  "check_integer n n_name =
     (if 0 < n then Inr () else Inl (ValueError (n_name @ '' is required to be an integer > 0'')))"

definition check_positive :: "real \<Rightarrow> string \<Rightarrow> unit result" where
  "check_positive x name =
     (if 0 < x then Inr () else Inl (ValueError (name @ '' must be positive'')))"

section \<open>NFoldManifold\<close>

record nfold_manifold =
  base_manifold :: manifold
  n_copies :: nat
  nf_dim :: nat
  nf_shape :: "nat list"
  nf_default_coords_type :: string

definition point_ndim :: "nfold_manifold \<Rightarrow> nat" where
  "point_ndim M = length (nf_shape M)"

text \<open>\<^verbatim>\<open>NFoldManifold.__init__\<close>: \<open>dim = n_copies * base.dim\<close>, \<open>shape = (n_copies,) + base.shape\<close>.\<close>

definition NFoldManifold :: "manifold \<Rightarrow> int \<Rightarrow> nfold_manifold result" where
  "NFoldManifold base n =
     bindE (check_integer n ''n_copies'') (\<lambda>_.
       Inr \<lparr>base_manifold = base, n_copies = nat n, nf_dim = nat n * m_dim base,
            nf_shape = nat n # m_shape base,
            nf_default_coords_type = m_default_coords_type base\<rparr>)"

definition NFoldManifold_belongs :: "nfold_manifold \<Rightarrow> real arr \<Rightarrow> real \<Rightarrow> bool arr result" where
  "NFoldManifold_belongs M point atol =
     bindE (get_batch_shape (point_ndim M) [ashape point]) (\<lambda>batch_shape.
     bindE (reshape_flat (m_shape (base_manifold M)) point) (\<lambda>point'.
     bindE (m_belongs (base_manifold M) point' atol) (\<lambda>each_belongs.
     bindE (reshape (batch_shape @ [n_copies M]) each_belongs) (\<lambda>reshaped.
     all_last reshaped))))"

definition NFoldManifold_is_tangent ::
  "nfold_manifold \<Rightarrow> real arr \<Rightarrow> real arr \<Rightarrow> real \<Rightarrow> bool arr result" where
  "NFoldManifold_is_tangent M vector base_point atol =
     bindE (broadcast_arrays2 vector base_point) (\<lambda>(vector', base_point').
     bindE (get_batch_shape (point_ndim M) [ashape vector']) (\<lambda>batch_shape.
     bindE (reshape_flat (m_shape (base_manifold M)) base_point') (\<lambda>base_point'.
     bindE (reshape_flat (m_shape (base_manifold M)) vector') (\<lambda>vector'.
     bindE (m_is_tangent (base_manifold M) vector' base_point' atol) (\<lambda>each_tangent.
     bindE (reshape (batch_shape @ [n_copies M]) each_tangent) (\<lambda>reshaped.
     all_last reshaped))))))"

definition NFoldManifold_to_tangent ::
  "nfold_manifold \<Rightarrow> real arr \<Rightarrow> real arr \<Rightarrow> real arr result" where
  "NFoldManifold_to_tangent M vector base_point =
     bindE (broadcast_arrays2 vector base_point) (\<lambda>(vector', base_point').
     bindE (reshape_flat (m_shape (base_manifold M)) base_point') (\<lambda>base_point'.
     bindE (get_batch_shape (point_ndim M) [ashape vector']) (\<lambda>batch_shape.
     bindE (reshape_flat (m_shape (base_manifold M)) vector') (\<lambda>vector'.
     bindE (m_to_tangent (base_manifold M) vector' base_point') (\<lambda>each_tangent.
     reshape (batch_shape @ nf_shape M) each_tangent)))))"

text \<open>
  \<^verbatim>\<open>random_point\<close>: one batched call to the base sampler for all
  \<open>n_samples * n_copies\<close> points, then a reshape; the leading axis is squeezed
  unless \<open>n_samples > 1\<close>.
\<close>

definition NFoldManifold_random_point :: "nfold_manifold \<Rightarrow> nat \<Rightarrow> real \<Rightarrow> real arr result" where
  "NFoldManifold_random_point M n_samples bound =
     bindE (m_random_point (base_manifold M) (n_samples * n_copies M) bound) (\<lambda>sample.
     bindE (reshape ([n_samples, n_copies M] @ m_shape (base_manifold M)) sample) (\<lambda>reshaped.
     if 1 < n_samples then Inr reshaped else squeeze0 reshaped))"

definition NFoldManifold_projection :: "nfold_manifold \<Rightarrow> real arr \<Rightarrow> real arr result" where
  "NFoldManifold_projection M point =
     (case m_projection (base_manifold M) of
        Some projection \<Rightarrow>
          bindE (get_batch_shape (point_ndim M) [ashape point]) (\<lambda>batch_shape.
          bindE (reshape_flat (m_shape (base_manifold M)) point) (\<lambda>point'.
          bindE (projection point') (\<lambda>projected.
          reshape (batch_shape @ nf_shape M) projected)))
      | None \<Rightarrow> Inl (NotImplementedError ''The base manifold does not implement a projection method.''))"

section \<open>NFoldMetric\<close>

record nfold_metric =
  nm_space :: nfold_manifold
  scales :: "real list option"

fun check_scales :: "real list \<Rightarrow> unit result" where
  "check_scales [] = Inr ()"
| "check_scales (s # ss) = bindE (check_positive s ''Each value in scales'') (\<lambda>_. check_scales ss)"

text \<open>\<^verbatim>\<open>NFoldMetric.__init__\<close>: every scale is checked positive first, then the count.\<close>

definition NFoldMetric :: "nfold_manifold \<Rightarrow> real list option \<Rightarrow> nfold_metric result" where
  "NFoldMetric space sc =
     (case sc of
        None \<Rightarrow> Inr \<lparr>nm_space = space, scales = None\<rparr>
      | Some ss \<Rightarrow>
          bindE (check_scales ss) (\<lambda>_.
            if length ss \<noteq> n_copies space
            then Inl (ValueError ''Number of scales should be equal to number of factors'')
            else Inr \<lparr>nm_space = space, scales = Some ss\<rparr>))"

text \<open>
  \<^verbatim>\<open>NFoldManifold.default_metric\<close>: with \<open>equip=True\<close> the manifold is equipped with
  \<^verbatim>\<open>NFoldMetric(space)\<close>, without scales.
\<close>

definition NFoldManifold_default_metric :: "nfold_manifold \<Rightarrow> nfold_metric result" where
  "NFoldManifold_default_metric space = NFoldMetric space None"

text \<open>\<^verbatim>\<open>metric_matrix\<close> reads the matrix size from \<^verbatim>\<open>base_manifold.shape[-1]\<close>.\<close>

definition NFoldMetric_metric_matrix :: "nfold_metric \<Rightarrow> real arr \<Rightarrow> real arr result" where
  "NFoldMetric_metric_matrix g base_point =
     (let M = nm_space g; base = base_manifold M in
      bindE (get_batch_shape (point_ndim M) [ashape base_point]) (\<lambda>batch_shape.
      bindE (reshape_flat (m_shape base) base_point) (\<lambda>point'.
      bindE (metric_matrix_op (m_metric base) point') (\<lambda>matrices.
      if m_shape base = [] then Inl (IndexError ''tuple index out of range'')
      else let dim = last (m_shape base) in
      bindE (reshape (batch_shape @ [n_copies M, dim, dim]) matrices) (\<lambda>reshaped.
      case scales g of
        None \<Rightarrow> Inr reshaped
      | Some sc \<Rightarrow> einsum_scale sc 2 reshaped)))))"

definition NFoldMetric_inner_product ::
  "nfold_metric \<Rightarrow> real arr \<Rightarrow> real arr \<Rightarrow> real arr \<Rightarrow> real arr result" where
  "NFoldMetric_inner_product g tangent_vec_a tangent_vec_b base_point =
     (let M = nm_space g; base = base_manifold M in
      bindE (broadcast_arrays3 tangent_vec_a tangent_vec_b base_point) (\<lambda>(tangent_vec_a', tangent_vec_b', point').
      bindE (get_batch_shape (point_ndim M) [ashape tangent_vec_a']) (\<lambda>batch_shape.
      bindE (reshape_flat (m_shape base) point') (\<lambda>point'.
      bindE (reshape_flat (m_shape base) tangent_vec_a') (\<lambda>vector_a.
      bindE (reshape_flat (m_shape base) tangent_vec_b') (\<lambda>vector_b.
      bindE (inner_product_op (m_metric base) vector_a vector_b point') (\<lambda>inner_each.
      bindE (reshape (batch_shape @ [n_copies M]) inner_each) (\<lambda>reshaped.
      bindE (case scales g of None \<Rightarrow> Inr reshaped | Some sc \<Rightarrow> einsum_scale sc 0 reshaped)
        sum_last))))))))"

definition NFoldMetric_exp :: "nfold_metric \<Rightarrow> real arr \<Rightarrow> real arr \<Rightarrow> real arr result" where
  "NFoldMetric_exp g tangent_vec base_point =
     (let M = nm_space g; base = base_manifold M in
      bindE (get_batch_shape (point_ndim M) [ashape tangent_vec, ashape base_point]) (\<lambda>batch_shape.
      bindE (broadcast_arrays2 tangent_vec base_point) (\<lambda>(tangent_vec, point').
      bindE (reshape_flat (m_shape base) point') (\<lambda>point'.
      bindE (reshape_flat (m_shape base) tangent_vec) (\<lambda>vector'.
      bindE (exp_op (m_metric base) vector' point') (\<lambda>each_exp.
      reshape (batch_shape @ nf_shape M) each_exp))))))"

definition NFoldMetric_log :: "nfold_metric \<Rightarrow> real arr \<Rightarrow> real arr \<Rightarrow> real arr result" where
  "NFoldMetric_log g point base_point =
     (let M = nm_space g; base = base_manifold M in
      bindE (get_batch_shape (point_ndim M) [ashape point, ashape base_point]) (\<lambda>batch_shape.
      bindE (broadcast_arrays2 point base_point) (\<lambda>(point', base_point').
      bindE (reshape_flat (m_shape base) base_point') (\<lambda>base_point'.
      bindE (reshape_flat (m_shape base) point') (\<lambda>point'.
      bindE (log_op (m_metric base) point' base_point') (\<lambda>each_log.
      reshape (batch_shape @ nf_shape M) each_log))))))"

section \<open>Invariants\<close>

text \<open>
  What the constructors establish: a positive number of copies, the product shape
  and dimension, and for the metric scales that are positive and one per copy.
\<close>

definition nfold_wf :: "nfold_manifold \<Rightarrow> bool" where
  "nfold_wf M \<longleftrightarrow> 0 < n_copies M \<and> nf_shape M = n_copies M # m_shape (base_manifold M)
      \<and> nf_dim M = n_copies M * m_dim (base_manifold M)"

definition nfold_metric_wf :: "nfold_metric \<Rightarrow> bool" where
  "nfold_metric_wf g \<longleftrightarrow> nfold_wf (nm_space g) \<and>
     (case scales g of None \<Rightarrow> True
      | Some s \<Rightarrow> length s = n_copies (nm_space g) \<and> list_all (\<lambda>x. 0 < x) s)"

text \<open>The weight of copy \<open>j\<close> in the product metric: 1 without scales.\<close>

definition scale_weight :: "real list option \<Rightarrow> nat \<Rightarrow> real" where
  "scale_weight sc j = (case sc of None \<Rightarrow> 1 | Some s \<Rightarrow> s ! j)"

section \<open>Construction\<close>

lemma NFoldManifold_wf: "NFoldManifold B n = Inr M \<Longrightarrow> nfold_wf M"
  by (auto simp: NFoldManifold_def check_integer_def nfold_wf_def split: if_splits)

text \<open>C28: NFoldManifold construction succeeds exactly for a positive number of copies, and then has dimension n_copies * base dim and shape (n_copies,) + base shape; for a non-positive number of copies it fails with the ValueError of check_integer.\<close>

theorem NFoldManifold_dim_shape:
  "(NFoldManifold B n = Inr M \<longleftrightarrow>
      0 < n \<and> M = \<lparr>base_manifold = B, n_copies = nat n, nf_dim = nat n * m_dim B,
                    nf_shape = nat n # m_shape B, nf_default_coords_type = m_default_coords_type B\<rparr>) \<and>
   (n \<le> 0 \<longrightarrow> NFoldManifold B n = Inl (ValueError ''n_copies is required to be an integer > 0''))"
  by (auto simp: NFoldManifold_def check_integer_def)

lemma check_scales_ok: "check_scales ss = Inr u \<longleftrightarrow> list_all (\<lambda>x. 0 < x) ss"
  by (induction ss) (auto simp: check_positive_def)

lemma NFoldMetric_wf: "nfold_wf M \<Longrightarrow> NFoldMetric M sc = Inr g \<Longrightarrow> nfold_metric_wf g"
  by (cases sc) (auto simp: NFoldMetric_def nfold_metric_wf_def bindE_eq_Inr_iff check_scales_ok
                      split: if_splits)

lemma NFoldManifold_default_metric_wf:
  "nfold_wf M \<Longrightarrow> NFoldManifold_default_metric M = Inr \<lparr>nm_space = M, scales = None\<rparr> \<and>
                   nfold_metric_wf \<lparr>nm_space = M, scales = None\<rparr>"
  by (simp add: NFoldManifold_default_metric_def NFoldMetric_def nfold_metric_wf_def)

lemma check_scales_pos: "list_all (\<lambda>x. 0 < x) ss \<Longrightarrow> check_scales ss = Inr ()"
  by (induction ss) (auto simp: check_positive_def)

lemma check_scales_neg:
  "\<not> list_all (\<lambda>x. 0 < x) ss \<Longrightarrow>
   check_scales ss = Inl (ValueError ''Each value in scales must be positive'')"
  by (induction ss) (auto simp: check_positive_def)

text \<open>C29: Constructing NFoldMetric fails with a ValueError when a scale is not positive, and, with positive scales, when their number differs from n_copies: the sign check runs before the count check, both before any computation.\<close>

theorem NFoldMetric_scales_errors:
  "(\<not> list_all (\<lambda>x. 0 < x) ss \<longrightarrow>
      NFoldMetric M (Some ss) = Inl (ValueError ''Each value in scales must be positive'')) \<and>
   (list_all (\<lambda>x. 0 < x) ss \<and> length ss \<noteq> n_copies M \<longrightarrow>
      NFoldMetric M (Some ss) = Inl (ValueError ''Number of scales should be equal to number of factors''))"
  by (simp add: NFoldMetric_def check_scales_pos check_scales_neg)

section \<open>NFoldManifold operations\<close>

lemma nfold_point_length:
  assumes "nfold_wf M" "wf_arr point" "ashape point = bs @ nf_shape M"
  shows "length (adata point) = (prod_list bs * n_copies M) * point_size (base_manifold M)"
  using assms by (simp add: nfold_wf_def wf_arr_def point_size_def)

lemma nfold_batch_shape:
  "ashape point = bs @ nf_shape M \<Longrightarrow> get_batch_shape (point_ndim M) [ashape point] = Inr bs"
  by (simp add: point_ndim_def get_batch_shape_one)

lemma nfold_batch_shape2:
  "ashape x = bs @ nf_shape M \<Longrightarrow> ashape y = ashape x \<Longrightarrow>
   get_batch_shape (point_ndim M) [ashape x, ashape y] = Inr bs"
  by (simp add: point_ndim_def get_batch_shape_def broadcast_shapes_same)

lemma NFoldManifold_belongs_rows:
  assumes wf: "nfold_wf M" and pos: "0 < point_size (base_manifold M)"
    and vec: "belongs_vectorized (base_manifold M) f"
    and pt: "wf_arr point" "ashape point = bs @ nf_shape M"
  shows "NFoldManifold_belongs M point atol =
           Inr \<lparr>ashape = bs,
                adata = map (\<lambda>q. \<forall>c \<in> set (chunks (point_size (base_manifold M)) q). f c atol)
                            (chunks (n_copies M * point_size (base_manifold M)) (adata point))\<rparr>"
proof -
  let ?B = "base_manifold M" and ?p = "point_size (base_manifold M)" and ?n = "n_copies M"
  let ?N = "prod_list bs * ?n" and ?x = "adata point"
  have len: "length ?x = ?N * ?p" using nfold_point_length [OF wf pt] .
  have n0: "0 < ?n" using wf by (simp add: nfold_wf_def)
  obtain r where r: "m_belongs ?B (batch_arr ?B ?N ?x) atol = Inr r"
    and rd: "adata r = map (\<lambda>c. f c atol) (chunks ?p ?x)"
    using vec len unfolding belongs_vectorized_def by blast
  have lr: "length (adata r) = ?N" using rd len pos by (simp add: length_chunks)
  have cc: "chunks ?n (chunks ?p ?x) = map (chunks ?p) (chunks (?n * ?p) ?x)"
    using chunks_chunks [OF pos n0, of ?x "prod_list bs"] len by (simp add: ac_simps)
  show ?thesis
    using nfold_batch_shape [OF pt(2)] reshape_flat_batch [OF pos len] r lr n0 cc
    by (simp add: NFoldManifold_belongs_def reshape_Inr all_last_snoc rd chunks_map list_all_iff)
qed

text \<open>C1: NFoldManifold.belongs on a batch of product points returns, for each batch element, the conjunction over its copies of the base manifold's membership test: a product point belongs iff every copy belongs.\<close>

theorem NFoldManifold_belongs_copies:
  assumes wf: "nfold_wf M" and pos: "0 < point_size (base_manifold M)"
    and vec: "belongs_vectorized (base_manifold M) f"
    and pt: "wf_arr point" "ashape point = bs @ nf_shape M"
  shows "\<exists>r. NFoldManifold_belongs M point atol = Inr r \<and> ashape r = bs \<and>
             length (adata r) = prod_list bs \<and>
             (\<forall>i < prod_list bs. adata r ! i \<longleftrightarrow>
                (\<forall>j < n_copies M. f (block (point_size (base_manifold M)) (adata point) (i * n_copies M + j)) atol))"
proof -
  let ?p = "point_size (base_manifold M)" and ?n = "n_copies M" and ?x = "adata point"
  let ?F = "\<lambda>q. \<forall>c \<in> set (chunks ?p q). f c atol"
  have len: "length ?x = prod_list bs * (?n * ?p)"
    using nfold_point_length [OF wf pt] by (simp add: ac_simps)
  have np: "0 < ?n * ?p" using wf pos by (simp add: nfold_wf_def)
  have row: "?F (block (?n * ?p) ?x i) \<longleftrightarrow> (\<forall>j < ?n. f (block ?p ?x (i * ?n + j)) atol)"
    if i: "i < prod_list bs" for i
  proof -
    let ?b = "block (?n * ?p) ?x i"
    have lb: "length ?b = ?n * ?p" using length_block [OF len i] .
    have "?F ?b \<longleftrightarrow> (\<forall>j < length (chunks ?p ?b). f (chunks ?p ?b ! j) atol)"
      by (simp add: all_set_conv_all_nth)
    also have "\<dots> \<longleftrightarrow> (\<forall>j < ?n. f (block ?p ?b j) atol)"
      using lb pos by (simp add: length_chunks nth_chunks_block)
    also have "\<dots> \<longleftrightarrow> (\<forall>j < ?n. f (block ?p ?x (i * ?n + j)) atol)"
      by (simp add: block_block)
    finally show ?thesis .
  qed
  show ?thesis
    using NFoldManifold_belongs_rows [OF wf pos vec pt, of atol] len np row
    by (simp add: length_chunks nth_chunks_block)
qed

lemma nfold_pair_length:
  assumes "nfold_wf M" "wf_arr v" "ashape v = bs @ nf_shape M" "wf_arr b" "ashape b = ashape v"
  shows "length (adata v) = (prod_list bs * n_copies M) * point_size (base_manifold M)"
    and "length (adata b) = (prod_list bs * n_copies M) * point_size (base_manifold M)"
  using assms nfold_point_length [of M v bs] nfold_point_length [of M b bs] by auto

lemma NFoldManifold_is_tangent_pairs:
  assumes wf: "nfold_wf M" and pos: "0 < point_size (base_manifold M)"
    and vec: "is_tangent_vectorized (base_manifold M) f"
    and v: "wf_arr v" "ashape v = bs @ nf_shape M" and b: "wf_arr b" "ashape b = ashape v"
  shows "NFoldManifold_is_tangent M v b atol =
           Inr \<lparr>ashape = bs,
                adata = map (list_all (\<lambda>(cv, cb). f cv cb atol))
                          (chunks (n_copies M) (zip (chunks (point_size (base_manifold M)) (adata v))
                                                    (chunks (point_size (base_manifold M)) (adata b))))\<rparr>"
proof -
  let ?B = "base_manifold M" and ?p = "point_size (base_manifold M)" and ?n = "n_copies M"
  let ?N = "prod_list bs * ?n" and ?x = "adata v" and ?y = "adata b"
  have lx: "length ?x = ?N * ?p" and ly: "length ?y = ?N * ?p"
    using nfold_pair_length [OF wf v b] by auto
  have n0: "0 < ?n" using wf by (simp add: nfold_wf_def)
  obtain r where r: "m_is_tangent ?B (batch_arr ?B ?N ?x) (batch_arr ?B ?N ?y) atol = Inr r"
    and rd: "adata r = map2 (\<lambda>c d. f c d atol) (chunks ?p ?x) (chunks ?p ?y)"
    using vec lx ly unfolding is_tangent_vectorized_def by blast
  have lr: "length (adata r) = ?N" using rd lx ly pos by (simp add: length_chunks)
  have bc: "broadcast_arrays2 v b = Inr (v, b)"
    using v b by (simp add: broadcast_arrays2_same)
  show ?thesis
    using nfold_batch_shape [OF v(2)] reshape_flat_batch [OF pos lx] reshape_flat_batch [OF pos ly]
      bc r lr n0
    by (simp add: NFoldManifold_is_tangent_def reshape_Inr all_last_snoc rd chunks_map case_prod_unfold
                  list_all_iff)
qed

text \<open>C5: NFoldManifold.is_tangent holds at a batch element iff the base tangency test holds for every pair of matching copies of the vector and the base point.\<close>

theorem NFoldManifold_is_tangent_copies:
  assumes wf: "nfold_wf M" and pos: "0 < point_size (base_manifold M)"
    and vec: "is_tangent_vectorized (base_manifold M) f"
    and v: "wf_arr v" "ashape v = bs @ nf_shape M" and b: "wf_arr b" "ashape b = ashape v"
  shows "NFoldManifold_is_tangent M v b atol =
           Inr \<lparr>ashape = bs,
                adata = map2 (\<lambda>qv qb. list_all (\<lambda>(cv, cb). f cv cb atol)
                                           (zip (chunks (point_size (base_manifold M)) qv)
                                                (chunks (point_size (base_manifold M)) qb)))
                             (chunks (n_copies M * point_size (base_manifold M)) (adata v))
                             (chunks (n_copies M * point_size (base_manifold M)) (adata b))\<rparr>"
proof -
  let ?p = "point_size (base_manifold M)" and ?n = "n_copies M" and ?N = "prod_list bs * n_copies M"
  have lx: "length (adata v) = ?N * ?p" and ly: "length (adata b) = ?N * ?p"
    using nfold_pair_length [OF wf v b] by auto
  have n0: "0 < ?n" using wf by (simp add: nfold_wf_def)
  have ccx: "chunks ?n (chunks ?p (adata v)) = map (chunks ?p) (chunks (?n * ?p) (adata v))"
    using chunks_chunks [OF pos n0, of "adata v" "prod_list bs"] lx by (simp add: ac_simps)
  have ccy: "chunks ?n (chunks ?p (adata b)) = map (chunks ?p) (chunks (?n * ?p) (adata b))"
    using chunks_chunks [OF pos n0, of "adata b" "prod_list bs"] ly by (simp add: ac_simps)
  have lz: "length (chunks ?p (adata v)) = length (chunks ?p (adata b))"
    using lx ly pos by (simp add: length_chunks)
  show ?thesis
    using NFoldManifold_is_tangent_pairs [OF wf pos vec v b, of atol]
    by (simp add: chunks_zip [OF lz] ccx ccy zip_map_map case_prod_unfold)
qed

text \<open>
  The flatten / delegate / reshape sequence of a binary operation (\<^verbatim>\<open>to_tangent\<close>,
  \<^verbatim>\<open>exp\<close>, \<^verbatim>\<open>log\<close>) on two arrays of the same shape: both flatten to batches
  of base points, and the base's result, concatenated per pair of copies,
  reshapes back to the product shape.
\<close>

lemma nfold_delegate2:
  assumes wf: "nfold_wf M" and pos: "0 < point_size (base_manifold M)"
    and vec: "binary_vectorized (base_manifold M) op g"
    and x: "wf_arr x" "ashape x = bs @ nf_shape M" and y: "wf_arr y" "ashape y = ashape x"
  shows "reshape_flat (m_shape (base_manifold M)) x =
           Inr (batch_arr (base_manifold M) (prod_list bs * n_copies M) (adata x))"
    and "reshape_flat (m_shape (base_manifold M)) y =
           Inr (batch_arr (base_manifold M) (prod_list bs * n_copies M) (adata y))"
    and "bindE (op (batch_arr (base_manifold M) (prod_list bs * n_copies M) (adata x))
                   (batch_arr (base_manifold M) (prod_list bs * n_copies M) (adata y)))
               (reshape (bs @ nf_shape M)) =
           Inr \<lparr>ashape = bs @ nf_shape M,
                adata = concat (map2 g (chunks (point_size (base_manifold M)) (adata x))
                                       (chunks (point_size (base_manifold M)) (adata y)))\<rparr>"
proof -
  let ?B = "base_manifold M" and ?p = "point_size (base_manifold M)" and ?n = "n_copies M"
  let ?N = "prod_list bs * ?n"
  have lx: "length (adata x) = ?N * ?p" and ly: "length (adata y) = ?N * ?p"
    using nfold_pair_length [OF wf x y] by auto
  then show "reshape_flat (m_shape ?B) x = Inr (batch_arr ?B ?N (adata x))"
    and "reshape_flat (m_shape ?B) y = Inr (batch_arr ?B ?N (adata y))"
    using reshape_flat_batch [OF pos] by auto
  obtain r where r: "op (batch_arr ?B ?N (adata x)) (batch_arr ?B ?N (adata y)) = Inr r"
    and rd: "adata r = concat (map2 g (chunks ?p (adata x)) (chunks ?p (adata y)))"
    using vec lx ly unfolding binary_vectorized_def by blast
  have glen: "\<forall>a b. length a = ?p \<longrightarrow> length b = ?p \<longrightarrow> length (g a b) = ?p"
    using vec by (simp add: binary_vectorized_def)
  have "length (adata r) = ?N * ?p"
    using rd length_concat_map2_chunks [OF glen pos lx ly] by simp
  then have "prod_list (bs @ nf_shape M) = length (adata r)"
    using wf by (simp add: nfold_wf_def point_size_def)
  then show "bindE (op (batch_arr ?B ?N (adata x)) (batch_arr ?B ?N (adata y))) (reshape (bs @ nf_shape M)) =
             Inr \<lparr>ashape = bs @ nf_shape M, adata = concat (map2 g (chunks ?p (adata x)) (chunks ?p (adata y)))\<rparr>"
    using r rd by (simp add: reshape_def)
qed

lemma NFoldManifold_to_tangent_concat:
  assumes wf: "nfold_wf M" and pos: "0 < point_size (base_manifold M)"
    and vec: "binary_vectorized (base_manifold M) (m_to_tangent (base_manifold M)) g"
    and v: "wf_arr v" "ashape v = bs @ nf_shape M" and b: "wf_arr b" "ashape b = ashape v"
  shows "NFoldManifold_to_tangent M v b =
           Inr \<lparr>ashape = bs @ nf_shape M,
                adata = concat (map2 g (chunks (point_size (base_manifold M)) (adata v))
                                       (chunks (point_size (base_manifold M)) (adata b)))\<rparr>"
  using nfold_batch_shape [OF v(2)] nfold_delegate2 [OF wf pos vec v b] broadcast_arrays2_same [OF v(1) b(1)] b(2)
  by (simp add: NFoldManifold_to_tangent_def)

text \<open>C4: NFoldManifold.to_tangent projects each copy with the base projection at the matching copy of the base point and keeps the full product shape: the direct sum of the tangent projections.\<close>

theorem NFoldManifold_to_tangent_direct_sum:
  assumes wf: "nfold_wf M" and pos: "0 < point_size (base_manifold M)"
    and vec: "binary_vectorized (base_manifold M) (m_to_tangent (base_manifold M)) g"
    and v: "wf_arr v" "ashape v = bs @ nf_shape M" and b: "wf_arr b" "ashape b = ashape v"
  shows "\<exists>r. NFoldManifold_to_tangent M v b = Inr r \<and> ashape r = bs @ nf_shape M \<and>
           (\<forall>k < prod_list bs * n_copies M.
              block (point_size (base_manifold M)) (adata r) k =
              g (block (point_size (base_manifold M)) (adata v) k)
                (block (point_size (base_manifold M)) (adata b) k))"
proof -
  let ?p = "point_size (base_manifold M)" and ?N = "prod_list bs * n_copies M"
  let ?L = "map2 g (chunks ?p (adata v)) (chunks ?p (adata b))"
  have lx: "length (adata v) = ?N * ?p" and ly: "length (adata b) = ?N * ?p"
    using nfold_pair_length [OF wf v b] by auto
  have glen: "\<forall>x y. length x = ?p \<longrightarrow> length y = ?p \<longrightarrow> length (g x y) = ?p"
    using vec by (simp add: binary_vectorized_def)
  have elems: "\<forall>c \<in> set ?L. length c = ?p"
    using glen zip_chunks_lengths [OF pos lx ly] by auto
  have lL: "length ?L = ?N" using lx ly pos by (simp add: length_chunks)
  have "block ?p (concat ?L) k = g (block ?p (adata v) k) (block ?p (adata b) k)" if k: "k < ?N" for k
  proof -
    have "block ?p (concat ?L) k = ?L ! k"
      by (rule block_concat [OF pos elems]) (use k lL in simp)
    also have "\<dots> = g (block ?p (adata v) k) (block ?p (adata b) k)"
      using k lx ly pos by (simp add: length_chunks nth_chunks_block)
    finally show ?thesis .
  qed
  then show ?thesis
    using NFoldManifold_to_tangent_concat [OF wf pos vec v b] by simp
qed

text \<open>C3: When the base tangent projection lands in the base tangent space (the base is_tangent accepts g(x, y) at y), NFoldManifold.to_tangent lands in the product tangent space: NFoldManifold.is_tangent accepts the projected vector at the base point for every batch element.\<close>

theorem NFoldManifold_to_tangent_is_tangent:
  assumes wf: "nfold_wf M" and pos: "0 < point_size (base_manifold M)"
    and vecT: "binary_vectorized (base_manifold M) (m_to_tangent (base_manifold M)) g"
    and vecI: "is_tangent_vectorized (base_manifold M) f"
    and lands: "\<forall>x y. length x = point_size (base_manifold M) \<longrightarrow> length y = point_size (base_manifold M) \<longrightarrow>
                      f (g x y) y atol"
    and v: "wf_arr v" "ashape v = bs @ nf_shape M" and b: "wf_arr b" "ashape b = ashape v"
  shows "\<exists>w. NFoldManifold_to_tangent M v b = Inr w \<and>
             NFoldManifold_is_tangent M w b atol = Inr \<lparr>ashape = bs, adata = replicate (prod_list bs) True\<rparr>"
proof -
  let ?p = "point_size (base_manifold M)" and ?n = "n_copies M" and ?N = "prod_list bs * n_copies M"
  let ?X = "chunks ?p (adata v)" and ?Y = "chunks ?p (adata b)"
  let ?w = "\<lparr>ashape = bs @ nf_shape M, adata = concat (map2 g ?X ?Y)\<rparr>"
  have lx: "length (adata v) = ?N * ?p" and ly: "length (adata b) = ?N * ?p"
    using nfold_pair_length [OF wf v b] by auto
  have n0: "0 < ?n" using wf by (simp add: nfold_wf_def)
  have glen: "\<forall>x y. length x = ?p \<longrightarrow> length y = ?p \<longrightarrow> length (g x y) = ?p"
    using vecT by (simp add: binary_vectorized_def)
  have lw: "length (adata ?w) = ?N * ?p"
    using length_concat_map2_chunks [OF glen pos lx ly] by simp
  have wfw: "wf_arr ?w"
    using lw wf by (simp add: wf_arr_def nfold_wf_def point_size_def)
  have elems: "\<forall>c \<in> set (map2 g ?X ?Y). length c = ?p"
    using glen zip_chunks_lengths [OF pos lx ly] by auto
  have cw: "chunks ?p (adata ?w) = map2 g ?X ?Y"
    using chunks_concat [OF pos elems] by simp
  let ?Z = "zip (map2 g ?X ?Y) ?Y"
  have allZ: "\<forall>(cv, cb) \<in> set ?Z. f cv cb atol"
    using lands zip_chunks_lengths [OF pos lx ly] by (auto simp: zip_map2_right)
  have lZ: "length ?Z = prod_list bs * ?n"
    using lx ly pos by (simp add: length_chunks)
  have "map (list_all (\<lambda>(cv, cb). f cv cb atol)) (chunks ?n ?Z) = replicate (prod_list bs) True"
  proof (rule replicate_eqI)
    show "length (map (list_all (\<lambda>(cv, cb). f cv cb atol)) (chunks ?n ?Z)) = prod_list bs"
      using lZ n0 by (simp add: length_chunks)
    show "y = True" if "y \<in> set (map (list_all (\<lambda>(cv, cb). f cv cb atol)) (chunks ?n ?Z))" for y
      using that allZ by (auto simp: list_all_iff dest!: set_chunks_subset)
  qed
  then show ?thesis
    using NFoldManifold_to_tangent_concat [OF wf pos vecT v b]
          NFoldManifold_is_tangent_pairs [OF wf pos vecI wfw _ b(1), of bs atol] b(2) v(2) cw
    by simp
qed

text \<open>NFoldManifold.projection fails with NotImplementedError when the base manifold has no projection.\<close>

lemma NFoldManifold_projection_unsupported:
  "m_projection (base_manifold M) = None \<Longrightarrow>
   NFoldManifold_projection M point =
     Inl (NotImplementedError ''The base manifold does not implement a projection method.'')"
  by (simp add: NFoldManifold_projection_def)

section \<open>NFoldMetric operations\<close>

lemma nfold_triple_length:
  assumes "nfold_wf M" "wf_arr u" "ashape u = bs @ nf_shape M" "wf_arr v" "ashape v = ashape u"
    "wf_arr b" "ashape b = ashape u"
  shows "length (adata u) = (prod_list bs * n_copies M) * point_size (base_manifold M)"
    and "length (adata v) = (prod_list bs * n_copies M) * point_size (base_manifold M)"
    and "length (adata b) = (prod_list bs * n_copies M) * point_size (base_manifold M)"
  using assms nfold_point_length [of M u bs] nfold_point_length [of M v bs]
    nfold_point_length [of M b bs] by auto

text \<open>The scaled sum over the copies, read off each row of per-copy values.\<close>

lemma scaled_row_sum:
  assumes "nfold_metric_wf g" "length row = n_copies (nm_space g)"
  shows "(case scales g of None \<Rightarrow> sum_list row | Some s \<Rightarrow> sum_list (map2 (*) s row)) =
         (\<Sum>j<n_copies (nm_space g). scale_weight (scales g) j * row ! j)"
  using assms by (cases "scales g") (simp_all add: nfold_metric_wf_def scale_weight_def sum_list_sum_lessThan
                                                  sum_list_map2_mult)

text \<open>The scaled sum over the last axis that closes NFoldMetric.inner_product, row by row.\<close>

lemma nfold_scaled_row_sums:
  assumes g: "nfold_metric_wf g" and lE: "length E = prod_list bs * n_copies (nm_space g)"
  shows "bindE (case scales g of None \<Rightarrow> Inr \<lparr>ashape = bs @ [n_copies (nm_space g)], adata = E\<rparr>
                | Some sc \<Rightarrow> einsum_scale sc 0 \<lparr>ashape = bs @ [n_copies (nm_space g)], adata = E\<rparr>) sum_last =
         Inr \<lparr>ashape = bs, adata = map (\<lambda>i. \<Sum>j<n_copies (nm_space g).
                                            scale_weight (scales g) j * E ! (i * n_copies (nm_space g) + j))
                                      [0..<prod_list bs]\<rparr>"
proof -
  let ?n = "n_copies (nm_space g)"
  let ?F = "\<lambda>row. case scales g of None \<Rightarrow> sum_list row | Some s \<Rightarrow> sum_list (map2 (*) s row)"
  have n0: "0 < ?n" using g by (simp add: nfold_metric_wf_def nfold_wf_def)
  have rows: "\<forall>c \<in> set (chunks ?n E). length c = ?n"
    using length_chunk_elem [OF n0 lE] by blast
  have scaled: "bindE (case scales g of None \<Rightarrow> Inr \<lparr>ashape = bs @ [?n], adata = E\<rparr>
                                     | Some sc \<Rightarrow> einsum_scale sc 0 \<lparr>ashape = bs @ [?n], adata = E\<rparr>) sum_last =
                Inr \<lparr>ashape = bs, adata = map ?F (chunks ?n E)\<rparr>"
  proof (cases "scales g")
    case None
    then show ?thesis using n0 lE by (simp add: sum_last_snoc)
  next
    case (Some s)
    then have ls: "length s = ?n" using g by (simp add: nfold_metric_wf_def)
    have "\<forall>c \<in> set (map (map2 (*) s) (chunks ?n E)). length c = ?n"
      using rows ls by auto
    then have "chunks ?n (concat (map (map2 (*) s) (chunks ?n E))) = map (map2 (*) s) (chunks ?n E)"
      using chunks_concat [OF n0] by blast
    with Some ls n0 lE show ?thesis by (simp add: einsum_scale_last sum_last_snoc)
  qed
  have "map ?F (chunks ?n E) = map (\<lambda>i. ?F (block ?n E i)) [0..<prod_list bs]"
    by (rule map_chunks_upt [OF n0 lE])
  also have "\<dots> = map (\<lambda>i. \<Sum>j<?n. scale_weight (scales g) j * E ! (i * ?n + j)) [0..<prod_list bs]"
  proof (rule map_cong [OF refl])
    fix i assume "i \<in> set [0..<prod_list bs]"
    then have i: "i < prod_list bs" by simp
    have "?F (block ?n E i) = (\<Sum>j<?n. scale_weight (scales g) j * block ?n E i ! j)"
      using scaled_row_sum [OF g] length_block [OF lE i] by simp
    also have "\<dots> = (\<Sum>j<?n. scale_weight (scales g) j * E ! (i * ?n + j))"
      using nth_block [OF _ lE i] by simp
    finally show "?F (block ?n E i) = (\<Sum>j<?n. scale_weight (scales g) j * E ! (i * ?n + j))" .
  qed
  finally show ?thesis using scaled by simp
qed

text \<open>C2: NFoldMetric.inner_product is, at every batch index, the sum over the copies of the scale of the copy times the base metric's inner product of the copies' slices (scale 1 without scales): the product metric is the scaled direct sum of the base metrics.\<close>

theorem NFoldMetric_inner_product_sum:
  assumes g: "nfold_metric_wf g" and M: "nm_space g = M"
    and pos: "0 < point_size (base_manifold M)"
    and vec: "inner_product_vectorized (base_manifold M) h"
    and u: "wf_arr u" "ashape u = bs @ nf_shape M" and v: "wf_arr v" "ashape v = ashape u"
    and b: "wf_arr b" "ashape b = ashape u"
  shows "NFoldMetric_inner_product g u v b =
           Inr \<lparr>ashape = bs,
                adata = map (\<lambda>i. \<Sum>j<n_copies M. scale_weight (scales g) j *
                                 h (block (point_size (base_manifold M)) (adata u) (i * n_copies M + j))
                                   (block (point_size (base_manifold M)) (adata v) (i * n_copies M + j))
                                   (block (point_size (base_manifold M)) (adata b) (i * n_copies M + j)))
                            [0..<prod_list bs]\<rparr>"
proof -
  let ?B = "base_manifold M" and ?p = "point_size (base_manifold M)" and ?n = "n_copies M"
  let ?N = "prod_list bs * ?n"
  have wf: "nfold_wf M" using g M by (simp add: nfold_metric_wf_def)
  have n0: "0 < ?n" using wf by (simp add: nfold_wf_def)
  have lu: "length (adata u) = ?N * ?p" and lv: "length (adata v) = ?N * ?p"
    and lb: "length (adata b) = ?N * ?p"
    using nfold_triple_length [OF wf u v b] by auto
  let ?E = "map (\<lambda>(x, y, z). h x y z)
              (zip (chunks ?p (adata u)) (zip (chunks ?p (adata v)) (chunks ?p (adata b))))"
  obtain r where r: "inner_product_op (m_metric ?B) (batch_arr ?B ?N (adata u))
                       (batch_arr ?B ?N (adata v)) (batch_arr ?B ?N (adata b)) = Inr r"
    and rd: "adata r = ?E"
    using vec lu lv lb unfolding inner_product_vectorized_def by blast
  have lE: "length ?E = prod_list bs * ?n" using lu lv lb pos by (simp add: length_chunks)
  have nthE: "?E ! k = h (block ?p (adata u) k) (block ?p (adata v) k) (block ?p (adata b) k)"
    if "k < ?N" for k
    using that lu lv lb pos by (simp add: nth_chunks length_chunks block_def)
  have me: "map (\<lambda>i. \<Sum>j<?n. scale_weight (scales g) j * ?E ! (i * ?n + j)) [0..<prod_list bs] =
        map (\<lambda>i. \<Sum>j<?n. scale_weight (scales g) j * h (block ?p (adata u) (i * ?n + j))
                   (block ?p (adata v) (i * ?n + j)) (block ?p (adata b) (i * ?n + j))) [0..<prod_list bs]"
  proof (rule map_cong [OF refl], rule sum.cong [OF refl])
    fix i j assume "i \<in> set [0..<prod_list bs]" "j \<in> {..<?n}"
    then have "i * ?n + j < ?N" using index_lt [of j ?n i "prod_list bs"] by simp
    then show "scale_weight (scales g) j * ?E ! (i * ?n + j) =
               scale_weight (scales g) j * h (block ?p (adata u) (i * ?n + j))
                 (block ?p (adata v) (i * ?n + j)) (block ?p (adata b) (i * ?n + j))"
      using nthE by simp
  qed
  have scaled: "bindE (case scales g of None \<Rightarrow> Inr \<lparr>ashape = bs @ [?n], adata = ?E\<rparr>
                                | Some sc \<Rightarrow> einsum_scale sc 0 \<lparr>ashape = bs @ [?n], adata = ?E\<rparr>) sum_last =
         Inr \<lparr>ashape = bs, adata = map (\<lambda>i. \<Sum>j<?n. scale_weight (scales g) j * h (block ?p (adata u) (i * ?n + j))
                   (block ?p (adata v) (i * ?n + j)) (block ?p (adata b) (i * ?n + j))) [0..<prod_list bs]\<rparr>"
    using nfold_scaled_row_sums [OF g, of ?E bs, unfolded M, OF lE] by (simp only: me)
  have bc: "broadcast_arrays3 u v b = Inr (u, v, b)"
    using u v b by (simp add: broadcast_arrays3_same)
  show ?thesis
    using M nfold_batch_shape [OF u(2)] reshape_flat_batch [OF pos lu] reshape_flat_batch [OF pos lv]
      reshape_flat_batch [OF pos lb] bc r lE scaled
    by (simp add: NFoldMetric_inner_product_def reshape_Inr rd Let_def)
qed

end
