(* ===== verification/NFoldMetricMaps.thy ===== *)
theory NFoldMetricMaps
  imports NFold
begin

text \<open>
  What \<^verbatim>\<open>NFoldMetric.metric_matrix\<close>, \<^verbatim>\<open>exp\<close> and \<^verbatim>\<open>log\<close> compute when the base
  metric meets the vectorization contract: copy-wise matrices scaled by the copy's
  scale (and the failure when the base's trailing shape is not its dimension),
  copy-wise exponential and logarithm, and the round trips they inherit from the base.
\<close>

section \<open>metric_matrix\<close>

lemma nfold_metric_matrix_base:
  assumes wf: "nfold_wf M" and pos: "0 < point_size (base_manifold M)"
    and vec: "metric_matrix_vectorized (base_manifold M) mm"
    and b: "wf_arr b" "ashape b = bs @ nf_shape M"
  shows "\<exists>r. metric_matrix_op (m_metric (base_manifold M))
               (batch_arr (base_manifold M) (prod_list bs * n_copies M) (adata b)) = Inr r \<and>
             adata r = concat (map mm (chunks (point_size (base_manifold M)) (adata b))) \<and>
             length (adata r) = prod_list bs * n_copies M * (m_dim (base_manifold M) * m_dim (base_manifold M))"
proof -
  let ?B = "base_manifold M" and ?p = "point_size (base_manifold M)" and ?N = "prod_list bs * n_copies M"
  let ?d = "m_dim (base_manifold M)"
  have lb: "length (adata b) = ?N * ?p" using nfold_point_length [OF wf b] .
  obtain r where r: "metric_matrix_op (m_metric ?B) (batch_arr ?B ?N (adata b)) = Inr r"
    and rd: "adata r = concat (map mm (chunks ?p (adata b)))"
    using vec lb unfolding metric_matrix_vectorized_def by blast
  have "\<forall>c \<in> set (map mm (chunks ?p (adata b))). length c = ?d * ?d"
    using vec length_chunk_elem [OF pos lb] unfolding metric_matrix_vectorized_def by auto
  then have "length (concat (map mm (chunks ?p (adata b)))) = length (map mm (chunks ?p (adata b))) * (?d * ?d)"
    by (rule length_concat_const)
  then have "length (adata r) = ?N * (?d * ?d)"
    using rd lb pos by (simp add: length_chunks)
  then show ?thesis using r rd by blast
qed

text \<open>C14: NFoldMetric.metric_matrix returns, for every copy of every batch element, the base metric matrix at that copy of the base point, multiplied by the scale of the copy (1 without scales), in an array of shape batch_shape + (n_copies, dim, dim), when the base shape ends in its dimension.\<close>

theorem NFoldMetric_metric_matrix_copies:
  assumes g: "nfold_metric_wf g" and M: "nm_space g = M"
    and pos: "0 < point_size (base_manifold M)" and d0: "0 < m_dim (base_manifold M)"
    and sh: "m_shape (base_manifold M) \<noteq> []" "last (m_shape (base_manifold M)) = m_dim (base_manifold M)"
    and vec: "metric_matrix_vectorized (base_manifold M) mm"
    and b: "wf_arr b" "ashape b = bs @ nf_shape M"
  shows "\<exists>r. NFoldMetric_metric_matrix g b = Inr r \<and> wf_arr r \<and>
           ashape r = bs @ [n_copies M, m_dim (base_manifold M), m_dim (base_manifold M)] \<and>
           (\<forall>k < prod_list bs * n_copies M.
              block (m_dim (base_manifold M) * m_dim (base_manifold M)) (adata r) k =
              map ((*) (scale_weight (scales g) (k mod n_copies M)))
                  (mm (block (point_size (base_manifold M)) (adata b) k)))"
proof -
  let ?B = "base_manifold M" and ?p = "point_size (base_manifold M)" and ?n = "n_copies M"
  let ?N = "prod_list bs * n_copies M" and ?d = "m_dim (base_manifold M)"
  have wf: "nfold_wf M" using g M by (simp add: nfold_metric_wf_def)
  have n0: "0 < ?n" using wf by (simp add: nfold_wf_def)
  have dd: "0 < ?d * ?d" using d0 by simp
  have lb: "length (adata b) = ?N * ?p" using nfold_point_length [OF wf b] .
  obtain r where r: "metric_matrix_op (m_metric ?B) (batch_arr ?B ?N (adata b)) = Inr r"
    and rd: "adata r = concat (map mm (chunks ?p (adata b)))" and lr: "length (adata r) = ?N * (?d * ?d)"
    using nfold_metric_matrix_base [OF wf pos vec b] by blast
  let ?R = "\<lparr>ashape = bs @ [?n, ?d, ?d], adata = adata r\<rparr>"
  have reshaped: "reshape (bs @ [?n, ?d, ?d]) r = Inr ?R"
    using lr by (simp add: reshape_def algebra_simps)
  have elems: "\<forall>c \<in> set (map mm (chunks ?p (adata b))). length c = ?d * ?d"
    using vec length_chunk_elem [OF pos lb] unfolding metric_matrix_vectorized_def by auto
  have blk: "block (?d * ?d) (adata r) k = mm (block ?p (adata b) k)" if k: "k < ?N" for k
    using block_concat [OF dd elems] k lb pos rd by (simp add: length_chunks nth_chunks_block)
  have pre: "NFoldMetric_metric_matrix g b =
               (case scales g of None \<Rightarrow> Inr ?R | Some sc \<Rightarrow> einsum_scale sc 2 ?R)"
    using M nfold_batch_shape [OF b(2)] reshape_flat_batch [OF pos lb] r reshaped sh
    by (simp add: NFoldMetric_metric_matrix_def Let_def)
  show ?thesis
  proof (cases "scales g")
    case None
    then show ?thesis using pre blk lr by (simp add: scale_weight_def map_mult_one wf_arr_def mult.assoc)
  next
    case (Some sc)
    then have ls: "length sc = ?n" using g M by (simp add: nfold_metric_wf_def)
    obtain D where D: "einsum_scale sc (length [?d, ?d]) ?R = Inr (?R\<lparr>adata := D\<rparr>)"
      and lD: "length D = prod_list bs * ?n * (?d * ?d)"
      and DB: "\<forall>k < prod_list bs * ?n. block (?d * ?d) D k = map ((*) (sc ! (k mod ?n))) (block (?d * ?d) (adata r) k)"
      using einsum_scale_blocks [OF ls n0 dd, of "[?d, ?d]" ?R bs "prod_list bs"] lr
      by (auto simp: algebra_simps)
    show ?thesis using pre D DB Some blk lD by (simp add: scale_weight_def numeral_2_eq_2 wf_arr_def mult.assoc)
  qed
qed

text \<open>C31: When the base manifold's last shape entry differs from its dimension (a matrix space such as 2x2 matrices of dimension 4), NFoldMetric.metric_matrix fails with a reshape error on any non-empty batch, although the base returns well-formed (dim, dim) matrices: the code sizes the matrices by shape[-1], the spec by the base dimension.\<close>

theorem NFoldMetric_metric_matrix_dim_mismatch:
  assumes g: "nfold_metric_wf g" and M: "nm_space g = M"
    and pos: "0 < point_size (base_manifold M)"
    and sh: "m_shape (base_manifold M) \<noteq> []" "last (m_shape (base_manifold M)) \<noteq> m_dim (base_manifold M)"
    and vec: "metric_matrix_vectorized (base_manifold M) mm"
    and b: "wf_arr b" "ashape b = bs @ nf_shape M" and bs: "0 < prod_list bs"
  shows "NFoldMetric_metric_matrix g b = Inl (ValueError ''cannot reshape array'')"
proof -
  let ?B = "base_manifold M" and ?p = "point_size (base_manifold M)" and ?n = "n_copies M"
  let ?N = "prod_list bs * n_copies M" and ?d = "m_dim (base_manifold M)"
  let ?s = "last (m_shape (base_manifold M))"
  have wf: "nfold_wf M" using g M by (simp add: nfold_metric_wf_def)
  have N0: "0 < ?N" using wf bs by (simp add: nfold_wf_def)
  have lb: "length (adata b) = ?N * ?p" using nfold_point_length [OF wf b] .
  obtain r where r: "metric_matrix_op (m_metric ?B) (batch_arr ?B ?N (adata b)) = Inr r"
    and lr: "length (adata r) = ?N * (?d * ?d)"
    using nfold_metric_matrix_base [OF wf pos vec b] by blast
  have ss: "?s * ?s \<noteq> ?d * ?d"
  proof
    assume e: "?s * ?s = ?d * ?d"
    consider "?s < ?d" | "?d < ?s" using sh(2) by linarith
    then show False
    proof cases
      case 1
      then have "?s * ?s < ?d * ?d" by (intro mult_strict_mono) auto
      with e show False by simp
    next
      case 2
      then have "?d * ?d < ?s * ?s" by (intro mult_strict_mono) auto
      with e show False by simp
    qed
  qed
  have "?N * (?s * ?s) \<noteq> ?N * (?d * ?d)" using N0 ss by simp
  then have "prod_list (bs @ [?n, ?s, ?s]) \<noteq> length (adata r)"
    using lr by (simp add: mult.assoc)
  then show ?thesis
    using M nfold_batch_shape [OF b(2)] reshape_flat_batch [OF pos lb] r sh
    by (simp add: NFoldMetric_metric_matrix_def Let_def reshape_def)
qed


section \<open>exp and log\<close>

lemma NFoldMetric_exp_lead:
  assumes g: "nfold_metric_wf g" and M: "nm_space g = M" and pos: "0 < point_size (base_manifold M)"
    and vec: "binary_vectorized (base_manifold M) (exp_op (m_metric (base_manifold M))) ge"
    and v: "wf_arr v" "ashape v = m # nf_shape M" and b: "wf_arr b" "ashape b = nf_shape M"
  shows "NFoldMetric_exp g v b =
           Inr \<lparr>ashape = m # nf_shape M,
                adata = concat (map2 ge (chunks (point_size (base_manifold M)) (adata v))
                                        (chunks (point_size (base_manifold M)) (concat (replicate m (adata b)))))\<rparr>"
proof -
  let ?b = "\<lparr>ashape = m # nf_shape M, adata = concat (replicate m (adata b))\<rparr>"
  have wf: "nfold_wf M" using g M by (simp add: nfold_metric_wf_def)
  have bc: "broadcast_arrays2 v b = Inr (v, ?b)" using broadcast_arrays2_lead [OF v(1) b(1)] v(2) b(2) by simp
  have wb: "wf_arr ?b" using b by (simp add: wf_arr_def)
  have sv: "ashape v = [m] @ nf_shape M" using v(2) by simp
  show ?thesis
    using M get_batch_shape_lead [of "nf_shape M" m] bc v(2) b(2) nfold_delegate2 [OF wf pos vec v(1) sv wb]
    by (simp add: NFoldMetric_exp_def Let_def point_ndim_def)
qed

lemma NFoldMetric_exp_concat:
  assumes g: "nfold_metric_wf g" and M: "nm_space g = M" and pos: "0 < point_size (base_manifold M)"
    and vec: "binary_vectorized (base_manifold M) (exp_op (m_metric (base_manifold M))) ge"
    and v: "wf_arr v" "ashape v = bs @ nf_shape M" and b: "wf_arr b" "ashape b = ashape v"
  shows "NFoldMetric_exp g v b =
           Inr \<lparr>ashape = bs @ nf_shape M,
                adata = concat (map2 ge (chunks (point_size (base_manifold M)) (adata v))
                                        (chunks (point_size (base_manifold M)) (adata b)))\<rparr>"
proof -
  have wf: "nfold_wf M" using g M by (simp add: nfold_metric_wf_def)
  show ?thesis
    using M nfold_batch_shape2 [OF v(2) b(2)] nfold_delegate2 [OF wf pos vec v b]
      broadcast_arrays2_same [OF v(1) b(1) b(2)[symmetric]]
    by (simp add: NFoldMetric_exp_def Let_def)
qed

lemma NFoldMetric_log_concat:
  assumes g: "nfold_metric_wf g" and M: "nm_space g = M" and pos: "0 < point_size (base_manifold M)"
    and vec: "binary_vectorized (base_manifold M) (log_op (m_metric (base_manifold M))) gl"
    and q: "wf_arr q" "ashape q = bs @ nf_shape M" and b: "wf_arr b" "ashape b = ashape q"
  shows "NFoldMetric_log g q b =
           Inr \<lparr>ashape = bs @ nf_shape M,
                adata = concat (map2 gl (chunks (point_size (base_manifold M)) (adata q))
                                        (chunks (point_size (base_manifold M)) (adata b)))\<rparr>"
proof -
  have wf: "nfold_wf M" using g M by (simp add: nfold_metric_wf_def)
  show ?thesis
    using M nfold_batch_shape2 [OF q(2) b(2)] nfold_delegate2 [OF wf pos vec q b]
      broadcast_arrays2_same [OF q(1) b(1) b(2)[symmetric]]
    by (simp add: NFoldMetric_log_def Let_def)
qed

text \<open>
  A copy-wise map followed by a copy-wise map: when the second undoes the first on
  every pair of copies, the composite is the identity on the product point.
\<close>

lemma nfold_copywise_cancel:
  assumes wf: "nfold_wf M" and pos: "0 < point_size (base_manifold M)"
    and glen: "\<forall>x y. length x = point_size (base_manifold M) \<longrightarrow> length y = point_size (base_manifold M) \<longrightarrow>
                     length (f x y) = point_size (base_manifold M)"
    and v: "wf_arr v" "ashape v = bs @ nf_shape M" and b: "wf_arr b" "ashape b = ashape v"
    and inv: "\<forall>(x, y) \<in> set (zip (chunks (point_size (base_manifold M)) (adata v))
                                  (chunks (point_size (base_manifold M)) (adata b))). h (f x y) y = x"
  shows "concat (map2 h (chunks (point_size (base_manifold M))
                            (concat (map2 f (chunks (point_size (base_manifold M)) (adata v))
                                            (chunks (point_size (base_manifold M)) (adata b)))))
                        (chunks (point_size (base_manifold M)) (adata b))) = adata v"
proof -
  let ?p = "point_size (base_manifold M)" and ?N = "prod_list bs * n_copies M"
  let ?X = "chunks ?p (adata v)" and ?Y = "chunks ?p (adata b)"
  have lx: "length (adata v) = ?N * ?p" and ly: "length (adata b) = ?N * ?p"
    using nfold_pair_length [OF wf v b] by auto
  have elems: "\<forall>c \<in> set (map2 f ?X ?Y). length c = ?p"
    using glen zip_chunks_lengths [OF pos lx ly] by auto
  have "chunks ?p (concat (map2 f ?X ?Y)) = map2 f ?X ?Y"
    using chunks_concat [OF pos elems] by simp
  moreover have "map2 h (map2 f ?X ?Y) ?Y = ?X"
  proof (rule map2_map2_cancel)
    show "length ?X = length ?Y" using lx ly pos by (simp add: length_chunks)
  qed (rule inv)
  ultimately show ?thesis using pos by simp
qed

text \<open>C6: When the base logarithm undoes the base exponential on every pair of copies, NFoldMetric.log undoes NFoldMetric.exp on the product: log(exp(v, p), p) = v.\<close>

theorem NFoldMetric_log_exp:
  assumes g: "nfold_metric_wf g" and M: "nm_space g = M" and pos: "0 < point_size (base_manifold M)"
    and vecE: "binary_vectorized (base_manifold M) (exp_op (m_metric (base_manifold M))) ge"
    and vecL: "binary_vectorized (base_manifold M) (log_op (m_metric (base_manifold M))) gl"
    and v: "wf_arr v" "ashape v = bs @ nf_shape M" and b: "wf_arr b" "ashape b = ashape v"
    and inv: "\<forall>(x, y) \<in> set (zip (chunks (point_size (base_manifold M)) (adata v))
                                  (chunks (point_size (base_manifold M)) (adata b))). gl (ge x y) y = x"
  shows "bindE (NFoldMetric_exp g v b) (\<lambda>q. NFoldMetric_log g q b) = Inr v"
proof -
  let ?p = "point_size (base_manifold M)" and ?N = "prod_list bs * n_copies M"
  let ?q = "\<lparr>ashape = bs @ nf_shape M, adata = concat (map2 ge (chunks ?p (adata v)) (chunks ?p (adata b)))\<rparr>"
  have wf: "nfold_wf M" using g M by (simp add: nfold_metric_wf_def)
  have lx: "length (adata v) = ?N * ?p" and ly: "length (adata b) = ?N * ?p"
    using nfold_pair_length [OF wf v b] by auto
  have glen: "\<forall>x y. length x = ?p \<longrightarrow> length y = ?p \<longrightarrow> length (ge x y) = ?p"
    using vecE by (simp add: binary_vectorized_def)
  have wq: "wf_arr ?q"
    using length_concat_map2_chunks [OF glen pos lx ly] wf by (simp add: wf_arr_def nfold_wf_def point_size_def)
  have "NFoldMetric_log g ?q b = Inr \<lparr>ashape = bs @ nf_shape M, adata = adata v\<rparr>"
    using NFoldMetric_log_concat [OF g M pos vecL wq _ b(1)] b(2) v(2)
      nfold_copywise_cancel [OF wf pos glen v b inv] by simp
  then show ?thesis
    using NFoldMetric_exp_concat [OF g M pos vecE v b] v(2) by (simp add: arr_eqI)
qed

text \<open>C7: When the base exponential undoes the base logarithm on every pair of copies, NFoldMetric.exp undoes NFoldMetric.log on the product: exp(log(q, p), p) = q.\<close>

theorem NFoldMetric_exp_log:
  assumes g: "nfold_metric_wf g" and M: "nm_space g = M" and pos: "0 < point_size (base_manifold M)"
    and vecE: "binary_vectorized (base_manifold M) (exp_op (m_metric (base_manifold M))) ge"
    and vecL: "binary_vectorized (base_manifold M) (log_op (m_metric (base_manifold M))) gl"
    and q: "wf_arr q" "ashape q = bs @ nf_shape M" and b: "wf_arr b" "ashape b = ashape q"
    and inv: "\<forall>(x, y) \<in> set (zip (chunks (point_size (base_manifold M)) (adata q))
                                  (chunks (point_size (base_manifold M)) (adata b))). ge (gl x y) y = x"
  shows "bindE (NFoldMetric_log g q b) (\<lambda>v. NFoldMetric_exp g v b) = Inr q"
proof -
  let ?p = "point_size (base_manifold M)" and ?N = "prod_list bs * n_copies M"
  let ?v = "\<lparr>ashape = bs @ nf_shape M, adata = concat (map2 gl (chunks ?p (adata q)) (chunks ?p (adata b)))\<rparr>"
  have wf: "nfold_wf M" using g M by (simp add: nfold_metric_wf_def)
  have lx: "length (adata q) = ?N * ?p" and ly: "length (adata b) = ?N * ?p"
    using nfold_pair_length [OF wf q b] by auto
  have glen: "\<forall>x y. length x = ?p \<longrightarrow> length y = ?p \<longrightarrow> length (gl x y) = ?p"
    using vecL by (simp add: binary_vectorized_def)
  have wv: "wf_arr ?v"
    using length_concat_map2_chunks [OF glen pos lx ly] wf by (simp add: wf_arr_def nfold_wf_def point_size_def)
  have "NFoldMetric_exp g ?v b = Inr \<lparr>ashape = bs @ nf_shape M, adata = adata q\<rparr>"
    using NFoldMetric_exp_concat [OF g M pos vecE wv _ b(1)] b(2) q(2)
      nfold_copywise_cancel [OF wf pos glen q b inv] by simp
  then show ?thesis
    using NFoldMetric_log_concat [OF g M pos vecL q b] q(2) by (simp add: arr_eqI)
qed

text \<open>C13: NFoldMetric.exp of a batch of m tangent vectors at one base point broadcasts the base point: entry i of the result is NFoldMetric.exp of the i-th tangent vector at that base point.\<close>

theorem NFoldMetric_exp_broadcast:
  assumes g: "nfold_metric_wf g" and M: "nm_space g = M" and pos: "0 < point_size (base_manifold M)"
    and vec: "binary_vectorized (base_manifold M) (exp_op (m_metric (base_manifold M))) ge"
    and v: "wf_arr v" "ashape v = m # nf_shape M" and b: "wf_arr b" "ashape b = nf_shape M"
  shows "\<exists>r. NFoldMetric_exp g v b = Inr r \<and> ashape r = m # nf_shape M \<and>
             (\<forall>i < m. NFoldMetric_exp g (arr_index v i) b = Inr (arr_index r i))"
proof -
  let ?p = "point_size (base_manifold M)" and ?n = "n_copies M" and ?S = "nf_shape M"
  let ?Y = "concat (replicate m (adata b))"
  let ?r = "\<lparr>ashape = m # ?S, adata = concat (map2 ge (chunks ?p (adata v)) (chunks ?p ?Y))\<rparr>"
  have wf: "nfold_wf M" using g M by (simp add: nfold_metric_wf_def)
  have n: "0 < ?n" using wf by (simp add: nfold_wf_def)
  have P: "prod_list ?S = ?n * ?p" using wf by (simp add: nfold_wf_def point_size_def)
  have lb: "length (adata b) = ?n * ?p" using b P by (simp add: wf_arr_def)
  have lv: "length (adata v) = m * (?n * ?p)" using v P by (simp add: wf_arr_def)
  have ly: "length ?Y = m * (?n * ?p)" using lb by simp
  have glen: "\<forall>x y. length x = ?p \<longrightarrow> length y = ?p \<longrightarrow> length (ge x y) = ?p"
    using vec by (simp add: binary_vectorized_def)
  have ex: "NFoldMetric_exp g v b = Inr ?r" by (rule NFoldMetric_exp_lead [OF g M pos vec v b])
  have "NFoldMetric_exp g (arr_index v i) b = Inr (arr_index ?r i)" if i: "i < m" for i
  proof -
    have wv: "wf_arr (arr_index v i)" using arr_index_wf [OF v i] .
    have sv: "ashape (arr_index v i) = [] @ ?S" using v(2) by (simp add: arr_index_def)
    have yb: "block (?n * ?p) ?Y i = adata b"
    proof -
      have "\<forall>c \<in> set (replicate m (adata b)). length c = ?n * ?p" using lb by simp
      then show ?thesis using block_concat [of "?n * ?p" "replicate m (adata b)" i] i n pos by simp
    qed
    have "block (?n * ?p) (adata ?r) i =
            concat (map2 ge (chunks ?p (adata (arr_index v i))) (chunks ?p (adata b)))"
      using block_concat_map2_chunks [OF pos n glen lv ly i] yb v(2) P by (simp add: arr_index_def)
    then show ?thesis
      using NFoldMetric_exp_concat [OF g M pos vec wv sv b(1)] b(2) v(2) P
      by (simp add: arr_index_def)
  qed
  then show ?thesis using ex by auto
qed

end
