(* ===== verification/NFoldGeodesic.thy ===== *)
theory NFoldGeodesic
  imports NFoldMetricMaps
begin

text \<open>
  \<^verbatim>\<open>NFoldMetric.geodesic\<close>: the shooting and consistency checks, and the returned
  path, a function of the times. A time array \<open>t\<close> is multiplied into the initial
  tangent vector by an einsum over the point axes and the composite \<open>exp\<close> is
  applied at the initial point; a batched initial condition is iterated over its
  first axis and the paths are stacked. The lemmas show the two failures of the
  call, the path of the boundary-value and the initial-value problems copy by copy,
  its end points, and the failure of the path on a batch of two axes.
\<close>

section \<open>Definitions\<close>

text \<open>
  The returned closure \<^verbatim>\<open>path(t)\<close>: a time given as a 0-dimensional array becomes
  an array of one time. The einsum names \<^verbatim>\<open>"ijk"[:point_ndim]\<close> trailing axes, so
  at most three.
\<close>

definition geodesic_time :: "real arr \<Rightarrow> real arr" where
  "geodesic_time t = (if ashape t = [] then t\<lparr>ashape := [1]\<rparr> else t)"

definition NFoldMetric_path_single ::
  "nfold_metric \<Rightarrow> real arr \<Rightarrow> real arr \<Rightarrow> real arr \<Rightarrow> real arr result" where
  "NFoldMetric_path_single g t initial_tangent_vec initial_point =
     bindE (einsum_scalar_ellipsis (min 3 (point_ndim (nm_space g))) t initial_tangent_vec) (\<lambda>tangent_vec.
     NFoldMetric_exp g tangent_vec initial_point)"

definition NFoldMetric_geodesic_path ::
  "nfold_metric \<Rightarrow> bool \<Rightarrow> real arr \<Rightarrow> real arr \<Rightarrow> real arr \<Rightarrow> real arr result" where
  "NFoldMetric_geodesic_path g is_batch initial_tangent_vec initial_point t =
     (let t' = geodesic_time t in
      if \<not> is_batch then NFoldMetric_path_single g t' initial_tangent_vec initial_point
      else bindE (mapE (\<lambda>(v, p). NFoldMetric_path_single g t' v p)
                        (zip (unstack initial_tangent_vec) (unstack initial_point)))
                 stack)"

definition NFoldMetric_geodesic ::
  "nfold_metric \<Rightarrow> real arr \<Rightarrow> real arr option \<Rightarrow> real arr option \<Rightarrow> (real arr \<Rightarrow> real arr result) result" where
  "NFoldMetric_geodesic g initial_point end_point initial_tangent_vec =
     bindE (case (end_point, initial_tangent_vec) of
              (None, None) \<Rightarrow>
                Inl (ValueError ''Specify an end landmark set or an initial tangentvector to define the geodesic.'')
            | (None, Some v) \<Rightarrow> Inr v
            | (Some q, v_opt) \<Rightarrow>
                bindE (NFoldMetric_log g q initial_point) (\<lambda>shooting_tangent_vec.
                case v_opt of
                  None \<Rightarrow> Inr shooting_tangent_vec
                | Some v \<Rightarrow>
                    bindE (allclose shooting_tangent_vec v) (\<lambda>close.
                    if close then Inr shooting_tangent_vec
                    else Inl (RuntimeError ''The shooting tangent vector is too far from the initial tangent vector.''))))
     (\<lambda>initial_tangent_vec.
        bindE (broadcast_arrays2 initial_point initial_tangent_vec) (\<lambda>(initial_point, initial_tangent_vec).
        let is_batch = point_ndim (nm_space g) < length (ashape initial_tangent_vec) in
        Inr (NFoldMetric_geodesic_path g is_batch initial_tangent_vec initial_point)))"

section \<open>The path, copy by copy\<close>

lemma map2_map_left: "map2 g (map h xs) ys = map2 (\<lambda>x y. g (h x) y) xs ys"
  by (simp add: zip_map1 case_prod_unfold comp_def)

text \<open>
  Unbatched, the path at the times \<open>ts\<close> stacks, for every time \<open>\<tau>\<close>, the base
  exponential of \<open>\<tau>\<close> times each copy of the initial tangent vector at the matching
  copy of the initial point.
\<close>

lemma NFoldMetric_geodesic_path_times:
  assumes g: "nfold_metric_wf g" and M: "nm_space g = M" and pos: "0 < point_size (base_manifold M)"
    and vecE: "binary_vectorized (base_manifold M) (exp_op (m_metric (base_manifold M))) ge"
    and k3: "length (nf_shape M) \<le> 3"
    and s: "wf_arr s" "ashape s = nf_shape M" and b: "wf_arr b" "ashape b = nf_shape M"
  shows "NFoldMetric_geodesic_path g False s b (array1 ts) =
           Inr \<lparr>ashape = length ts # nf_shape M,
                adata = concat (map (\<lambda>\<tau>. concat (map2 (\<lambda>x y. ge (map ((*) \<tau>) x) y)
                                               (chunks (point_size (base_manifold M)) (adata s))
                                               (chunks (point_size (base_manifold M)) (adata b)))) ts)\<rparr>"
proof -
  let ?p = "point_size (base_manifold M)" and ?n = "n_copies M" and ?S = "nf_shape M"
  let ?X = "chunks ?p (adata s)" and ?B = "chunks ?p (adata b)" and ?m = "length ts"
  have wf: "nfold_wf M" using g M by (simp add: nfold_metric_wf_def)
  have ss: "ashape s = [] @ nf_shape M" and bs: "ashape b = ashape s" using s b by simp_all
  have ls: "length (adata s) = ?n * ?p" and lb: "length (adata b) = ?n * ?p"
    using nfold_pair_length [OF wf s(1) ss b(1) bs] by simp_all
  have S0: "0 < prod_list ?S" using wf pos by (simp add: nfold_wf_def point_size_def)
  let ?tv = "\<lparr>ashape = ?m # ?S, adata = concat (map (\<lambda>\<tau>. map ((*) \<tau>) (adata s)) ts)\<rparr>"
  have ein: "einsum_scalar_ellipsis (min 3 (point_ndim M)) (array1 ts) s = Inr ?tv"
    using einsum_scalar_ellipsis_points [of s "length ?S" ts] s S0 k3 by (simp add: point_ndim_def min_def)
  have tvel: "\<forall>c \<in> set (map (\<lambda>\<tau>. map ((*) \<tau>) (adata s)) ts). length c = ?n * ?p" using ls by simp
  have wtv: "wf_arr ?tv"
    using length_concat_const [OF tvel] wf by (simp add: wf_arr_def nfold_wf_def point_size_def)
  have c1: "chunks ?p (adata ?tv) = concat (map (\<lambda>\<tau>. map (map ((*) \<tau>)) ?X) ts)"
    using chunks_concat_blocks [OF pos tvel] by (simp add: chunks_map comp_def)
  have bel: "\<forall>c \<in> set (replicate ?m (adata b)). length c = ?n * ?p" using lb by simp
  have c2: "chunks ?p (concat (replicate ?m (adata b))) = concat (replicate ?m ?B)"
    using chunks_concat_blocks [OF pos bel] by (simp add: map_replicate)
  have la: "list_all2 (\<lambda>a b. length a = length b) (map (\<lambda>\<tau>. map (map ((*) \<tau>)) ?X) ts) (replicate ?m ?B)"
    using ls lb pos by (simp add: list_all2_conv_all_nth length_chunks)
  have m2: "map2 ge (concat (map (\<lambda>\<tau>. map (map ((*) \<tau>)) ?X) ts)) (concat (replicate ?m ?B)) =
            concat (map (\<lambda>\<tau>. map2 (\<lambda>x y. ge (map ((*) \<tau>) x) y) ?X ?B) ts)"
  proof -
    let ?A = "map (\<lambda>\<tau>. map (map ((*) \<tau>)) ?X) ts"
    have pt: "\<And>\<tau>. map2 ge (map (map ((*) \<tau>)) ?X) ?B = map2 (\<lambda>x y. ge (map ((*) \<tau>) x) y) ?X ?B"
      by (rule map2_map_left)
    have "map2 ge (concat ?A) (concat (replicate ?m ?B)) = concat (map2 (map2 ge) ?A (replicate ?m ?B))"
      by (rule map2_concat [OF la])
    also have "\<dots> = concat (map (\<lambda>a. map2 ge a ?B) ?A)"
      by (simp only: map2_replicate_right length_map)
    also have "\<dots> = concat (map (\<lambda>\<tau>. map2 (\<lambda>x y. ge (map ((*) \<tau>) x) y) ?X ?B) ts)"
      by (simp only: map_map [where f = "\<lambda>a. map2 ge a ?B"] comp_def pt)
    finally show ?thesis .
  qed
  have ex: "NFoldMetric_exp g ?tv b =
            Inr \<lparr>ashape = ?m # ?S, adata = concat (map (\<lambda>\<tau>. concat (map2 (\<lambda>x y. ge (map ((*) \<tau>) x) y) ?X ?B)) ts)\<rparr>"
    using NFoldMetric_exp_lead [OF g M pos vecE wtv _ b] c1 c2 m2 by (simp add: concat_map_concat_fun)
  show ?thesis
    using ein M ex
    by (simp add: NFoldMetric_geodesic_path_def NFoldMetric_path_single_def geodesic_time_def array1_def)
qed

text \<open>The boundary-value problem: the initial tangent vector is the logarithm of the end point.\<close>

lemma NFoldMetric_geodesic_bvp_path:
  assumes g: "nfold_metric_wf g" and M: "nm_space g = M" and pos: "0 < point_size (base_manifold M)"
    and vecE: "binary_vectorized (base_manifold M) (exp_op (m_metric (base_manifold M))) ge"
    and vecL: "binary_vectorized (base_manifold M) (log_op (m_metric (base_manifold M))) gl"
    and k3: "length (nf_shape M) \<le> 3"
    and q: "wf_arr q" "ashape q = nf_shape M" and b: "wf_arr b" "ashape b = nf_shape M"
  shows "\<exists>path. NFoldMetric_geodesic g b (Some q) None = Inr path \<and>
           path (array1 ts) =
             Inr \<lparr>ashape = length ts # nf_shape M,
                  adata = concat (map (\<lambda>\<tau>. concat (map2 (\<lambda>x y. ge (map ((*) \<tau>) (gl x y)) y)
                                                 (chunks (point_size (base_manifold M)) (adata q))
                                                 (chunks (point_size (base_manifold M)) (adata b)))) ts)\<rparr>"
proof -
  let ?p = "point_size (base_manifold M)" and ?n = "n_copies M" and ?S = "nf_shape M"
  let ?Q = "chunks ?p (adata q)" and ?B = "chunks ?p (adata b)"
  let ?L = "map2 gl ?Q ?B"
  let ?s = "\<lparr>ashape = ?S, adata = concat ?L\<rparr>"
  have wf: "nfold_wf M" using g M by (simp add: nfold_metric_wf_def)
  have sq: "ashape q = [] @ nf_shape M" and bq: "ashape b = ashape q" using q b by simp_all
  have lq: "length (adata q) = ?n * ?p" and lb: "length (adata b) = ?n * ?p"
    using nfold_pair_length [OF wf q(1) sq b(1) bq] by simp_all
  have glen: "\<forall>x y. length x = ?p \<longrightarrow> length y = ?p \<longrightarrow> length (gl x y) = ?p"
    using vecL by (simp add: binary_vectorized_def)
  have Lel: "\<forall>c \<in> set ?L. length c = ?p"
    using glen zip_chunks_lengths [OF pos lq lb] by auto
  have ls: "length (concat ?L) = ?n * ?p" using length_concat_map2_chunks [OF glen pos lq lb] .
  have ws: "wf_arr ?s" using ls wf by (simp add: wf_arr_def nfold_wf_def point_size_def)
  have log: "NFoldMetric_log g q b = Inr ?s"
    using NFoldMetric_log_concat [OF g M pos vecL q(1) sq b(1) bq] by simp
  have bc: "broadcast_arrays2 b ?s = Inr (b, ?s)"
    using broadcast_arrays2_same [OF b(1) ws] b(2) by simp
  have geo: "NFoldMetric_geodesic g b (Some q) None = Inr (NFoldMetric_geodesic_path g False ?s b)"
    using log bc M by (simp add: NFoldMetric_geodesic_def point_ndim_def)
  have cs: "chunks ?p (adata ?s) = ?L" using chunks_concat [OF pos Lel] by simp
  show ?thesis
    using geo NFoldMetric_geodesic_path_times [OF g M pos vecE k3 ws _ b, of ts] cs
    by (simp add: map2_map2_left)
qed


lemma NFoldMetric_geodesic_path_length:
  assumes g: "nfold_metric_wf g" and M: "nm_space g = M" and pos: "0 < point_size (base_manifold M)"
    and vecE: "binary_vectorized (base_manifold M) (exp_op (m_metric (base_manifold M))) ge"
    and s: "length xs = n_copies M * point_size (base_manifold M)" and b: "length ys = n_copies M * point_size (base_manifold M)"
  shows "length (concat (map (\<lambda>\<tau>. concat (map2 (\<lambda>x y. ge (map ((*) \<tau>) x) y)
                        (chunks (point_size (base_manifold M)) xs) (chunks (point_size (base_manifold M)) ys))) ts)) =
         length ts * (n_copies M * point_size (base_manifold M))"
proof -
  let ?p = "point_size (base_manifold M)"
  have glen: "\<forall>\<tau>. \<forall>x y. length x = ?p \<longrightarrow> length y = ?p \<longrightarrow> length (ge (map ((*) \<tau>) x) y) = ?p"
    using vecE by (simp add: binary_vectorized_def)
  have "\<forall>c \<in> set (map (\<lambda>\<tau>. concat (map2 (\<lambda>x y. ge (map ((*) \<tau>) x) y) (chunks ?p xs) (chunks ?p ys))) ts).
          length c = n_copies M * ?p"
  proof
    fix c assume "c \<in> set (map (\<lambda>\<tau>. concat (map2 (\<lambda>x y. ge (map ((*) \<tau>) x) y) (chunks ?p xs) (chunks ?p ys))) ts)"
    then obtain \<tau> where c: "c = concat (map2 (\<lambda>x y. ge (map ((*) \<tau>) x) y) (chunks ?p xs) (chunks ?p ys))" by auto
    have g\<tau>: "\<forall>x y. length x = ?p \<longrightarrow> length y = ?p \<longrightarrow> length (ge (map ((*) \<tau>) x) y) = ?p"
      using glen by simp
    show "length c = n_copies M * ?p" unfolding c by (rule length_concat_map2_chunks [OF g\<tau> pos s b])
  qed
  then have "length (concat (map (\<lambda>\<tau>. concat (map2 (\<lambda>x y. ge (map ((*) \<tau>) x) y) (chunks ?p xs) (chunks ?p ys))) ts)) =
             length (map (\<lambda>\<tau>. concat (map2 (\<lambda>x y. ge (map ((*) \<tau>) x) y) (chunks ?p xs) (chunks ?p ys))) ts) * (n_copies M * ?p)"
    by (rule length_concat_const)
  then show ?thesis by simp
qed

section \<open>The call and its path\<close>

text \<open>C9: NFoldMetric.geodesic called with neither an end point nor an initial tangent vector fails with the ValueError of an ambiguous specification.\<close>

theorem NFoldMetric_geodesic_unspecified:
  "NFoldMetric_geodesic g initial_point None None =
     Inl (ValueError ''Specify an end landmark set or an initial tangentvector to define the geodesic.'')"
  by (simp add: NFoldMetric_geodesic_def)

text \<open>C10: NFoldMetric.geodesic called with an end point and an initial tangent vector that is not close to the logarithm of the end point fails with the RuntimeError of an inconsistent specification.\<close>

theorem NFoldMetric_geodesic_inconsistent:
  assumes "NFoldMetric_log g end_point initial_point = Inr shooting" and "allclose shooting v = Inr False"
  shows "NFoldMetric_geodesic g initial_point (Some end_point) (Some v) =
           Inl (RuntimeError ''The shooting tangent vector is too far from the initial tangent vector.'')"
  using assms by (simp add: NFoldMetric_geodesic_def)

text \<open>When the given initial tangent vector is close to the logarithm of the end point, NFoldMetric.geodesic returns the same path as with the end point alone: the given vector is replaced by the shooting vector.\<close>

lemma NFoldMetric_geodesic_consistent:
  assumes "NFoldMetric_log g end_point initial_point = Inr shooting" and "allclose shooting v = Inr True"
  shows "NFoldMetric_geodesic g initial_point (Some end_point) (Some v) =
         NFoldMetric_geodesic g initial_point (Some end_point) None"
  using assms by (simp add: NFoldMetric_geodesic_def)

text \<open>C8: The geodesic from p to q of NFoldMetric, evaluated at times [0, 1], returns [p, q] when, copy by copy, the base exponential of the base logarithm gives back the end point and the base exponential of a zero vector gives back the base point.\<close>

theorem NFoldMetric_geodesic_endpoints:
  assumes g: "nfold_metric_wf g" and M: "nm_space g = M" and pos: "0 < point_size (base_manifold M)"
    and vecE: "binary_vectorized (base_manifold M) (exp_op (m_metric (base_manifold M))) ge"
    and vecL: "binary_vectorized (base_manifold M) (log_op (m_metric (base_manifold M))) gl"
    and k3: "length (nf_shape M) \<le> 3"
    and q: "wf_arr q" "ashape q = nf_shape M" and b: "wf_arr b" "ashape b = nf_shape M"
    and inv: "\<forall>(x, y) \<in> set (zip (chunks (point_size (base_manifold M)) (adata q))
                                  (chunks (point_size (base_manifold M)) (adata b))). ge (gl x y) y = x"
    and zero: "\<forall>(x, y) \<in> set (zip (chunks (point_size (base_manifold M)) (adata q))
                                   (chunks (point_size (base_manifold M)) (adata b))). ge (map ((*) 0) (gl x y)) y = y"
  shows "\<exists>path. NFoldMetric_geodesic g b (Some q) None = Inr path \<and>
           path (array1 [0, 1]) = Inr \<lparr>ashape = 2 # nf_shape M, adata = adata b @ adata q\<rparr>"
proof -
  let ?p = "point_size (base_manifold M)" and ?n = "n_copies M"
  let ?Q = "chunks ?p (adata q)" and ?B = "chunks ?p (adata b)"
  have wf: "nfold_wf M" using g M by (simp add: nfold_metric_wf_def)
  have sq: "ashape q = [] @ nf_shape M" and bq: "ashape b = ashape q" using q b by simp_all
  have lq: "length (adata q) = ?n * ?p" and lb: "length (adata b) = ?n * ?p"
    using nfold_pair_length [OF wf q(1) sq b(1) bq] by simp_all
  have len: "length ?Q = length ?B" using lq lb pos by (simp add: length_chunks)
  have t0: "map2 (\<lambda>x y. ge (map ((*) 0) (gl x y)) y) ?Q ?B = ?B"
    by (rule map2_eq_right [OF len zero])
  have t1: "map2 (\<lambda>x y. ge (map ((*) 1) (gl x y)) y) ?Q ?B = ?Q"
    using map2_eq_left [OF len inv] by (simp add: map_mult_one)
  obtain path where "NFoldMetric_geodesic g b (Some q) None = Inr path"
    and "path (array1 [0, 1]) =
           Inr \<lparr>ashape = length [0, 1 :: real] # nf_shape M,
                adata = concat (map (\<lambda>\<tau>. concat (map2 (\<lambda>x y. ge (map ((*) \<tau>) (gl x y)) y) ?Q ?B)) [0, 1])\<rparr>"
    using NFoldMetric_geodesic_bvp_path [OF g M pos vecE vecL k3 q b, of "[0, 1]"] by blast
  then show ?thesis using t0 t1 pos by (simp add: numeral_2_eq_2)
qed

text \<open>C11: The geodesic of NFoldMetric with an initial tangent vector v at p is, at every time t, copy by copy the base exponential of t times the copy of v at the matching copy of p, the times stacked along a new first axis.\<close>

theorem NFoldMetric_geodesic_ivp_times:
  assumes g: "nfold_metric_wf g" and M: "nm_space g = M" and pos: "0 < point_size (base_manifold M)"
    and vecE: "binary_vectorized (base_manifold M) (exp_op (m_metric (base_manifold M))) ge"
    and k3: "length (nf_shape M) \<le> 3"
    and v: "wf_arr v" "ashape v = nf_shape M" and b: "wf_arr b" "ashape b = nf_shape M"
  shows "\<exists>path. NFoldMetric_geodesic g b None (Some v) = Inr path \<and>
           path (array1 ts) =
             Inr \<lparr>ashape = length ts # nf_shape M,
                  adata = concat (map (\<lambda>\<tau>. concat (map2 (\<lambda>x y. ge (map ((*) \<tau>) x) y)
                                                 (chunks (point_size (base_manifold M)) (adata v))
                                                 (chunks (point_size (base_manifold M)) (adata b)))) ts)\<rparr>"
proof -
  have "broadcast_arrays2 b v = Inr (b, v)" using broadcast_arrays2_same [OF b(1) v(1)] v(2) b(2) by simp
  then have "NFoldMetric_geodesic g b None (Some v) = Inr (NFoldMetric_geodesic_path g False v b)"
    using M v(2) by (simp add: NFoldMetric_geodesic_def point_ndim_def)
  then show ?thesis using NFoldMetric_geodesic_path_times [OF g M pos vecE k3 v b, of ts] by simp
qed

text \<open>C12: On initial data with one batch axis, the path returned by NFoldMetric.geodesic evaluates every batch element independently: its i-th entry is the path of the unbatched geodesic of the i-th initial point and tangent vector, and the entries are stacked along the batch axis.\<close>

theorem NFoldMetric_geodesic_batch_elementwise:
  assumes g: "nfold_metric_wf g" and M: "nm_space g = M" and pos: "0 < point_size (base_manifold M)"
    and vecE: "binary_vectorized (base_manifold M) (exp_op (m_metric (base_manifold M))) ge"
    and k3: "length (nf_shape M) \<le> 3"
    and v: "wf_arr v" "ashape v = b1 # nf_shape M" and p: "wf_arr p" "ashape p = ashape v" and b1: "0 < b1"
  shows "\<exists>path r. NFoldMetric_geodesic g p None (Some v) = Inr path \<and> path (array1 ts) = Inr r \<and>
           ashape r = b1 # length ts # nf_shape M \<and>
           (\<forall>i < b1. \<exists>path_i. NFoldMetric_geodesic g (arr_index p i) None (Some (arr_index v i)) = Inr path_i \<and>
                path_i (array1 ts) =
                  Inr \<lparr>ashape = length ts # nf_shape M,
                       adata = block (length ts * prod_list (nf_shape M)) (adata r) i\<rparr>)"
proof -
  let ?S = "nf_shape M" and ?p = "point_size (base_manifold M)" and ?n = "n_copies M" and ?m = "length ts"
  let ?D = "\<lambda>i. concat (map (\<lambda>\<tau>. concat (map2 (\<lambda>x y. ge (map ((*) \<tau>) x) y)
                  (chunks ?p (adata (arr_index v i))) (chunks ?p (adata (arr_index p i))))) ts)"
  let ?R = "\<lambda>i. \<lparr>ashape = ?m # ?S, adata = ?D i\<rparr>"
  have wf: "nfold_wf M" using g M by (simp add: nfold_metric_wf_def)
  have P: "prod_list ?S = ?n * ?p" using wf by (simp add: nfold_wf_def point_size_def)
  have elem: "NFoldMetric_geodesic_path g False (arr_index v i) (arr_index p i) (array1 ts) = Inr (?R i)
              \<and> NFoldMetric_geodesic g (arr_index p i) None (Some (arr_index v i)) =
                  Inr (NFoldMetric_geodesic_path g False (arr_index v i) (arr_index p i))
              \<and> length (?D i) = ?m * prod_list ?S" if i: "i < b1" for i
  proof -
    have wv: "wf_arr (arr_index v i)" and wp: "wf_arr (arr_index p i)"
      using arr_index_wf [OF v(1) v(2) i] arr_index_wf [OF p(1) _ i] p(2) v(2) by auto
    have sv: "ashape (arr_index v i) = ?S" and sp: "ashape (arr_index p i) = ?S"
      using v(2) p(2) by (simp_all add: arr_index_def)
    have "broadcast_arrays2 (arr_index p i) (arr_index v i) = Inr (arr_index p i, arr_index v i)"
      using broadcast_arrays2_same [OF wp wv] sv sp by simp
    moreover have "length (adata (arr_index v i)) = ?n * ?p" "length (adata (arr_index p i)) = ?n * ?p"
      using wv wp sv sp P by (simp_all add: wf_arr_def)
    ultimately show ?thesis
      using NFoldMetric_geodesic_path_times [OF g M pos vecE k3 wv sv wp sp, of ts] M sv
        NFoldMetric_geodesic_path_length [OF g M pos vecE, of "adata (arr_index v i)" "adata (arr_index p i)" ts] P
      by (simp add: NFoldMetric_geodesic_def point_ndim_def)
  qed
  have "broadcast_arrays2 p v = Inr (p, v)" using broadcast_arrays2_same [OF p(1) v(1) p(2)] by simp
  then have geo: "NFoldMetric_geodesic g p None (Some v) = Inr (NFoldMetric_geodesic_path g True v p)"
    using M v(2) by (simp add: NFoldMetric_geodesic_def point_ndim_def)
  have zs: "zip (unstack v) (unstack p) = map (\<lambda>i. (arr_index v i, arr_index p i)) [0..<b1]"
    using v(2) p(2) by (simp add: unstack_def zip_map_same)
  have me: "mapE (\<lambda>(a, b). NFoldMetric_path_single g (array1 ts) a b) (zip (unstack v) (unstack p)) =
            Inr (map ?R [0..<b1])"
    unfolding zs by (rule mapE_map)
       (use elem in \<open>auto simp: NFoldMetric_geodesic_path_def geodesic_time_def array1_def\<close>)
  have st: "stack (map ?R [0..<b1]) = Inr \<lparr>ashape = b1 # ?m # ?S, adata = concat (map ?D [0..<b1])\<rparr>"
    using stack_same [of "map ?R [0..<b1]" "?m # ?S"] b1 by (simp add: comp_def)
  have blk: "block (?m * prod_list ?S) (concat (map ?D [0..<b1])) i = ?D i" if i: "i < b1" for i
    using block_concat_upt [of b1 ?D "?m * prod_list ?S" i] elem i by blast
  have "NFoldMetric_geodesic_path g True v p (array1 ts) = Inr \<lparr>ashape = b1 # ?m # ?S, adata = concat (map ?D [0..<b1])\<rparr>"
    using me st by (simp add: NFoldMetric_geodesic_path_def geodesic_time_def array1_def)
  then show ?thesis
    using geo elem blk by auto
qed

text \<open>C32: On initial data with two batch axes (b1, b2), the path returned by NFoldMetric.geodesic fails with a ValueError for every array of more than one time whose length differs from b2 > 1: the einsum of the single-instance path broadcasts the times against the second batch axis instead of mapping over the batch.\<close>

theorem NFoldMetric_geodesic_batch2_fails:
  assumes M: "nm_space g = M" and k3: "length (nf_shape M) \<le> 3"
    and v: "wf_arr v" "ashape v = [b1, b2] @ nf_shape M" and p: "wf_arr p" "ashape p = ashape v"
    and b1: "0 < b1" and b2: "1 < b2" and ts: "1 < length ts" "length ts \<noteq> b2"
  shows "\<exists>path. NFoldMetric_geodesic g p None (Some v) = Inr path \<and>
           path (array1 ts) = Inl (ValueError ''operands could not be broadcast together with remapped shapes'')"
proof -
  let ?S = "nf_shape M"
  have "broadcast_arrays2 p v = Inr (p, v)" using broadcast_arrays2_same [OF p(1) v(1) p(2)] by simp
  then have geo: "NFoldMetric_geodesic g p None (Some v) = Inr (NFoldMetric_geodesic_path g True v p)"
    using M v(2) by (simp add: NFoldMetric_geodesic_def point_ndim_def)
  let ?v0 = "\<lparr>ashape = b2 # ?S, adata = block (prod_list (b2 # ?S)) (adata v) 0\<rparr>"
  let ?p0 = "\<lparr>ashape = b2 # ?S, adata = block (prod_list (b2 # ?S)) (adata p) 0\<rparr>"
  have uv: "\<exists>rest. zip (unstack v) (unstack p) = (?v0, ?p0) # rest"
    using v(2) p(2) b1 by (simp add: unstack_def arr_index_def upt_conv_Cons)
  have nb: "broadcast_shape [length ts] [b2] = Inl (ValueError ''shape mismatch: objects cannot be broadcast to a single shape'')"
    using b2 ts by (simp add: broadcast_shape_def)
  have "einsum_scalar_ellipsis (min 3 (point_ndim M)) (array1 ts) ?v0 =
          Inl (ValueError ''operands could not be broadcast together with remapped shapes'')"
    using k3 nb by (simp add: einsum_scalar_ellipsis_def point_ndim_def min_def array1_def Let_def)
  then have "NFoldMetric_path_single g (array1 ts) ?v0 ?p0 =
               Inl (ValueError ''operands could not be broadcast together with remapped shapes'')"
    using M by (simp add: NFoldMetric_path_single_def)
  then show ?thesis
    using geo uv by (auto simp: NFoldMetric_geodesic_path_def geodesic_time_def array1_def)
qed

end
