(* ===== verification/NFoldSampling.thy ===== *)
theory NFoldSampling
  imports NFold
begin

text \<open>
  What \<^verbatim>\<open>NFoldManifold.random_point\<close> and \<^verbatim>\<open>NFoldManifold.projection\<close> return:
  the shape of a sample and its failure on zero samples, and the copy-wise
  projection, which lands in the product manifold whenever the base projection
  lands in the base manifold.
\<close>

section \<open>random_point\<close>

lemma NFoldManifold_random_point_data:
  assumes wf: "nfold_wf M" and sz: "sampler_sized (base_manifold M)"
    and smp: "m_random_point (base_manifold M) (n * n_copies M) bound = Inr s"
  shows "NFoldManifold_random_point M n bound =
           (if 1 < n then Inr \<lparr>ashape = n # nf_shape M, adata = adata s\<rparr>
            else if n = 1 then Inr \<lparr>ashape = nf_shape M, adata = adata s\<rparr>
            else Inl (ValueError ''cannot select an axis to squeeze out which has size not equal to one''))"
proof -
  have "length (adata s) = n * n_copies M * point_size (base_manifold M)"
    using sz smp by (simp add: sampler_sized_def)
  then have "prod_list ([n, n_copies M] @ m_shape (base_manifold M)) = length (adata s)"
    by (simp add: point_size_def mult.assoc)
  then show ?thesis
    using smp wf by (simp add: NFoldManifold_random_point_def reshape_def squeeze0_def nfold_wf_def)
qed

text \<open>C15: NFoldManifold.random_point with n_samples > 0 makes one batched call to the base sampler for n_samples * n_copies points and returns its data with shape (n_samples, n_copies, *base_shape), the leading axis squeezed when n_samples = 1.\<close>

theorem NFoldManifold_random_point_shape:
  assumes wf: "nfold_wf M" and sz: "sampler_sized (base_manifold M)"
    and smp: "m_random_point (base_manifold M) (n * n_copies M) bound = Inr s" and n: "0 < n"
  shows "\<exists>r. NFoldManifold_random_point M n bound = Inr r \<and> wf_arr r \<and> adata r = adata s \<and>
             ashape r = (if n = 1 then [] else [n]) @ n_copies M # m_shape (base_manifold M)"
proof -
  have "length (adata s) = n * n_copies M * point_size (base_manifold M)"
    using sz smp by (simp add: sampler_sized_def)
  then show ?thesis
    using NFoldManifold_random_point_data [OF wf sz smp] n wf
    by (auto simp: wf_arr_def nfold_wf_def point_size_def)
qed

text \<open>C33: NFoldManifold.random_point with n_samples = 0 fails with a ValueError (squeezing an axis of size 0), where the contract promises an array of n_samples points.\<close>

theorem NFoldManifold_random_point_zero:
  assumes wf: "nfold_wf M" and sz: "sampler_sized (base_manifold M)"
    and smp: "m_random_point (base_manifold M) 0 bound = Inr s"
  shows "NFoldManifold_random_point M 0 bound =
           Inl (ValueError ''cannot select an axis to squeeze out which has size not equal to one'')"
  using NFoldManifold_random_point_data [OF wf sz] smp by simp

section \<open>projection\<close>

lemma NFoldManifold_projection_concat:
  assumes wf: "nfold_wf M" and pos: "0 < point_size (base_manifold M)"
    and vec: "projection_vectorized (base_manifold M) pr"
    and pt: "wf_arr point" "ashape point = bs @ nf_shape M"
  shows "NFoldManifold_projection M point =
           Inr \<lparr>ashape = bs @ nf_shape M, adata = concat (map pr (chunks (point_size (base_manifold M)) (adata point)))\<rparr>"
proof -
  let ?B = "base_manifold M" and ?p = "point_size (base_manifold M)" and ?N = "prod_list bs * n_copies M"
  have len: "length (adata point) = ?N * ?p" using nfold_point_length [OF wf pt] .
  obtain op where op: "m_projection ?B = Some op"
    and plen: "\<forall>x. length x = ?p \<longrightarrow> length (pr x) = ?p"
    and opv: "\<forall>n x. length x = n * ?p \<longrightarrow> (\<exists>r. op (batch_arr ?B n x) = Inr r \<and> adata r = concat (map pr (chunks ?p x)))"
    using vec unfolding projection_vectorized_def by blast
  obtain r where r: "op (batch_arr ?B ?N (adata point)) = Inr r"
    and rd: "adata r = concat (map pr (chunks ?p (adata point)))"
    using opv len by blast
  have "\<forall>c \<in> set (map pr (chunks ?p (adata point))). length c = ?p"
    using plen length_chunk_elem [OF pos len] by auto
  then have "length (adata r) = ?N * ?p"
    using rd length_concat_const [of "map pr (chunks ?p (adata point))" ?p] len pos
    by (simp add: length_chunks)
  then have "prod_list (bs @ nf_shape M) = length (adata r)"
    using wf by (simp add: nfold_wf_def point_size_def)
  then show ?thesis
    using nfold_batch_shape [OF pt(2)] reshape_flat_batch [OF pos len] op r rd
    by (simp add: NFoldManifold_projection_def reshape_def)
qed


text \<open>C16: When the base projection lands in the base manifold, NFoldManifold.projection lands in the product: every batch element of the projected point passes NFoldManifold.belongs.\<close>

theorem NFoldManifold_projection_belongs:
  assumes wf: "nfold_wf M" and pos: "0 < point_size (base_manifold M)"
    and vecP: "projection_vectorized (base_manifold M) pr"
    and vecB: "belongs_vectorized (base_manifold M) f"
    and lands: "\<forall>x. length x = point_size (base_manifold M) \<longrightarrow> f (pr x) atol"
    and pt: "wf_arr point" "ashape point = bs @ nf_shape M"
  shows "\<exists>y. NFoldManifold_projection M point = Inr y \<and>
             NFoldManifold_belongs M y atol = Inr \<lparr>ashape = bs, adata = replicate (prod_list bs) True\<rparr>"
proof -
  let ?p = "point_size (base_manifold M)" and ?n = "n_copies M" and ?N = "prod_list bs * n_copies M"
  let ?X = "chunks ?p (adata point)"
  let ?y = "\<lparr>ashape = bs @ nf_shape M, adata = concat (map pr ?X)\<rparr>"
  have len: "length (adata point) = ?N * ?p" using nfold_point_length [OF wf pt] .
  have n0: "0 < ?n" using wf by (simp add: nfold_wf_def)
  have plen: "\<forall>x. length x = ?p \<longrightarrow> length (pr x) = ?p"
    using vecP unfolding projection_vectorized_def by blast
  have elems: "\<forall>c \<in> set (map pr ?X). length c = ?p"
    using plen length_chunk_elem [OF pos len] by auto
  have ly: "length (adata ?y) = prod_list bs * (?n * ?p)"
    using length_concat_const [OF elems] len pos by (simp add: length_chunks ac_simps)
  have wy: "wf_arr ?y" using ly wf by (simp add: wf_arr_def nfold_wf_def point_size_def ac_simps)
  have cy: "chunks ?p (adata ?y) = map pr ?X" using chunks_concat [OF pos elems] by simp
  have good: "\<forall>c \<in> set (chunks ?p (adata ?y)). f c atol"
    using cy lands length_chunk_elem [OF pos len] by auto
  have "\<forall>q \<in> set (chunks (?n * ?p) (adata ?y)). \<forall>c \<in> set (chunks ?p q). f c atol"
    using good chunks_chunks_elem [OF pos n0 ly] by blast
  then have "map (\<lambda>q. \<forall>c \<in> set (chunks ?p q). f c atol) (chunks (?n * ?p) (adata ?y)) =
             replicate (length (chunks (?n * ?p) (adata ?y))) True"
    by (rule map_all_True)
  moreover have "length (chunks (?n * ?p) (adata ?y)) = prod_list bs"
    using ly pos n0 by (simp add: length_chunks)
  ultimately have rows: "map (\<lambda>q. \<forall>c \<in> set (chunks ?p q). f c atol) (chunks (?n * ?p) (adata ?y)) =
             replicate (prod_list bs) True" by simp
  show ?thesis
    using NFoldManifold_projection_concat [OF wf pos vecP pt] NFoldManifold_belongs_rows [OF wf pos vecB wy] rows
    by simp
qed

end
