(* ===== verification/Exponential.thy ===== *)
theory Exponential
  imports Manifold
begin

text \<open>
  The manifold of exponential distributions of
  \<^verbatim>\<open>src/geomstats/information_geometry/exponential.py\<close>: the open half-line of
  parameters, points of shape \<open>(1,)\<close>, with the Fisher-Rao metric
  \<open>g_p(u, v) = u v / p\<^sup>2\<close>. \<open>ExponentialDistributions_*\<close> model the methods of
  \<^verbatim>\<open>ExponentialDistributions\<close> and \<open>ExponentialMetric_*\<close> those of
  \<^verbatim>\<open>ExponentialMetric\<close>; \<open>ExponentialDistributions rs\<close> packs them as a
  manifold of the contract, with \<open>rs\<close> the uniform draws of \<^verbatim>\<open>gs.random.rand\<close>.
  Arithmetic on arrays is elementwise after broadcasting (\<open>bin_op\<close>). Python's
  non-finite floats are outside the model: the lemmas assume positive parameters,
  where the code's results are finite.
\<close>

section \<open>ExponentialDistributions\<close>

definition ExponentialDistributions_shape :: "nat list" where
  "ExponentialDistributions_shape = [1]"

text \<open>
  \<^verbatim>\<open>belongs\<close>: a wrong trailing shape gives an all-\<open>False\<close> array of the batch
  shape; otherwise the test \<open>point \<ge> -atol\<close>, squeezed.
\<close>

definition ExponentialDistributions_belongs :: "real arr \<Rightarrow> real \<Rightarrow> bool arr" where
  "ExponentialDistributions_belongs point atol =
     (let s = ashape point; point_ndim = length ExponentialDistributions_shape in
      if ExponentialDistributions_shape = drop (length s - point_ndim) s
      then squeeze (amap (\<lambda>x. - atol \<le> x) point)
      else \<lparr>ashape = take (length s - point_ndim) s,
            adata = replicate (prod_list (take (length s - point_ndim) s)) False\<rparr>)"

text \<open>
  \<^verbatim>\<open>random_point(n_samples, lower_bound, upper_bound)\<close>: \<open>(upper - lower) * r + lower\<close>
  for uniform draws \<open>r = rs i\<close>; the shape is \<open>(n, 1)\<close>, or \<open>(1,)\<close> when \<open>n = 1\<close>.
\<close>

definition ExponentialDistributions_random_point ::
  "(nat \<Rightarrow> real) \<Rightarrow> nat \<Rightarrow> real \<Rightarrow> real \<Rightarrow> real arr" where
  "ExponentialDistributions_random_point rs n_samples lower_bound upper_bound =
     (let size = (if n_samples \<noteq> 1 then [n_samples, 1] else [1]) in
      \<lparr>ashape = size,
       adata = map (\<lambda>i. (upper_bound - lower_bound) * rs i + lower_bound) [0..<prod_list size]\<rparr>)"

definition ExponentialDistributions_projection :: "real arr \<Rightarrow> real \<Rightarrow> real arr" where
  "ExponentialDistributions_projection point atol = amap (\<lambda>x. if x < atol then atol else x) point"

text \<open>
  \<^verbatim>\<open>point_to_pdf(point)(x)\<close>: \<open>x\<close> is flattened, \<open>point * exp(-point * x)\<close> is
  formed by broadcasting, and the density is set to 0 where \<open>x < 0\<close>.
\<close>

definition ExponentialDistributions_point_to_pdf :: "real arr \<Rightarrow> real arr \<Rightarrow> real arr result" where
  "ExponentialDistributions_point_to_pdf point x =
     (let x' = \<lparr>ashape = [length (adata x)], adata = adata x\<rparr> in
      bindE (bin_op (\<lambda>p t. - p * t) point x') (\<lambda>e.
      bindE (bin_op (*) point (amap exp e)) (\<lambda>pdf_at_x.
      bin_op (\<lambda>c v. if c then v else 0) (amap (\<lambda>t. 0 \<le> t) x') pdf_at_x)))"

text \<open>
  \<^verbatim>\<open>OpenSet.is_tangent\<close> and \<^verbatim>\<open>OpenSet.to_tangent\<close> (inherited, through the
  embedding space \<open>Euclidean(1)\<close>): every vector of the right shape is tangent, and
  the projection returns the vector.
\<close>

definition OpenSet_is_tangent :: "real arr \<Rightarrow> real arr \<Rightarrow> real \<Rightarrow> bool arr result" where
  "OpenSet_is_tangent vector base_point atol =
     (let s = ashape vector in
      if drop (length s - 1) s = ExponentialDistributions_shape
      then Inr \<lparr>ashape = take (length s - 1) s, adata = replicate (prod_list (take (length s - 1) s)) True\<rparr>
      else Inr \<lparr>ashape = take (length s - 1) s, adata = replicate (prod_list (take (length s - 1) s)) False\<rparr>)"

definition OpenSet_to_tangent :: "real arr \<Rightarrow> real arr \<Rightarrow> real arr result" where
  "OpenSet_to_tangent vector base_point = Inr vector"

section \<open>ExponentialMetric\<close>

text \<open>Python's \<^verbatim>\<open>x ** t\<close> on the reals where it is finite: \<open>x ** 0 = 1\<close>, else \<open>x powr t\<close>.\<close>

definition py_pow :: "real \<Rightarrow> real \<Rightarrow> real" where
  "py_pow x t = (if t = 0 then 1 else x powr t)"

definition ExponentialMetric_squared_dist :: "real arr \<Rightarrow> real arr \<Rightarrow> real arr result" where
  "ExponentialMetric_squared_dist point_a point_b =
     bindE (bin_op (/) point_a point_b) (\<lambda>q. Inr (squeeze (amap (\<lambda>x. (ln x)\<^sup>2) q)))"

definition ExponentialMetric_metric_matrix :: "real arr \<Rightarrow> real arr" where
  "ExponentialMetric_metric_matrix base_point = expand_dims_last (amap (\<lambda>x. 1 / x\<^sup>2) base_point)"

definition ExponentialMetric_geodesic_path :: "real arr \<Rightarrow> real arr \<Rightarrow> real arr \<Rightarrow> real arr result" where
  "ExponentialMetric_geodesic_path t initial_point base =
     (let t' = \<lparr>ashape = [length (adata t)], adata = adata t\<rparr> in
      bindE (broadcast_arrays2 base t') (\<lambda>(base_aux, t_aux).
      bindE (bin_op py_pow base_aux t_aux) (\<lambda>pw.
      bindE (bin_op (*) initial_point pw) (\<lambda>r. Inr (expand_dims_last r)))))"

definition ExponentialMetric_geodesic_ivp ::
  "real arr \<Rightarrow> real arr \<Rightarrow> (real arr \<Rightarrow> real arr result) result" where
  "ExponentialMetric_geodesic_ivp initial_point initial_tangent_vec =
     bindE (bin_op (/) initial_tangent_vec initial_point) (\<lambda>q.
       let base = amap exp q in Inr (\<lambda>t. ExponentialMetric_geodesic_path t initial_point base))"

definition ExponentialMetric_geodesic_bvp ::
  "real arr \<Rightarrow> real arr \<Rightarrow> (real arr \<Rightarrow> real arr result) result" where
  "ExponentialMetric_geodesic_bvp initial_point end_point =
     bindE (bin_op (/) end_point initial_point) (\<lambda>base.
       Inr (\<lambda>t. ExponentialMetric_geodesic_path t initial_point base))"

definition ExponentialMetric_exp :: "real arr \<Rightarrow> real arr \<Rightarrow> real arr result" where
  "ExponentialMetric_exp tangent_vec base_point =
     bindE (bin_op (/) tangent_vec base_point) (\<lambda>q. bin_op (*) (amap exp q) base_point)"

definition ExponentialMetric_log :: "real arr \<Rightarrow> real arr \<Rightarrow> real arr result" where
  "ExponentialMetric_log point base_point =
     bindE (bin_op (/) point base_point) (\<lambda>q. bin_op (*) base_point (amap ln q))"

text \<open>
  \<^verbatim>\<open>RiemannianMetric.inner_product\<close>, inherited: \<open>u\<^sup>T G v\<close> with \<open>G\<close> the
  metric matrix at the base point; for points of shape \<open>(1,)\<close> a product of three
  numbers per point. Arguments of different shapes are outside the model.
\<close>

definition ExponentialMetric_inner_product :: "real arr \<Rightarrow> real arr \<Rightarrow> real arr \<Rightarrow> real arr result" where
  "ExponentialMetric_inner_product tangent_vec_a tangent_vec_b base_point =
     (let G = ExponentialMetric_metric_matrix base_point in
      if ashape tangent_vec_a = ashape base_point \<and> ashape tangent_vec_b = ashape base_point
         \<and> ashape base_point \<noteq> [] \<and> last (ashape base_point) = 1
      then Inr \<lparr>ashape = butlast (ashape base_point),
                adata = map (\<lambda>((a, b), c). a * c * b) (zip (zip (adata tangent_vec_a) (adata tangent_vec_b)) (adata G))\<rparr>
      else Inl (ValueError ''operands could not be broadcast together''))"

section \<open>The manifold of the contract\<close>

definition ExponentialMetric :: metric where
  "ExponentialMetric =
     \<lparr>metric_matrix_op = (\<lambda>p. Inr (ExponentialMetric_metric_matrix p)),
      inner_product_op = ExponentialMetric_inner_product,
      exp_op = ExponentialMetric_exp,
      log_op = ExponentialMetric_log\<rparr>"

text \<open>
  The composite calls \<^verbatim>\<open>random_point(n, bound)\<close> positionally, which here binds
  \<^verbatim>\<open>bound\<close> to \<^verbatim>\<open>lower_bound\<close> and leaves \<^verbatim>\<open>upper_bound = 1.0\<close>; it calls
  \<^verbatim>\<open>projection(point)\<close> with the default tolerance.
\<close>

definition ExponentialDistributions :: "(nat \<Rightarrow> real) \<Rightarrow> manifold" where
  "ExponentialDistributions rs =
     \<lparr>m_dim = 1, m_shape = ExponentialDistributions_shape,
      m_default_coords_type = ''intrinsic'',
      m_belongs = (\<lambda>p atol. Inr (ExponentialDistributions_belongs p atol)),
      m_is_tangent = OpenSet_is_tangent,
      m_to_tangent = OpenSet_to_tangent,
      m_projection = Some (\<lambda>p. Inr (ExponentialDistributions_projection p gs_atol)),
      m_random_point = (\<lambda>n bound. Inr (ExponentialDistributions_random_point rs n bound 1)),
      m_metric = ExponentialMetric\<rparr>"

section \<open>The metric: elementwise formulas and round trips\<close>

lemma ExponentialMetric_exp_same:
  "wf_arr v \<Longrightarrow> wf_arr p \<Longrightarrow> ashape v = ashape p \<Longrightarrow>
   ExponentialMetric_exp v p = Inr \<lparr>ashape = ashape p, adata = map2 (\<lambda>x y. exp (x / y) * y) (adata v) (adata p)\<rparr>"
proof -
  assume a: "wf_arr v" "wf_arr p" "ashape v = ashape p"
  let ?q = "\<lparr>ashape = ashape p, adata = map2 (/) (adata v) (adata p)\<rparr>"
  have q: "bin_op (/) v p = Inr ?q" using a by (simp add: bin_op_same)
  have wq: "wf_arr (amap exp ?q)" using a by (simp add: wf_arr_def amap_def)
  have "bin_op (*) (amap exp ?q) p =
        Inr \<lparr>ashape = ashape p, adata = map2 (*) (map exp (map2 (/) (adata v) (adata p))) (adata p)\<rparr>"
    using bin_op_same [OF wq a(2)] by (simp add: amap_def)
  then show ?thesis
    using q by (simp add: ExponentialMetric_exp_def map2_map_zip_left)
qed

lemma ExponentialMetric_log_same:
  "wf_arr q \<Longrightarrow> wf_arr p \<Longrightarrow> ashape q = ashape p \<Longrightarrow>
   ExponentialMetric_log q p = Inr \<lparr>ashape = ashape p, adata = map2 (\<lambda>x y. y * ln (x / y)) (adata q) (adata p)\<rparr>"
proof -
  assume a: "wf_arr q" "wf_arr p" "ashape q = ashape p"
  let ?r = "\<lparr>ashape = ashape p, adata = map2 (/) (adata q) (adata p)\<rparr>"
  have r: "bin_op (/) q p = Inr ?r" using a by (simp add: bin_op_same)
  have wr: "wf_arr (amap ln ?r)" using a by (simp add: wf_arr_def amap_def)
  have "bin_op (*) p (amap ln ?r) =
        Inr \<lparr>ashape = ashape p, adata = map2 (*) (adata p) (map ln (map2 (/) (adata q) (adata p)))\<rparr>"
    using bin_op_same [OF a(2) wr] by (simp add: amap_def)
  then show ?thesis
    using r by (simp add: ExponentialMetric_log_def map2_map_zip_right)
qed

lemma ExponentialMetric_log_exp_cancel:
  assumes v: "wf_arr v" and p: "wf_arr p" and sh: "ashape v = ashape p"
    and pos: "list_all (\<lambda>y. 0 < y) (adata p)"
  shows "bindE (ExponentialMetric_exp v p) (\<lambda>q. ExponentialMetric_log q p) = Inr v"
proof -
  let ?E = "map2 (\<lambda>x y. exp (x / y) * y) (adata v) (adata p)"
  let ?q = "\<lparr>ashape = ashape p, adata = ?E\<rparr>"
  have wq: "wf_arr ?q" using v p sh by (simp add: wf_arr_def)
  have "map2 (\<lambda>x y. y * ln (x / y)) ?E (adata p) = adata v"
  proof (rule map2_map2_cancel)
    show "length (adata v) = length (adata p)" using v p sh by (simp add: wf_arr_def)
    show "\<forall>(x, y) \<in> set (zip (adata v) (adata p)). y * ln (exp (x / y) * y / y) = x"
      using pos by (auto simp: list_all_iff dest: set_zip_rightD)
  qed
  then show ?thesis
    using ExponentialMetric_exp_same [OF v p sh] ExponentialMetric_log_same [OF wq p] sh
    by (simp add: arr_eqI)
qed

lemma exp_ln_div: "0 < x \<Longrightarrow> 0 < (y :: real) \<Longrightarrow> exp (ln (x / y)) * y = x"
  by simp

lemma ExponentialMetric_exp_log_cancel:
  assumes q: "wf_arr q" and p: "wf_arr p" and sh: "ashape q = ashape p"
    and posq: "list_all (\<lambda>x. 0 < x) (adata q)" and posp: "list_all (\<lambda>y. 0 < y) (adata p)"
  shows "bindE (ExponentialMetric_log q p) (\<lambda>v. ExponentialMetric_exp v p) = Inr q"
proof -
  let ?L = "map2 (\<lambda>x y. y * ln (x / y)) (adata q) (adata p)"
  let ?v = "\<lparr>ashape = ashape p, adata = ?L\<rparr>"
  have wv: "wf_arr ?v" using q p sh by (simp add: wf_arr_def)
  have "map2 (\<lambda>x y. exp (x / y) * y) ?L (adata p) = adata q"
  proof (rule map2_map2_cancel)
    show "length (adata q) = length (adata p)" using q p sh by (simp add: wf_arr_def)
    show "\<forall>(x, y) \<in> set (zip (adata q) (adata p)). exp (y * ln (x / y) / y) * y = x"
      by (auto dest!: list_all_zip_D [OF posq posp] simp: exp_ln_div)
  qed
  then show ?thesis
    using ExponentialMetric_log_same [OF q p sh] ExponentialMetric_exp_same [OF wv p] sh
    by (simp add: arr_eqI)
qed

text \<open>C17: At positive base points, ExponentialMetric.exp and ExponentialMetric.log are mutually inverse, elementwise over the batch. log(exp(v, p), p) = v holds for every tangent vector v, and exp(log(q, p), p) = q holds for every positive point q.\<close>

theorem ExponentialMetric_exp_log_inverse:
  assumes "wf_arr v" "wf_arr q" "wf_arr p" "ashape v = ashape p" "ashape q = ashape p"
    and "list_all (\<lambda>x. 0 < x) (adata q)" "list_all (\<lambda>y. 0 < y) (adata p)"
  shows "bindE (ExponentialMetric_exp v p) (\<lambda>q'. ExponentialMetric_log q' p) = Inr v \<and>
         bindE (ExponentialMetric_log q p) (\<lambda>v'. ExponentialMetric_exp v' p) = Inr q"
  using ExponentialMetric_log_exp_cancel [of v p] ExponentialMetric_exp_log_cancel [of q p] assms by simp

section \<open>The contract: the exponential manifold as a base of a composite\<close>

text \<open>
  Each batched operation acts point by point, so the manifold meets every
  \<open>*_vectorized\<close> predicate of the contract, with the pointwise functions below.
\<close>

lemma m_shape_ExponentialDistributions [simp]: "m_shape (ExponentialDistributions rs) = [1]"
  by (simp add: ExponentialDistributions_def ExponentialDistributions_shape_def)

lemma point_size_ExponentialDistributions [simp]: "point_size (ExponentialDistributions rs) = 1"
  by (simp add: point_size_def)

lemma ExponentialDistributions_fields [simp]:
  "m_dim (ExponentialDistributions rs) = 1"
  "m_default_coords_type (ExponentialDistributions rs) = ''intrinsic''"
  "m_belongs (ExponentialDistributions rs) = (\<lambda>p atol. Inr (ExponentialDistributions_belongs p atol))"
  "m_is_tangent (ExponentialDistributions rs) = OpenSet_is_tangent"
  "m_to_tangent (ExponentialDistributions rs) = OpenSet_to_tangent"
  "m_projection (ExponentialDistributions rs) = Some (\<lambda>p. Inr (ExponentialDistributions_projection p gs_atol))"
  "m_random_point (ExponentialDistributions rs) = (\<lambda>n bound. Inr (ExponentialDistributions_random_point rs n bound 1))"
  "m_metric (ExponentialDistributions rs) = ExponentialMetric"
  by (simp_all add: ExponentialDistributions_def)

lemma ExponentialMetric_fields [simp]:
  "exp_op ExponentialMetric = ExponentialMetric_exp"
  "log_op ExponentialMetric = ExponentialMetric_log"
  "inner_product_op ExponentialMetric = ExponentialMetric_inner_product"
  "metric_matrix_op ExponentialMetric = (\<lambda>p. Inr (ExponentialMetric_metric_matrix p))"
  by (simp_all add: ExponentialMetric_def)

lemma batch_arr_expo_wf: "length x = n \<Longrightarrow> wf_arr (batch_arr (ExponentialDistributions rs) n x)"
  by (simp add: batch_arr_def wf_arr_def)

lemma ExponentialDistributions_belongs_vectorized:
  "belongs_vectorized (ExponentialDistributions rs) (\<lambda>p atol. - atol \<le> hd p)"
  by (simp add: belongs_vectorized_def ExponentialDistributions_belongs_def
                ExponentialDistributions_shape_def batch_arr_def squeeze_def amap_def chunks_1 comp_def)

lemma ExponentialDistributions_is_tangent_vectorized:
  "is_tangent_vectorized (ExponentialDistributions rs) (\<lambda>x y atol. True)"
proof -
  have "map2 (\<lambda>x y. True) (map (\<lambda>x. [x]) v) (map (\<lambda>x. [x]) b) = replicate n True"
    if "length v = n" "length b = n" for n and v b :: "real list"
    using that by (intro nth_equalityI) simp_all
  then show ?thesis
    by (simp add: is_tangent_vectorized_def OpenSet_is_tangent_def ExponentialDistributions_shape_def
                  batch_arr_def chunks_1)
qed

lemma ExponentialDistributions_to_tangent_vectorized:
  "binary_vectorized (ExponentialDistributions rs) (m_to_tangent (ExponentialDistributions rs)) (\<lambda>x y. [hd x])"
  by (simp add: binary_vectorized_def OpenSet_to_tangent_def batch_arr_def chunks_1
                concat_map2_singletons_hd [of "\<lambda>x y. x"] map2_fst_eq)

lemma ExponentialDistributions_exp_vectorized:
  "binary_vectorized (ExponentialDistributions rs) (exp_op (m_metric (ExponentialDistributions rs)))
     (\<lambda>x y. [exp (hd x / hd y) * hd y])"
proof -
  have "ExponentialMetric_exp (batch_arr (ExponentialDistributions rs) n v) (batch_arr (ExponentialDistributions rs) n b) =
        Inr \<lparr>ashape = [n, 1], adata = map2 (\<lambda>x y. exp (x / y) * y) v b\<rparr>"
    if "length v = n" "length b = n" for n v b
    using ExponentialMetric_exp_same [of "\<lparr>ashape = [n, 1], adata = v\<rparr>" "\<lparr>ashape = [n, 1], adata = b\<rparr>"] that
    by (simp add: batch_arr_def wf_arr_def)
  then show ?thesis
    by (simp add: binary_vectorized_def chunks_1
                  concat_map2_singletons_hd [of "\<lambda>x y. exp (x / y) * y"])
qed

lemma ExponentialDistributions_log_vectorized:
  "binary_vectorized (ExponentialDistributions rs) (log_op (m_metric (ExponentialDistributions rs)))
     (\<lambda>x y. [hd y * ln (hd x / hd y)])"
proof -
  have "ExponentialMetric_log (batch_arr (ExponentialDistributions rs) n v) (batch_arr (ExponentialDistributions rs) n b) =
        Inr \<lparr>ashape = [n, 1], adata = map2 (\<lambda>x y. y * ln (x / y)) v b\<rparr>"
    if "length v = n" "length b = n" for n v b
    using ExponentialMetric_log_same [of "\<lparr>ashape = [n, 1], adata = v\<rparr>" "\<lparr>ashape = [n, 1], adata = b\<rparr>"] that
    by (simp add: batch_arr_def wf_arr_def)
  then show ?thesis
    by (simp add: binary_vectorized_def chunks_1
                  concat_map2_singletons_hd [of "\<lambda>x y. y * ln (x / y)"])
qed

lemma ExponentialDistributions_inner_product_vectorized:
  "inner_product_vectorized (ExponentialDistributions rs) (\<lambda>x y z. hd x * (1 / (hd z)\<^sup>2) * hd y)"
proof -
  have "map (\<lambda>((a, b), c). a * c * b) (zip (zip u v) (map (\<lambda>x. 1 / x\<^sup>2) b)) =
        map (\<lambda>(x, y, z). hd x * (1 / (hd z)\<^sup>2) * hd y)
          (zip (map (\<lambda>x. [x]) u) (zip (map (\<lambda>x. [x]) v) (map (\<lambda>x. [x]) b)))"
    if "length u = n" "length v = n" "length b = n" for n and u v b :: "real list"
    using that by (intro nth_equalityI) auto
  then show ?thesis
    by (simp add: inner_product_vectorized_def
                  ExponentialMetric_inner_product_def ExponentialMetric_metric_matrix_def
                  expand_dims_last_def amap_def batch_arr_def chunks_1
                  ExponentialDistributions_shape_def)
qed

lemma ExponentialDistributions_sampler_sized: "sampler_sized (ExponentialDistributions rs)"
  by (simp add: sampler_sized_def ExponentialDistributions_random_point_def Let_def)


lemma ExponentialDistributions_metric_matrix_vectorized:
  "metric_matrix_vectorized (ExponentialDistributions rs) (\<lambda>x. [1 / (hd x)\<^sup>2])"
  by (simp add: metric_matrix_vectorized_def ExponentialMetric_metric_matrix_def expand_dims_last_def
                amap_def batch_arr_def chunks_1 comp_def)

lemma ExponentialDistributions_projection_vectorized:
  "projection_vectorized (ExponentialDistributions rs) (\<lambda>x. [if hd x < gs_atol then gs_atol else hd x])"
  by (simp add: projection_vectorized_def ExponentialDistributions_projection_def amap_def batch_arr_def
                chunks_1 comp_def)


section \<open>Geodesics, distance, projection and density\<close>

lemma py_pow_exp: "py_pow (exp x) t = exp (t * x)"
  by (simp add: py_pow_def powr_def)

lemma ExponentialMetric_geodesic_path_single:
  "ExponentialMetric_geodesic_path (array1 ts) (array1 [a]) (array1 [c]) =
     Inr \<lparr>ashape = [length ts, 1], adata = map (\<lambda>t. a * py_pow c t) ts\<rparr>"
proof -
  have "bin_op py_pow \<lparr>ashape = [length ts], adata = replicate (length ts) c\<rparr> \<lparr>ashape = [length ts], adata = ts\<rparr> =
        Inr \<lparr>ashape = [length ts], adata = map (py_pow c) ts\<rparr>"
    by (simp add: bin_op_same wf_arr_def map2_replicate_left)
  then show ?thesis
    by (simp add: ExponentialMetric_geodesic_path_def array1_def [of ts] broadcast_arrays2_scalar_left
                  bin_op_scalar_left expand_dims_last_def)
qed

text \<open>C18: The boundary-value geodesic of ExponentialMetric from a positive point a to a positive point b starts at a and ends at b: evaluated at times [0, 1] it returns [[a], [b]].\<close>

theorem ExponentialMetric_geodesic_bvp_endpoints:
  assumes a: "0 < a" and b: "0 < b"
  shows "\<exists>path. ExponentialMetric_geodesic_bvp (array1 [a]) (array1 [b]) = Inr path \<and>
               path (array1 [0, 1]) = Inr \<lparr>ashape = [2, 1], adata = [a, b]\<rparr>"
proof -
  have "a * py_pow (b / a) 1 = b" using a b by (simp add: py_pow_def)
  then show ?thesis
    by (simp add: ExponentialMetric_geodesic_bvp_def bin_op_array1 ExponentialMetric_geodesic_path_single
                  py_pow_def numeral_2_eq_2)
qed

text \<open>C19: The initial-value geodesic of ExponentialMetric from a with velocity w is, at every time t, the exponential map of t * w at a (with the trailing axis of the path).\<close>

theorem ExponentialMetric_geodesic_ivp_exp:
  "\<exists>path e. ExponentialMetric_geodesic_ivp (array1 [a]) (array1 [w]) = Inr path \<and>
            ExponentialMetric_exp (array1 [t * w]) (array1 [a]) = Inr e \<and>
            path (array1 [t]) = Inr (expand_dims_last e)"
proof -
  have "ExponentialMetric_exp (array1 [t * w]) (array1 [a]) = Inr (array1 [exp (t * w / a) * a])"
    by (simp add: ExponentialMetric_exp_def bin_op_array1 amap_array1)
  moreover have "a * py_pow (exp (w / a)) t = exp (t * w / a) * a"
    by (simp add: py_pow_exp)
  ultimately show ?thesis
    by (simp add: ExponentialMetric_geodesic_ivp_def bin_op_array1 amap_array1
                  ExponentialMetric_geodesic_path_single expand_dims_last_def array1_sel)
qed

text \<open>C20: ExponentialMetric.squared_dist(a, b) equals the squared norm, in the metric at a, of log(b, a) for positive a and b: the closed-form distance agrees with the metric and its logarithm.\<close>

theorem ExponentialMetric_squared_dist_log:
  assumes a: "0 < a" and b: "0 < b"
  shows "ExponentialMetric_squared_dist (array1 [a]) (array1 [b]) =
         bindE (ExponentialMetric_log (array1 [b]) (array1 [a]))
               (\<lambda>v. ExponentialMetric_inner_product v v (array1 [a]))"
proof -
  have "(a * ln (b / a)) * (1 / a\<^sup>2) * (a * ln (b / a)) = (ln (a / b))\<^sup>2"
    using a b by (simp add: ln_div power2_eq_square field_simps)
  then show ?thesis
    by (simp add: ExponentialMetric_squared_dist_def ExponentialMetric_log_def bin_op_array1 amap_array1
                  squeeze_def ExponentialMetric_inner_product_def ExponentialMetric_metric_matrix_def
                  expand_dims_last_def array1_sel)
qed


text \<open>C34: ExponentialDistributions.point_to_pdf(point) is the density point * exp(-point * x) for x >= 0 and 0 for x < 0: the point is the rate of the distribution, not its scale.\<close>

theorem ExponentialDistributions_point_to_pdf_rate:
  "ExponentialDistributions_point_to_pdf (array1 [lam]) (array1 xs) =
     Inr \<lparr>ashape = [length xs], adata = map (\<lambda>t. if 0 \<le> t then lam * exp (- lam * t) else 0) xs\<rparr>"
proof -
  let ?x = "\<lparr>ashape = [length xs], adata = xs\<rparr>"
  let ?pdf = "\<lparr>ashape = [length xs], adata = map (\<lambda>t. lam * exp (- lam * t)) xs\<rparr>"
  have e: "bin_op (\<lambda>p t. - p * t) (array1 [lam]) ?x = Inr \<lparr>ashape = [length xs], adata = map (\<lambda>t. - lam * t) xs\<rparr>"
    by (rule bin_op_scalar_left) simp
  have pdf: "bin_op (*) (array1 [lam]) (amap exp \<lparr>ashape = [length xs], adata = map (\<lambda>t. - lam * t) xs\<rparr>) = Inr ?pdf"
    by (simp add: amap_def bin_op_scalar_left comp_def)
  have "bin_op (\<lambda>c v. if c then v else 0) (amap (\<lambda>t. 0 \<le> t) ?x) ?pdf =
        Inr \<lparr>ashape = [length xs], adata = map2 (\<lambda>c v. if c then v else 0) (map (\<lambda>t. 0 \<le> t) xs)
                                                 (map (\<lambda>t. lam * exp (- lam * t)) xs)\<rparr>"
    by (simp add: bin_op_same wf_arr_def amap_def)
  moreover have "map2 (\<lambda>c v. if c then v else 0) (map (\<lambda>t. 0 \<le> t) xs) (map (\<lambda>t. lam * exp (- lam * t)) xs) =
                 map (\<lambda>t. if 0 \<le> t then lam * exp (- lam * t) else 0) xs"
    by (induct xs) auto
  ultimately show ?thesis
    using e pdf by (simp add: ExponentialDistributions_point_to_pdf_def array1_def [of xs] Let_def)
qed

end
