(* ===== verification/ExponentialSampling.thy ===== *)
theory ExponentialSampling
  imports Exponential
begin

text \<open>
  Sampling and projection of \<^verbatim>\<open>src/geomstats/information_geometry/exponential.py\<close>:
  the range of \<^verbatim>\<open>ExponentialDistributions.random_point\<close>, the floor that
  \<^verbatim>\<open>projection\<close> applies, and the parameters that
  \<^verbatim>\<open>ExponentialDistributionsRandomVariable\<close> hands to \<^verbatim>\<open>scipy.stats.expon\<close>,
  and \<^verbatim>\<open>sample\<close>, which calls the random variable's sampler.
  The SciPy density \<open>expon_pdf\<close> is modelled from SciPy's documentation
  (\<open>exp(-x / scale) / scale\<close> for \<open>x \<ge> 0\<close>), as SciPy is not among the sources.
\<close>

section \<open>Definitions\<close>

text \<open>
  \<^verbatim>\<open>ExponentialDistributionsRandomVariable._flatten_params(point, pre_flat_shape)\<close>:
  the scale \<open>1 / point\<close>, broadcast to \<open>pre_flat_shape\<close> and flattened; it is the
  value of the dictionary's one key \<^verbatim>\<open>"scale"\<close>.
\<close>

definition ExponentialDistributionsRandomVariable_flatten_params :: "real arr \<Rightarrow> nat list \<Rightarrow> real arr result" where
  "ExponentialDistributionsRandomVariable_flatten_params point pre_flat_shape =
     bindE (broadcast_to pre_flat_shape (amap (\<lambda>p. 1 / p) point)) (\<lambda>b.
     reshape [length (adata b)] b)"

definition expon_pdf :: "real \<Rightarrow> real \<Rightarrow> real" where
  "expon_pdf x scale = (if x < 0 then 0 else exp (- x / scale) / scale)"

text \<open>
  \<^verbatim>\<open>ExponentialDistributionsRandomVariable(space)\<close> hands \<^verbatim>\<open>expon.rvs\<close> and
  \<^verbatim>\<open>expon.pdf\<close> to \<^verbatim>\<open>ScipyUnivariateRandomVariable\<close>, which is not among the
  sources: its sampling method is the parameter \<open>rvs\<close>, its density SciPy's
  \<open>expon_pdf\<close> and its parameter map \<open>_flatten_params\<close>.
  \<^verbatim>\<open>ExponentialDistributions.sample(point, n_samples)\<close> calls that sampler.
\<close>

record univariate_random_variable =
  urv_rvs :: "real arr \<Rightarrow> nat \<Rightarrow> real arr result"
  urv_pdf :: "real \<Rightarrow> real \<Rightarrow> real"
  urv_flatten_params :: "real arr \<Rightarrow> nat list \<Rightarrow> real arr result"

definition ExponentialDistributionsRandomVariable ::
  "(real arr \<Rightarrow> nat \<Rightarrow> real arr result) \<Rightarrow> univariate_random_variable" where
  "ExponentialDistributionsRandomVariable rvs =
     \<lparr>urv_rvs = rvs, urv_pdf = expon_pdf,
      urv_flatten_params = ExponentialDistributionsRandomVariable_flatten_params\<rparr>"

definition ExponentialDistributions_sample ::
  "univariate_random_variable \<Rightarrow> real arr \<Rightarrow> nat \<Rightarrow> real arr result" where
  "ExponentialDistributions_sample scp_rv point n_samples = urv_rvs scp_rv point n_samples"

section \<open>Bounds\<close>

text \<open>C22: With draws in [0, 1] and lower_bound <= upper_bound, every sample of ExponentialDistributions.random_point lies in [lower_bound, upper_bound].\<close>

theorem ExponentialDistributions_random_point_bounds:
  assumes lu: "lower_bound \<le> upper_bound" and rs: "\<forall>i. 0 \<le> rs i \<and> rs i \<le> 1"
  shows "\<forall>x \<in> set (adata (ExponentialDistributions_random_point rs n_samples lower_bound upper_bound)).
           lower_bound \<le> x \<and> x \<le> upper_bound"
proof
  fix x assume "x \<in> set (adata (ExponentialDistributions_random_point rs n_samples lower_bound upper_bound))"
  then obtain i where x: "x = (upper_bound - lower_bound) * rs i + lower_bound"
    by (auto simp: ExponentialDistributions_random_point_def Let_def)
  have "0 \<le> (upper_bound - lower_bound) * rs i" using lu rs by simp
  moreover have "(upper_bound - lower_bound) * rs i \<le> upper_bound - lower_bound"
    using lu rs mult_left_le [of "rs i" "upper_bound - lower_bound"] by simp
  ultimately show "lower_bound \<le> x \<and> x \<le> upper_bound" using x by simp
qed

text \<open>C23: ExponentialDistributions.projection floors at atol: every coordinate of the result is at least atol, coordinates at least atol are kept, and projecting twice is projecting once; so a positive coordinate below atol is moved too, not only the non-positive ones its docstring names.\<close>

theorem ExponentialDistributions_projection_floor:
  "(\<forall>x \<in> set (adata (ExponentialDistributions_projection point atol)). atol \<le> x) \<and>
   (\<forall>i < length (adata point). atol \<le> adata point ! i \<longrightarrow>
      adata (ExponentialDistributions_projection point atol) ! i = adata point ! i) \<and>
   ExponentialDistributions_projection (ExponentialDistributions_projection point atol) atol =
     ExponentialDistributions_projection point atol"
  by (auto simp: ExponentialDistributions_projection_def amap_def comp_def)

section \<open>The random variable\<close>

lemma ExponentialDistributions_point_to_pdf_single:
  "ExponentialDistributions_point_to_pdf (array1 [p]) (array1 [t]) =
     Inr (array1 [if 0 \<le> t then p * exp (- p * t) else 0])"
  by (simp add: ExponentialDistributions_point_to_pdf_def array1_def bin_op_same wf_arr_def amap_def Let_def)

text \<open>C21: The parameters the random variable hands to scipy.stats.expon are the scales 1 / point, and SciPy's density at these scales is the density ExponentialDistributions.point_to_pdf gives for each point: sampling and density agree that the point is the rate.\<close>

theorem ExponentialDistributionsRandomVariable_scale_matches_pdf:
  assumes pos: "\<forall>p \<in> set ps. 0 < p"
  shows "ExponentialDistributionsRandomVariable_flatten_params (array1 ps) [length ps] =
           Inr (array1 (map (\<lambda>p. 1 / p) ps)) \<and>
         (\<forall>p \<in> set ps. \<forall>t. ExponentialDistributions_point_to_pdf (array1 [p]) (array1 [t]) =
                            Inr (array1 [expon_pdf t (1 / p)]))"
proof
  have "wf_arr (amap (\<lambda>p. 1 / p) (array1 ps))" by (simp add: amap_def array1_def wf_arr_def)
  then show "ExponentialDistributionsRandomVariable_flatten_params (array1 ps) [length ps] =
               Inr (array1 (map (\<lambda>p. 1 / p) ps))"
    using broadcast_to_same [of "amap (\<lambda>p. 1 / p) (array1 ps)"]
    by (simp add: ExponentialDistributionsRandomVariable_flatten_params_def amap_def array1_def reshape_def)
next
  have "(if 0 \<le> t then p * exp (- p * t) else 0) = expon_pdf t (1 / p)" if "0 < p" for p t
    using that by (simp add: expon_pdf_def mult.commute)
  then show "\<forall>p \<in> set ps. \<forall>t. ExponentialDistributions_point_to_pdf (array1 [p]) (array1 [t]) =
                               Inr (array1 [expon_pdf t (1 / p)])"
    using pos by (simp add: ExponentialDistributions_point_to_pdf_single)
qed

end
