(* ===== verification/CurveTests.thy ===== *)
theory CurveTests
  imports Arrays
begin

text \<open>
  The test procedures of \<^verbatim>\<open>src/geomstats/test_cases/geometry/discrete_curves.py\<close>
  for the square-root-velocity shape bundle. The bundle itself (\<^verbatim>\<open>SRVShapeBundle\<close>)
  is not among the sources: it is the interface \<open>fiber_bundle\<close> of the spec's
  fiber-bundle component, the operations the tests call. The random data the tests
  draw are their inputs here. The lemmas show that the finite-difference velocity
  of the horizontal-geodesic test overestimates the velocity by the factor
  \<open>n_times / (n_times - 1)\<close>, and what each test accepts.
\<close>

section \<open>The bundle interface\<close>

text \<open>
  \<open>fb_vertical_norm v p\<close> is the norm that \<^verbatim>\<open>vertical_projection(v, p, return_norm=True)\<close>
  returns beside the projection; \<open>fb_horizontal_geodesic p q threshold\<close> is
  \<^verbatim>\<open>horizontal_geodesic(p, q, threshold=threshold)\<close>, and
  \<open>fb_default_threshold\<close> the threshold it uses when none is given.
\<close>

record fiber_bundle =
  fb_horizontal_projection :: "real arr \<Rightarrow> real arr \<Rightarrow> real arr result"
  fb_vertical_projection :: "real arr \<Rightarrow> real arr \<Rightarrow> real arr result"
  fb_vertical_norm :: "real arr \<Rightarrow> real arr \<Rightarrow> real arr result"
  fb_horizontal_geodesic :: "real arr \<Rightarrow> real arr \<Rightarrow> real \<Rightarrow> (real arr \<Rightarrow> real arr result) result"
  fb_default_threshold :: real
  fb_inner_product :: "real arr \<Rightarrow> real arr \<Rightarrow> real arr \<Rightarrow> real arr result"
  fb_point_ndim :: nat

section \<open>The test procedures\<close>

text \<open>\<^verbatim>\<open>test_tangent_vector_projections_orthogonality_with_metric\<close>, on drawn data.\<close>

definition SRVShapeBundleTestCase_orthogonality ::
  "fiber_bundle \<Rightarrow> real arr \<Rightarrow> real arr \<Rightarrow> real \<Rightarrow> bool result" where
  "SRVShapeBundleTestCase_orthogonality B base_point tangent_vec atol =
     bindE (fb_horizontal_projection B tangent_vec base_point) (\<lambda>tangent_vec_hor.
     bindE (fb_vertical_projection B tangent_vec base_point) (\<lambda>tangent_vec_ver.
     bindE (fb_inner_product B tangent_vec_hor tangent_vec_ver base_point) (\<lambda>res.
     bindE (get_batch_shape (fb_point_ndim B) [ashape base_point]) (\<lambda>expected_shape.
     allclose_tol atol res (zeros expected_shape)))))"

text \<open>
  \<^verbatim>\<open>test_horizontal_geodesic\<close>: the horizontal geodesic at the given times
  against the expected curve, the threshold defaulting to \<open>10\<^sup>-\<^sup>3\<close>.
\<close>

definition SRVShapeBundleTestCase_horizontal_geodesic ::
  "fiber_bundle \<Rightarrow> real arr \<Rightarrow> real arr \<Rightarrow> real arr \<Rightarrow> real arr \<Rightarrow> real \<Rightarrow> real \<Rightarrow> bool result" where
  "SRVShapeBundleTestCase_horizontal_geodesic B initial_point end_point times' expected atol threshold =
     bindE (fb_horizontal_geodesic B initial_point end_point threshold) (\<lambda>hor_geo_fun.
     bindE (hor_geo_fun times') (\<lambda>res.
     allclose_tol atol res expected))"

text \<open>
  \<^verbatim>\<open>test_horizontal_geodesic_vec\<close>, on the drawn end points: the geodesic at
  \<open>n_times\<close> times becomes the expected value of the vectorization check
  \<open>vectorization\<close> (\<^verbatim>\<open>generate_vectorization_data\<close> and
  \<^verbatim>\<open>_test_vectorization\<close>, not among the sources), which repeats the end points.
\<close>

definition SRVShapeBundleTestCase_horizontal_geodesic_vec ::
  "fiber_bundle \<Rightarrow> ((real arr \<times> real arr \<times> real arr \<times> real arr \<times> real) \<Rightarrow> nat \<Rightarrow> bool result) \<Rightarrow>
   real arr \<Rightarrow> real arr \<Rightarrow> nat \<Rightarrow> nat \<Rightarrow> real \<Rightarrow> bool result" where
  "SRVShapeBundleTestCase_horizontal_geodesic_vec B vectorization initial_point end_point n_reps n_times atol =
     (let times = linspace 0 1 n_times in
      bindE (fb_horizontal_geodesic B initial_point end_point (fb_default_threshold B)) (\<lambda>hor_geo_fun.
      bindE (hor_geo_fun times) (\<lambda>expected.
      vectorization (initial_point, end_point, times, expected, atol) n_reps)))"

text \<open>\<^verbatim>\<open>setup_method\<close>: the number of discretized curves of the data generator, 5 unless the class sets it.\<close>

definition SRVShapeBundleTestCase_n_discretized_curves :: "nat option \<Rightarrow> nat" where
  "SRVShapeBundleTestCase_n_discretized_curves attr = (case attr of None \<Rightarrow> 5 | Some n \<Rightarrow> n)"

text \<open>The finite-difference velocity \<^verbatim>\<open>n_times * (horizontal_geo[1:] - horizontal_geo[:-1])\<close>.\<close>

definition SRVShapeBundleTestCase_velocity :: "nat \<Rightarrow> real arr \<Rightarrow> real arr result" where
  "SRVShapeBundleTestCase_velocity n_times horizontal_geo =
     bindE (slice_tail horizontal_geo) (\<lambda>later.
     bindE (slice_init horizontal_geo) (\<lambda>earlier.
     bindE (bin_op (-) later earlier) (\<lambda>difference.
     Inr (amap ((*) (real n_times)) difference))))"

text \<open>
  \<^verbatim>\<open>test_horizontal_geodesic_has_horizontal_derivative\<close>: the parameter
  \<open>n_times\<close> is overwritten by 20 before use.
\<close>

definition SRVShapeBundleTestCase_horizontal_derivative ::
  "fiber_bundle \<Rightarrow> nat \<Rightarrow> nat \<Rightarrow> real arr \<Rightarrow> real arr \<Rightarrow> real \<Rightarrow> bool result" where
  "SRVShapeBundleTestCase_horizontal_derivative B n_points n_times initial_point end_point atol =
     (if 1 < n_points then Inl (NotImplementedError ''Not implemented for n_points > 1'')
      else
        bindE (fb_horizontal_geodesic B initial_point end_point (fb_default_threshold B)) (\<lambda>hor_geo_fun.
        let n_times = 20; times = linspace 0 1 n_times in
        bindE (hor_geo_fun times) (\<lambda>horizontal_geo.
        bindE (SRVShapeBundleTestCase_velocity n_times horizontal_geo) (\<lambda>velocity_vec.
        bindE (slice_init horizontal_geo) (\<lambda>earlier.
        bindE (fb_vertical_norm B velocity_vec earlier) (\<lambda>vertical_norms.
        bindE (sum_axis1 (amap (\<lambda>x. x\<^sup>2) vertical_norms)) (\<lambda>squares.
        let res = amap (\<lambda>x. x powr (1 / 2)) squares in
        allclose_tol atol res (zeros [n_times - 1]))))))))"

section \<open>The finite-difference velocity\<close>

lemma linspace_01: "adata (linspace 0 1 n) = map (\<lambda>i. real i * (1 / real (n - 1))) [0..<n]"
  by (simp add: linspace_def)

lemma map2_affine_diff:
  "length c = length (w :: real list) \<Longrightarrow>
   map2 (-) (map2 (\<lambda>x y. x + t' * y) c w) (map2 (\<lambda>x y. x + t * y) c w) = map (\<lambda>y. (t' - t) * y) w"
  by (induct c w rule: list_induct2) (simp_all add: left_diff_distrib)


lemma concat_map_const_length:
  "\<forall>t \<in> set ts. length (f t) = k \<Longrightarrow> length (concat (map f ts)) = length ts * k"
  by (induct ts) simp_all

text \<open>Successive samples of the line \<open>c + t w\<close> at times \<open>i / (n - 1)\<close> differ by \<open>w / (n - 1)\<close>.\<close>

lemma affine_samples_diff:
  assumes lcw: "length c = length (w :: real list)"
  shows "map2 (-) (concat (map (\<lambda>i. map2 (\<lambda>x y. x + real (Suc i) * (1 / real (n - 1)) * y) c w) [0..<n - 1]))
                   (concat (map (\<lambda>i. map2 (\<lambda>x y. x + real i * (1 / real (n - 1)) * y) c w) [0..<n - 1])) =
         concat (replicate (n - 1) (map (\<lambda>y. 1 / real (n - 1) * y) w))"
proof -
  let ?f = "\<lambda>t. map2 (\<lambda>x y. x + t * y) c w" and ?g = "\<lambda>i. real i * (1 / real (n - 1))"
  let ?A = "map (\<lambda>i. ?f (?g (Suc i))) [0..<n - 1]" and ?B = "map (\<lambda>i. ?f (?g i)) [0..<n - 1]"
  have la: "list_all2 (\<lambda>a b. length a = length b) ?A ?B" by (simp add: list_all2_conv_all_nth)
  have "map2 (-) (concat ?A) (concat ?B) = concat (map2 (map2 (-)) ?A ?B)"
    by (rule map2_concat [OF la])
  also have "\<dots> = concat (map (\<lambda>i. map2 (-) (?f (?g (Suc i))) (?f (?g i))) [0..<n - 1])"
    by (simp only: zip_map_same map_map comp_def case_prod_conv)
  also have "\<dots> = concat (map (\<lambda>i. map (\<lambda>y. (?g (Suc i) - ?g i) * y) w) [0..<n - 1])"
    by (simp only: map2_affine_diff [OF lcw])
  also have "\<dots> = concat (map (\<lambda>i. map (\<lambda>y. 1 / real (n - 1) * y) w) [0..<n - 1])"
  proof -
    have st: "\<And>i. ?g (Suc i) - ?g i = 1 / real (n - 1)" by (simp add: diff_divide_distrib [symmetric])
    show ?thesis by (simp only: st)
  qed
  also have "\<dots> = concat (replicate (n - 1) (map (\<lambda>y. 1 / real (n - 1) * y) w))"
    by (simp add: map_replicate_const)
  finally show ?thesis by (simp only: mult.assoc)
qed

text \<open>C36: On a straight line c + t w sampled at times linspace(0, 1, n), the finite-difference velocity n * (geo[1:] - geo[:-1]) that the horizontal-derivative test computes is n / (n - 1) times the true velocity w at every one of the n - 1 samples, not w: the factor should be n - 1.\<close>

theorem SRVShapeBundleTestCase_velocity_affine:
  assumes n: "2 \<le> n" and c: "length c = prod_list s" and w: "length w = prod_list s"
  shows "SRVShapeBundleTestCase_velocity n
           \<lparr>ashape = n # s, adata = concat (map (\<lambda>t. map2 (\<lambda>x y. x + t * y) c w) (adata (linspace 0 1 n)))\<rparr> =
         Inr \<lparr>ashape = (n - 1) # s, adata = concat (replicate (n - 1) (map (\<lambda>y. real n / real (n - 1) * y) w))\<rparr>"
proof -
  let ?k = "prod_list s" and ?st = "1 / real (n - 1)"
  let ?f = "\<lambda>t. map2 (\<lambda>x y. x + t * y) c w" and ?g = "\<lambda>i. real i * (1 / real (n - 1))"
  let ?A = "map (\<lambda>i. ?f (?g (Suc i))) [0..<n - 1]" and ?B = "map (\<lambda>i. ?f (?g i)) [0..<n - 1]"
  have lf: "\<And>t. length (?f t) = ?k" using c w by simp
  obtain m where m: "n = Suc m" using n by (cases n) auto
  have up: "[0..<Suc m] = 0 # map Suc [0..<m]" by (simp add: upt_conv_Cons map_Suc_upt del: upt_Suc)
  have hd: "map ?g [0..<n] = ?g 0 # map (\<lambda>i. ?g (Suc i)) [0..<n - 1]"
    by (simp only: m up list.map map_map comp_def diff_Suc_1)
  have lt: "map ?g [0..<n] = map ?g [0..<n - 1] @ [?g (n - 1)]"
    by (simp add: m)
  have later: "slice_tail \<lparr>ashape = n # s, adata = concat (map ?f (map ?g [0..<n]))\<rparr> =
               Inr \<lparr>ashape = (n - 1) # s, adata = concat ?A\<rparr>"
    using lf by (subst hd) (simp add: slice_tail_def comp_def)
  have lB: "length (concat ?B) = (n - 1) * ?k"
    using concat_map_const_length [of "[0..<n - 1]" "\<lambda>i. ?f (?g i)" ?k] lf by simp
  have earlier: "slice_init \<lparr>ashape = n # s, adata = concat (map ?f (map ?g [0..<n]))\<rparr> =
                 Inr \<lparr>ashape = (n - 1) # s, adata = concat ?B\<rparr>"
    using lB by (subst lt) (simp add: slice_init_def comp_def)
  have lA: "length (concat ?A) = (n - 1) * ?k"
    using concat_map_const_length [of "[0..<n - 1]" "\<lambda>i. ?f (?g (Suc i))" ?k] lf by simp
  have lcw: "length c = length w" using c w by simp
  have diff: "map2 (-) (concat ?A) (concat ?B) = concat (replicate (n - 1) (map (\<lambda>y. ?st * y) w))"
    using affine_samples_diff [OF lcw, of n] by (simp only: mult.assoc)
  have "bin_op (-) \<lparr>ashape = (n - 1) # s, adata = concat ?A\<rparr> \<lparr>ashape = (n - 1) # s, adata = concat ?B\<rparr> =
        Inr \<lparr>ashape = (n - 1) # s, adata = concat (replicate (n - 1) (map (\<lambda>y. ?st * y) w))\<rparr>"
    using bin_op_same [of "\<lparr>ashape = (n - 1) # s, adata = concat ?A\<rparr>" "\<lparr>ashape = (n - 1) # s, adata = concat ?B\<rparr>" "(-)"]
      lA lB diff by (simp add: wf_arr_def)
  moreover have "map ((*) (real n)) (concat (replicate (n - 1) (map (\<lambda>y. ?st * y) w))) =
                 concat (replicate (n - 1) (map (\<lambda>y. real n / real (n - 1) * y) w))"
    by (simp add: map_concat map_replicate comp_def)
  ultimately show ?thesis
    using later earlier by (simp add: SRVShapeBundleTestCase_velocity_def linspace_01 amap_def)
qed


section \<open>What the tests accept\<close>

lemma SRVShapeBundleTestCase_velocity_data:
  assumes "wf_arr geo" "ashape geo = n # s" "0 < n"
  shows "SRVShapeBundleTestCase_velocity n_times geo =
           Inr \<lparr>ashape = (n - 1) # s,
                adata = map ((*) (real n_times))
                          (map2 (-) (drop (prod_list s) (adata geo)) (take ((n - 1) * prod_list s) (adata geo)))\<rparr>"
proof -
  have "length (drop (prod_list s) (adata geo)) = (n - 1) * prod_list s"
    "length (take ((n - 1) * prod_list s) (adata geo)) = (n - 1) * prod_list s"
    using assms by (simp_all add: wf_arr_def diff_mult_distrib)
  then show ?thesis
    using assms by (simp add: SRVShapeBundleTestCase_velocity_def slice_tail_def slice_init_def bin_op_same
                              wf_arr_def amap_def)
qed

lemma foldr_add_singletons:
  "foldr (map2 (+)) (map (\<lambda>j. [x j]) js) [0] = [\<Sum>j \<leftarrow> js. x j :: real]"
  by (induct js) simp_all

lemma sum_axis1_rows:
  assumes "wf_arr a" "ashape a = [d0, d1]"
  shows "sum_axis1 a = Inr \<lparr>ashape = [d0], adata = map (\<lambda>i. \<Sum>j<d1. adata a ! (i * d1 + j)) [0..<d0]\<rparr>"
proof -
  have "foldr (map2 (+)) (map (\<lambda>j. block 1 (adata a) (i * d1 + j)) [0..<d1]) [0] = [\<Sum>j<d1. adata a ! (i * d1 + j)]"
    if i: "i < d0" for i
  proof -
    have m: "map (\<lambda>j. block 1 (adata a) (i * d1 + j)) [0..<d1] = map (\<lambda>j. [adata a ! (i * d1 + j)]) [0..<d1]"
    proof (rule map_cong [OF refl])
      fix j assume "j \<in> set [0..<d1]"
      then have "i * d1 + j < length (adata a)" using i assms index_lt [of j d1 i d0] by (simp add: wf_arr_def mult.commute)
      then show "block 1 (adata a) (i * d1 + j) = [adata a ! (i * d1 + j)]"
        by (simp add: block_def take_Suc_conv_app_nth)
    qed
    show ?thesis
      unfolding m foldr_add_singletons by (simp add: interv_sum_list_conv_sum_set_nat atLeast0LessThan)
  qed
  then have "map (\<lambda>i. foldr (map2 (+)) (map (\<lambda>j. block 1 (adata a) (i * d1 + j)) [0..<d1]) [0]) [0..<d0] =
             map (\<lambda>i. [\<Sum>j<d1. adata a ! (i * d1 + j)]) [0..<d0]"
    by (intro map_cong) auto
  then have "concat (map (\<lambda>i. foldr (map2 (+)) (map (\<lambda>j. block 1 (adata a) (i * d1 + j)) [0..<d1]) [0]) [0..<d0]) =
             map (\<lambda>i. \<Sum>j<d1. adata a ! (i * d1 + j)) [0..<d0]"
    by (simp only: concat_map_singleton)
  then show ?thesis using assms unfolding sum_axis1_def by simp
qed

lemma allclose_tol_zeros:
  assumes "wf_arr a"
  shows "allclose_tol atol a (zeros (ashape a)) = Inr (\<forall>x \<in> set (adata a). \<bar>x\<bar> \<le> atol)"
proof -
  have "map2 (\<lambda>x y. \<bar>x - y\<bar> \<le> atol + gs_rtol * \<bar>y\<bar>) (adata a) (replicate (length (adata a)) 0) =
        map (\<lambda>x. \<bar>x\<bar> \<le> atol) (adata a)"
    by (induct "adata a" arbitrary: a) (simp_all add: map2_replicate_right)
  then show ?thesis
    using assms by (simp add: allclose_tol_def zeros_def bin_op_same wf_arr_def list_all_iff)
qed

text \<open>C37: For n_points <= 1, whatever n_times the test data pass, the horizontal-derivative test samples 20 times and passes exactly when, for each of the 19 finite-difference velocities, the square root of the sum over axis 1 of the squared vertical norms is at most atol.\<close>

theorem SRVShapeBundleTestCase_horizontal_derivative_accepts:
  assumes np: "n_points \<le> 1"
    and geo_fun: "fb_horizontal_geodesic B initial_point end_point (fb_default_threshold B) = Inr hor_geo_fun"
    and geo: "hor_geo_fun (linspace 0 1 20) = Inr horizontal_geo"
    and vel: "SRVShapeBundleTestCase_velocity 20 horizontal_geo = Inr velocity_vec"
    and earlier: "slice_init horizontal_geo = Inr earlier"
    and norms: "fb_vertical_norm B velocity_vec earlier = Inr vertical_norms"
    and wf: "wf_arr vertical_norms" and shape: "ashape vertical_norms = [19, m]"
  shows "SRVShapeBundleTestCase_horizontal_derivative B n_points n_times initial_point end_point atol =
         Inr (\<forall>i < 19. (\<Sum>j<m. (adata vertical_norms ! (i * m + j))\<^sup>2) powr (1 / 2) \<le> atol)"
proof -
  let ?sq = "amap (\<lambda>x. x\<^sup>2) vertical_norms"
  let ?row = "\<lambda>i. \<Sum>j<m. adata ?sq ! (i * m + j)"
  have sq_wf: "wf_arr ?sq" and sq_shape: "ashape ?sq = [19, m]"
    using wf shape by (simp_all add: amap_def wf_arr_def)
  have sq_nth: "adata ?sq ! (i * m + j) = (adata vertical_norms ! (i * m + j))\<^sup>2" if "i < 19" "j < m" for i j
  proof -
    have "i * m + j < length (adata vertical_norms)"
      using that wf shape index_lt [of j m i 19] by (simp add: wf_arr_def mult.commute)
    then show ?thesis by (simp add: amap_def)
  qed
  have rows: "sum_axis1 ?sq = Inr \<lparr>ashape = [19], adata = map ?row [0..<19]\<rparr>"
    by (rule sum_axis1_rows [OF sq_wf sq_shape])
  let ?res = "amap (\<lambda>x. x powr (1 / 2)) \<lparr>ashape = [19], adata = map ?row [0..<19]\<rparr>"
  have res_wf: "wf_arr ?res" by (simp add: amap_def wf_arr_def)
  have acc: "allclose_tol atol ?res (zeros [20 - 1]) = Inr (\<forall>x \<in> set (adata ?res). \<bar>x\<bar> \<le> atol)"
    using allclose_tol_zeros [OF res_wf] by (simp add: amap_def)
  have "(\<forall>x \<in> set (adata ?res). \<bar>x\<bar> \<le> atol) \<longleftrightarrow>
        (\<forall>i < 19. (\<Sum>j<m. (adata vertical_norms ! (i * m + j))\<^sup>2) powr (1 / 2) \<le> atol)"
    using sq_nth by (simp add: amap_def atLeast0LessThan) (simp add: lessThan_def)
  then show ?thesis
    using np geo_fun geo vel earlier norms rows acc
    by (simp add: SRVShapeBundleTestCase_horizontal_derivative_def Let_def)
qed

text \<open>The orthogonality test passes exactly when every entry of the inner product of the horizontal and the vertical part of the tangent vector at the base point is at most atol in absolute value, when that inner product has the batch shape of the base point.\<close>

lemma SRVShapeBundleTestCase_orthogonality_accepts:
  assumes hor: "fb_horizontal_projection B tangent_vec base_point = Inr tangent_vec_hor"
    and ver: "fb_vertical_projection B tangent_vec base_point = Inr tangent_vec_ver"
    and ip: "fb_inner_product B tangent_vec_hor tangent_vec_ver base_point = Inr res"
    and bs: "get_batch_shape (fb_point_ndim B) [ashape base_point] = Inr (ashape res)"
    and wf: "wf_arr res"
  shows "SRVShapeBundleTestCase_orthogonality B base_point tangent_vec atol =
         Inr (\<forall>x \<in> set (adata res). \<bar>x\<bar> \<le> atol)"
  using assms by (simp add: SRVShapeBundleTestCase_orthogonality_def allclose_tol_zeros)

end
