(* ===== verification/ClosedCurveTests.thy ===== *)
theory ClosedCurveTests
  imports Arrays
begin

text \<open>
  The test procedures of \<^verbatim>\<open>ClosedDiscreteCurvesTestCase\<close> in
  \<^verbatim>\<open>src/geomstats/test_cases/geometry/discrete_curves.py\<close>. The space of closed
  discrete curves (\<^verbatim>\<open>ClosedDiscreteCurves\<close>, with its iterative
  \<^verbatim>\<open>srv_projection\<close>) is not among the sources: it is the record \<open>closed_curves\<close>
  of the attributes and operations the tests call. The tests inherited from
  \<^verbatim>\<open>LevelSetTestCase\<close> are parameters. A test's outcome is a \<open>bool result\<close>:
  \<open>Inr True\<close> when it returns, \<open>Inr False\<close> when its assertion fails, \<open>Inl e\<close> when
  it raises \<open>e\<close>. The lemmas show what each test accepts, and that on a non-planar
  ambient space the projection tests pass without running.
\<close>

section \<open>The space interface\<close>

record closed_curves =
  cc_ambient_is_euclidean :: bool
  cc_ambient_dim :: nat
  cc_k_sampling_points :: nat
  cc_projection :: "real arr \<Rightarrow> real arr result"
  cc_srv_projection :: "real arr \<Rightarrow> real \<Rightarrow> nat \<Rightarrow> real arr result"

section \<open>The test procedures\<close>

definition ClosedDiscreteCurvesTestCase_is_planar :: "closed_curves \<Rightarrow> bool" where
  "ClosedDiscreteCurvesTestCase_is_planar C \<longleftrightarrow> cc_ambient_is_euclidean C \<and> cc_ambient_dim C = 2"

text \<open>
  \<^verbatim>\<open>_get_srv_point\<close>: a random point of the open discrete curves with the
  space's ambient manifold and number of sampling points;
  \<open>discrete_curves_random_point\<close> is \<^verbatim>\<open>DiscreteCurves(ambient, k).random_point\<close>,
  the ambient manifold given by whether it is Euclidean and its dimension.
\<close>

definition ClosedDiscreteCurvesTestCase_get_srv_point ::
  "closed_curves \<Rightarrow> (bool \<times> nat \<Rightarrow> nat \<Rightarrow> nat \<Rightarrow> real arr result) \<Rightarrow> nat \<Rightarrow> real arr result" where
  "ClosedDiscreteCurvesTestCase_get_srv_point C discrete_curves_random_point n_points =
     discrete_curves_random_point (cc_ambient_is_euclidean C, cc_ambient_dim C) (cc_k_sampling_points C) n_points"

text \<open>\<^verbatim>\<open>test_projection_vec\<close> and \<^verbatim>\<open>test_projection_belongs\<close>: the inherited test, on planar spaces only.\<close>

definition ClosedDiscreteCurvesTestCase_projection_vec ::
  "closed_curves \<Rightarrow> (nat \<Rightarrow> real \<Rightarrow> bool result) \<Rightarrow> nat \<Rightarrow> real \<Rightarrow> bool result" where
  "ClosedDiscreteCurvesTestCase_projection_vec C inherited n_reps atol =
     (if \<not> ClosedDiscreteCurvesTestCase_is_planar C then Inr True else inherited n_reps atol)"

definition ClosedDiscreteCurvesTestCase_projection_belongs ::
  "closed_curves \<Rightarrow> (nat \<Rightarrow> real \<Rightarrow> bool result) \<Rightarrow> nat \<Rightarrow> real \<Rightarrow> bool result" where
  "ClosedDiscreteCurvesTestCase_projection_belongs C inherited n_points atol =
     (if \<not> ClosedDiscreteCurvesTestCase_is_planar C then Inr True else inherited n_points atol)"

definition ClosedDiscreteCurvesTestCase_srv_projection ::
  "closed_curves \<Rightarrow> real arr \<Rightarrow> real arr \<Rightarrow> real \<Rightarrow> nat \<Rightarrow> bool result" where
  "ClosedDiscreteCurvesTestCase_srv_projection C srv expected atol max_iter =
     bindE (cc_srv_projection C srv atol max_iter) (\<lambda>res. allclose_tol atol res expected)"

text \<open>
  \<^verbatim>\<open>test_srv_projection_vec\<close>: on planar spaces, the projection of one
  point drawn by \<^verbatim>\<open>_get_srv_point\<close> becomes the expected value of the vectorization check \<open>vectorization\<close>
  (\<^verbatim>\<open>generate_vectorization_data\<close> and \<^verbatim>\<open>_test_vectorization\<close>, not among the sources).
\<close>

definition ClosedDiscreteCurvesTestCase_srv_projection_vec ::
  "closed_curves \<Rightarrow> (bool \<times> nat \<Rightarrow> nat \<Rightarrow> nat \<Rightarrow> real arr result) \<Rightarrow>
   ((real arr \<times> real arr \<times> nat \<times> real) \<Rightarrow> nat \<Rightarrow> bool result) \<Rightarrow>
   nat \<Rightarrow> real \<Rightarrow> nat \<Rightarrow> bool result" where
  "ClosedDiscreteCurvesTestCase_srv_projection_vec C discrete_curves_random_point vectorization n_reps atol max_iter =
     (if \<not> ClosedDiscreteCurvesTestCase_is_planar C then Inr True
      else bindE (ClosedDiscreteCurvesTestCase_get_srv_point C discrete_curves_random_point 1) (\<lambda>srv.
           bindE (cc_srv_projection C srv atol max_iter) (\<lambda>expected.
           vectorization (srv, expected, max_iter, atol) n_reps)))"

text \<open>\<^verbatim>\<open>test_projection_is_itself\<close>, on the drawn \<open>point\<close>.\<close>

definition ClosedDiscreteCurvesTestCase_projection_is_itself ::
  "closed_curves \<Rightarrow> real arr \<Rightarrow> real \<Rightarrow> bool result" where
  "ClosedDiscreteCurvesTestCase_projection_is_itself C point atol =
     (if \<not> ClosedDiscreteCurvesTestCase_is_planar C then Inr True
      else bindE (cc_projection C point) (\<lambda>proj_point. allclose_tol atol proj_point point))"

text \<open>\<^verbatim>\<open>test_random_point_is_closed\<close>, on the drawn \<open>point\<close>.\<close>

definition ClosedDiscreteCurvesTestCase_random_point_is_closed :: "real arr \<Rightarrow> real \<Rightarrow> bool result" where
  "ClosedDiscreteCurvesTestCase_random_point_is_closed point atol =
     bindE (index_axis_m2 0 point) (\<lambda>first.
     bindE (index_axis_m2 (-1) point) (\<lambda>last.
     allclose_tol atol first last))"

section \<open>The harness fixture\<close>

text \<open>
  The fixture \<^verbatim>\<open>closed_discrete_curves_spaces\<close> of
  \<^verbatim>\<open>tests/.../test_discrete_curves.py\<close>: one test class per parameter pair
  \<open>(dim, k_sampling_points)\<close>, the numbers of sampling points being the draws
  \<open>k1\<close>, \<open>k2\<close> of \<^verbatim>\<open>random.randint(5, 10)\<close>, and the space the closed curves
  in \<open>Euclidean(dim)\<close>; \<open>proj\<close> and \<open>srv_proj\<close> are the operations of
  \<^verbatim>\<open>ClosedDiscreteCurves\<close> for the given parameters.
\<close>

definition closed_discrete_curves_spaces_params :: "nat \<Rightarrow> nat \<Rightarrow> (nat \<times> nat) list" where
  "closed_discrete_curves_spaces_params k1 k2 = [(2, k1), (3, k2)]"

definition closed_discrete_curves_spaces ::
  "(nat \<Rightarrow> nat \<Rightarrow> real arr \<Rightarrow> real arr result) \<Rightarrow>
   (nat \<Rightarrow> nat \<Rightarrow> real arr \<Rightarrow> real \<Rightarrow> nat \<Rightarrow> real arr result) \<Rightarrow> nat \<times> nat \<Rightarrow> closed_curves" where
  "closed_discrete_curves_spaces proj srv_proj param =
     (case param of (ambient_dim, k_sampling_points) \<Rightarrow>
        \<lparr>cc_ambient_is_euclidean = True, cc_ambient_dim = ambient_dim,
         cc_k_sampling_points = k_sampling_points,
         cc_projection = proj ambient_dim k_sampling_points,
         cc_srv_projection = srv_proj ambient_dim k_sampling_points\<rparr>)"

section \<open>What the tests accept\<close>

lemma index_axis_m2_first:
  assumes "ashape a = bs @ [k, d]" "0 < k"
  shows "index_axis_m2 0 a = Inr \<lparr>ashape = bs @ [d], adata = concat (map (take d) (chunks (k * d) (adata a)))\<rparr>"
  using assms by (simp add: index_axis_m2_def nth_append butlast_append block_def)

lemma index_axis_m2_last:
  assumes "wf_arr a" "ashape a = bs @ [k, d]" "0 < k"
  shows "index_axis_m2 (-1) a =
           Inr \<lparr>ashape = bs @ [d], adata = concat (map (drop ((k - 1) * d)) (chunks (k * d) (adata a)))\<rparr>"
proof (cases "d = 0")
  case True
  then show ?thesis using assms by (simp add: index_axis_m2_def nth_append butlast_append)
next
  case False
  have len: "length (adata a) = prod_list bs * (k * d)" using assms by (simp add: wf_arr_def ac_simps)
  have m: "map (\<lambda>c. block d c (k - Suc 0)) (chunks (k * d) (adata a)) = map (drop ((k - Suc 0) * d)) (chunks (k * d) (adata a))"
  proof (rule map_cong [OF refl])
    fix c assume "c \<in> set (chunks (k * d) (adata a))"
    then have "length c = k * d" using length_chunk_elem [OF _ len] False assms(3) by simp
    then show "block d c (k - Suc 0) = drop ((k - Suc 0) * d) c"
      using assms(3) by (simp add: block_def diff_mult_distrib)
  qed
  have "nat (int k + - 1) = k - 1" using assms(3) by simp
  then show ?thesis using assms by (simp add: index_axis_m2_def nth_append butlast_append m)
qed

lemma list_all_map2_iff:
  "length xs = length ys \<Longrightarrow> list_all id (map2 f xs ys) \<longleftrightarrow> list_all2 f xs ys"
  by (simp add: list_all_iff list_all2_iff)

text \<open>C38: The closedness test on a drawn batch of curves of shape (..., k, d) with k > 0 passes exactly when, for every curve of the batch, its first sampling point is close to its last one coordinate by coordinate (|x - y| <= atol + rtol |y|).\<close>

theorem ClosedDiscreteCurvesTestCase_random_point_is_closed_accepts:
  assumes wf: "wf_arr point" and sh: "ashape point = bs @ [k, d]" and k: "0 < k"
  shows "ClosedDiscreteCurvesTestCase_random_point_is_closed point atol =
           Inr (\<forall>c \<in> set (chunks (k * d) (adata point)).
                  list_all2 (\<lambda>x y. \<bar>x - y\<bar> \<le> atol + gs_rtol * \<bar>y\<bar>) (take d c) (drop ((k - 1) * d) c))"
proof -
  let ?C = "chunks (k * d) (adata point)" and ?f = "\<lambda>x y. \<bar>x - y\<bar> \<le> atol + gs_rtol * \<bar>y\<bar>"
  let ?A = "map (take d) ?C" and ?B = "map (drop ((k - 1) * d)) ?C"
  have len: "length (adata point) = prod_list bs * (k * d)" using wf sh by (simp add: wf_arr_def ac_simps)
  have el: "length c = k * d" if "c \<in> set ?C" for c
  proof (cases "d = 0")
    case True
    then show ?thesis using that by simp
  next
    case False
    then show ?thesis using length_chunk_elem [OF _ len that] k by simp
  qed
  have lt: "length (take d c) = d" and ld: "length (drop ((k - 1) * d) c) = d" if "c \<in> set ?C" for c
    using el [OF that] k by (simp_all add: diff_mult_distrib)
  have lC: "length ?C = (if d = 0 then 0 else prod_list bs)"
    using len k by (simp add: length_chunks)
  have lA: "length (concat ?A) = prod_list (bs @ [d])" and lB: "length (concat ?B) = prod_list (bs @ [d])"
    using length_concat_const [of ?A d] length_concat_const [of ?B d] lt ld lC by auto
  have la: "list_all2 (\<lambda>a b. length a = length b) ?A ?B"
    using lt ld by (simp add: list_all2_conv_all_nth)
  have "map2 ?f (concat ?A) (concat ?B) = concat (map (\<lambda>c. map2 ?f (take d c) (drop ((k - 1) * d) c)) ?C)"
    by (simp only: map2_concat [OF la] zip_map_same map_map comp_def case_prod_conv)
  moreover have "list_all id (map2 ?f (take d c) (drop ((k - 1) * d) c)) \<longleftrightarrow>
                 list_all2 ?f (take d c) (drop ((k - 1) * d) c)" if "c \<in> set ?C" for c
    by (rule list_all_map2_iff) (simp only: lt [OF that] ld [OF that])
  ultimately have "allclose_tol atol \<lparr>ashape = bs @ [d], adata = concat ?A\<rparr> \<lparr>ashape = bs @ [d], adata = concat ?B\<rparr> =
                   Inr (\<forall>c \<in> set ?C. list_all2 ?f (take d c) (drop ((k - 1) * d) c))"
    using lA lB by (simp add: allclose_tol_def bin_op_same wf_arr_def list_all_iff)
  then show ?thesis
    using index_axis_m2_first [OF sh k] index_axis_m2_last [OF wf sh k]
    by (simp add: ClosedDiscreteCurvesTestCase_random_point_is_closed_def)
qed

text \<open>On an ambient space of dimension other than 2 (the harness also builds closed curves in 3-dimensional Euclidean space), test_projection_vec, test_projection_belongs, test_projection_is_itself and test_srv_projection_vec pass without calling the projection, whatever it does.\<close>

lemma ClosedDiscreteCurvesTestCase_nonplanar_vacuous:
  assumes "cc_ambient_dim C \<noteq> 2"
  shows "ClosedDiscreteCurvesTestCase_projection_vec C inherited n_reps atol = Inr True \<and>
         ClosedDiscreteCurvesTestCase_projection_belongs C inherited n_points atol = Inr True \<and>
         ClosedDiscreteCurvesTestCase_projection_is_itself C point atol = Inr True \<and>
         ClosedDiscreteCurvesTestCase_srv_projection_vec C rp vectorization n_reps atol max_iter = Inr True"
  using assms
  by (simp add: ClosedDiscreteCurvesTestCase_is_planar_def ClosedDiscreteCurvesTestCase_projection_vec_def
                ClosedDiscreteCurvesTestCase_projection_belongs_def ClosedDiscreteCurvesTestCase_projection_is_itself_def
                ClosedDiscreteCurvesTestCase_srv_projection_vec_def)

text \<open>C39: Of the two closed-curve test classes the harness builds, the one over 3-dimensional Euclidean space runs test_projection_is_itself vacuously: the test passes there whatever the projection of ClosedDiscreteCurves does, and only the planar class checks it.\<close>

theorem closed_discrete_curves_spaces_projection_checked:
  "map (\<lambda>C. ClosedDiscreteCurvesTestCase_projection_is_itself C point atol)
       (map (closed_discrete_curves_spaces proj srv_proj) (closed_discrete_curves_spaces_params k1 k2)) =
   [bindE (proj 2 k1 point) (\<lambda>proj_point. allclose_tol atol proj_point point), Inr True]"
  by (simp add: closed_discrete_curves_spaces_params_def closed_discrete_curves_spaces_def
                ClosedDiscreteCurvesTestCase_projection_is_itself_def ClosedDiscreteCurvesTestCase_is_planar_def)

end
