(* ===== verification/Iteration.thy ===== *)
theory Iteration
  imports Prelude "HOL-Library.While_Combinator"
begin

text \<open>
  The iterative solvers of the spec (horizontal-geodesic alignment, closed-curve
  projection; spec sections 4.4, 4.5 and 6) run a correction step while a point is not
  yet acceptable, at most \<open>max_iter\<close> times, and return the last iterate without
  saying whether it stopped on convergence or on the cap. \<open>bounded_iterate\<close> is
  that loop, as \<open>while_option\<close> on the pair of the iterate and the step count;
  the lemma \<open>bounded_iterate_result\<close> shows it returns after \<open>k \<le> max_iter\<close>
  steps, with \<open>k\<close> the first count at which the point is acceptable, or the cap;
  \<open>funpow_contract\<close> bounds a measure along the iterates of a step that shrinks it
  by a factor \<open>c\<close>, which is how enough fuel is shown to reach an acceptable point.
\<close>

definition bounded_iterate :: "('a \<Rightarrow> bool) \<Rightarrow> ('a \<Rightarrow> 'a) \<Rightarrow> nat \<Rightarrow> 'a \<Rightarrow> 'a option" where
  "bounded_iterate continue step max_iter x =
     map_option fst (while_option (\<lambda>(y, i). continue y \<and> i < max_iter) (\<lambda>(y, i). (step y, Suc i)) (x, 0))"

lemma while_option_counted:
  "\<exists>k. m \<le> k \<and> k \<le> max m N \<and>
       while_option (\<lambda>(y, i). P y \<and> i < N) (\<lambda>(y, i). (f y, Suc i)) ((f ^^ m) x, m) = Some ((f ^^ k) x, k) \<and>
       (\<forall>j. m \<le> j \<and> j < k \<longrightarrow> P ((f ^^ j) x)) \<and> (k < N \<longrightarrow> \<not> P ((f ^^ k) x))"
proof (induction "N - m" arbitrary: m)
  case 0
  then have "\<not> m < N" by simp
  then show ?case by (intro exI [of _ m]) (auto simp: while_option_unfold [of _ _ "((f ^^ m) x, m)"])
next
  case (Suc d)
  show ?case
  proof (cases "P ((f ^^ m) x)")
    case False
    then show ?thesis by (intro exI [of _ m]) (auto simp: while_option_unfold [of _ _ "((f ^^ m) x, m)"])
  next
    case True
    have mN: "m < N" using Suc.hyps(2) by simp
    have d: "d = N - Suc m" using Suc.hyps(2) by arith
    from Suc.hyps(1) [OF d] obtain k where k: "Suc m \<le> k" "k \<le> max (Suc m) N"
      and w: "while_option (\<lambda>(y, i). P y \<and> i < N) (\<lambda>(y, i). (f y, Suc i)) ((f ^^ Suc m) x, Suc m) =
              Some ((f ^^ k) x, k)"
      and before: "\<forall>j. Suc m \<le> j \<and> j < k \<longrightarrow> P ((f ^^ j) x)" and stop: "k < N \<longrightarrow> \<not> P ((f ^^ k) x)"
      by blast
    have "while_option (\<lambda>(y, i). P y \<and> i < N) (\<lambda>(y, i). (f y, Suc i)) ((f ^^ m) x, m) = Some ((f ^^ k) x, k)"
      using w True mN by (simp add: while_option_unfold [of _ _ "((f ^^ m) x, m)"])
    moreover have "\<forall>j. m \<le> j \<and> j < k \<longrightarrow> P ((f ^^ j) x)"
      using before True by (metis le_eq_less_or_eq Suc_leI)
    ultimately show ?thesis using k stop mN by (intro exI [of _ k]) auto
  qed
qed

lemma bounded_iterate_result:
  "\<exists>k \<le> max_iter. bounded_iterate continue step max_iter x = Some ((step ^^ k) x) \<and>
     (\<forall>j < k. continue ((step ^^ j) x)) \<and> (k < max_iter \<longrightarrow> \<not> continue ((step ^^ k) x))"
proof -
  obtain k where "k \<le> max 0 max_iter"
    and "while_option (\<lambda>(y, i). continue y \<and> i < max_iter) (\<lambda>(y, i). (step y, Suc i)) ((step ^^ 0) x, 0) =
         Some ((step ^^ k) x, k)"
    and "\<forall>j. 0 \<le> j \<and> j < k \<longrightarrow> continue ((step ^^ j) x)" and "k < max_iter \<longrightarrow> \<not> continue ((step ^^ k) x)"
    using while_option_counted [where m = 0 and N = max_iter and P = continue and f = step and x = x] by auto
  then show ?thesis by (intro exI [of _ k]) (simp add: bounded_iterate_def)
qed

lemma funpow_contract:
  assumes step: "\<And>y. r (f y) \<le> c * (r y :: real)" and c: "0 \<le> c"
  shows "r ((f ^^ m) x) \<le> c ^ m * r x"
proof (induction m)
  case 0
  then show ?case by simp
next
  case (Suc m)
  have "r ((f ^^ Suc m) x) \<le> c * r ((f ^^ m) x)" using step by simp
  also have "\<dots> \<le> c * (c ^ m * r x)" using Suc.IH c by (rule mult_left_mono)
  finally show ?case by simp
qed

end
