(* ===== verification/ClosedCurveProjector.thy ===== *)
theory ClosedCurveProjector
  imports ClosedCurveTests Iteration
begin

text \<open>
  The closed-curve projector of the spec (section 4.5), whose implementation
  (\<^verbatim>\<open>ClosedDiscreteCurves.srv_projection\<close>) is not among the sources: it is
  modelled from the spec. The square-root-velocity representation \<open>q\<close> of a
  discretized curve, of shape \<open>(k, d)\<close>, closes up when the displacement it
  integrates, the mean of \<open>|q_i| q_i\<close> over its rows, is zero; the closure residual
  is the norm of that displacement. The projector applies the correction step
  \<open>correction\<close> (which the spec leaves open, so it is a parameter) while the residual
  is at least \<open>atol\<close>, at most \<open>max_iter\<close> times, and returns the last iterate.
  \<open>ClosedDiscreteCurves_space C correction\<close> is the closed-curve space \<open>C\<close> of the
  tests (theory \<open>ClosedCurveTests\<close>) with this projector as its \<^verbatim>\<open>srv_projection\<close>.
  The lemmas show that the projector returns within \<open>max_iter\<close> steps, that with
  enough fuel for a contracting correction it returns a closed curve, and what
  \<^verbatim>\<open>test_srv_projection\<close> and \<^verbatim>\<open>test_srv_projection_vec\<close> then compare.
\<close>

definition srv_closure_residual :: "real arr \<Rightarrow> real" where
  "srv_closure_residual q =
     (let d = last (ashape q); rows = chunks d (adata q);
          displacement = map (\<lambda>j. sum_list (map (\<lambda>r. sqrt (sum_list (map (\<lambda>x. x\<^sup>2) r)) * r ! j) rows)
                                  / real (length rows)) [0..<d] in
      sqrt (sum_list (map (\<lambda>x. x\<^sup>2) displacement)))"

definition ClosedDiscreteCurves_srv_projection ::
  "(real arr \<Rightarrow> real arr) \<Rightarrow> real arr \<Rightarrow> real \<Rightarrow> nat \<Rightarrow> real arr option" where
  "ClosedDiscreteCurves_srv_projection correction srv atol max_iter =
     bounded_iterate (\<lambda>q. atol \<le> srv_closure_residual q) correction max_iter srv"

definition ClosedDiscreteCurves_space :: "closed_curves \<Rightarrow> (real arr \<Rightarrow> real arr) \<Rightarrow> closed_curves" where
  "ClosedDiscreteCurves_space C correction =
     C\<lparr>cc_srv_projection := (\<lambda>srv atol max_iter.
          case ClosedDiscreteCurves_srv_projection correction srv atol max_iter of
            Some q \<Rightarrow> Inr q
          | None \<Rightarrow> Inl (RuntimeError ''srv_projection did not return''))\<rparr>"

lemma srv_closure_residual_nonneg: "0 \<le> srv_closure_residual q"
  by (auto simp: srv_closure_residual_def Let_def intro!: sum_list_nonneg)

lemma srv_closure_residual_zero:
  "srv_closure_residual (q\<lparr>adata := map (\<lambda>_. 0) (adata q)\<rparr>) = 0"
  by (simp add: srv_closure_residual_def Let_def chunks_map comp_def)

text \<open>The closed-curve projector always returns, after k <= max_iter correction steps; every earlier iterate had closure residual at least atol, and if it stopped before max_iter the returned point's residual is below atol. Exhausting max_iter returns the last iterate like a converged one, with no failure signal.\<close>

lemma ClosedDiscreteCurves_srv_projection_stops:
  "\<exists>k \<le> max_iter. ClosedDiscreteCurves_srv_projection correction srv atol max_iter = Some ((correction ^^ k) srv) \<and>
     (\<forall>j < k. atol \<le> srv_closure_residual ((correction ^^ j) srv)) \<and>
     (k < max_iter \<longrightarrow> srv_closure_residual ((correction ^^ k) srv) < atol)"
  using bounded_iterate_result [of max_iter "\<lambda>q. atol \<le> srv_closure_residual q" correction srv]
  by (auto simp: ClosedDiscreteCurves_srv_projection_def not_le)

text \<open>C24: test_srv_projection on the closed-curve space whose srv_projection is the projector of the spec compares with the expected curve the iterate reached after k <= max_iter correction steps, where every earlier iterate had closure residual at least atol and, if k < max_iter, this one has residual below atol; the test never sees whether the cap was hit.\<close>

theorem ClosedDiscreteCurvesTestCase_srv_projection_iterate:
  "\<exists>k \<le> max_iter.
     ClosedDiscreteCurvesTestCase_srv_projection (ClosedDiscreteCurves_space C correction) srv expected atol max_iter =
       allclose_tol atol ((correction ^^ k) srv) expected \<and>
     (\<forall>j < k. atol \<le> srv_closure_residual ((correction ^^ j) srv)) \<and>
     (k < max_iter \<longrightarrow> srv_closure_residual ((correction ^^ k) srv) < atol)"
proof -
  obtain k where k: "k \<le> max_iter"
    and res: "ClosedDiscreteCurves_srv_projection correction srv atol max_iter = Some ((correction ^^ k) srv)"
    and rest: "(\<forall>j < k. atol \<le> srv_closure_residual ((correction ^^ j) srv)) \<and>
               (k < max_iter \<longrightarrow> srv_closure_residual ((correction ^^ k) srv) < atol)"
    using ClosedDiscreteCurves_srv_projection_stops [of max_iter correction srv atol] by blast
  have "ClosedDiscreteCurvesTestCase_srv_projection (ClosedDiscreteCurves_space C correction) srv expected atol max_iter =
          allclose_tol atol ((correction ^^ k) srv) expected"
    using res by (simp add: ClosedDiscreteCurvesTestCase_srv_projection_def ClosedDiscreteCurves_space_def)
  then show ?thesis using k rest by blast
qed

text \<open>C25: Given enough iterations, the projector closes the curve. If each correction step shrinks the closure residual by a factor c >= 0 and max_iter is large enough that c^max_iter times the initial residual is below atol, then test_srv_projection compares with the expected curve an iterate, reached within max_iter steps, whose residual is below atol. So the cap never cuts the loop short of closure.\<close>

theorem ClosedDiscreteCurvesTestCase_srv_projection_converges:
  assumes contract: "\<And>q. srv_closure_residual (correction q) \<le> c * srv_closure_residual q"
    and c: "0 \<le> c" and fuel: "c ^ max_iter * srv_closure_residual srv < atol"
  shows "\<exists>k \<le> max_iter.
     ClosedDiscreteCurvesTestCase_srv_projection (ClosedDiscreteCurves_space C correction) srv expected atol max_iter =
       allclose_tol atol ((correction ^^ k) srv) expected \<and>
     srv_closure_residual ((correction ^^ k) srv) < atol"
proof -
  obtain k where k: "k \<le> max_iter"
    and res: "ClosedDiscreteCurves_srv_projection correction srv atol max_iter = Some ((correction ^^ k) srv)"
    and stop: "k < max_iter \<longrightarrow> srv_closure_residual ((correction ^^ k) srv) < atol"
    using ClosedDiscreteCurves_srv_projection_stops [of max_iter correction srv atol] by blast
  have "srv_closure_residual ((correction ^^ k) srv) < atol"
  proof (cases "k < max_iter")
    case False
    then have "k = max_iter" using k by simp
    then show ?thesis
      using funpow_contract [where r = srv_closure_residual and f = correction, OF contract c, of k srv] fuel
      by simp
  qed (use stop in simp)
  moreover have "ClosedDiscreteCurvesTestCase_srv_projection (ClosedDiscreteCurves_space C correction) srv expected atol max_iter =
          allclose_tol atol ((correction ^^ k) srv) expected"
    using res by (simp add: ClosedDiscreteCurvesTestCase_srv_projection_def ClosedDiscreteCurves_space_def)
  ultimately show ?thesis using k by blast
qed

text \<open>C26: On a planar closed-curve space whose srv_projection is the projector of the spec, test_srv_projection_vec draws one open curve with _get_srv_point. If the draw fails, the test fails with the same error. Otherwise the test hands the vectorization check the drawn curve with, as its expected value, the iterate after k <= max_iter correction steps. Every earlier iterate had closure residual at least atol, and if k < max_iter this one has residual below atol.\<close>

theorem ClosedDiscreteCurvesTestCase_srv_projection_vec_iterate:
  assumes planar: "ClosedDiscreteCurvesTestCase_is_planar C"
  shows "(case rp (True, 2) (cc_k_sampling_points C) 1 of
            Inl e \<Rightarrow> ClosedDiscreteCurvesTestCase_srv_projection_vec (ClosedDiscreteCurves_space C correction)
                      rp vectorization n_reps atol max_iter = Inl e
          | Inr srv \<Rightarrow> (\<exists>k \<le> max_iter.
              ClosedDiscreteCurvesTestCase_srv_projection_vec (ClosedDiscreteCurves_space C correction)
                rp vectorization n_reps atol max_iter =
                vectorization (srv, (correction ^^ k) srv, max_iter, atol) n_reps \<and>
              (\<forall>j < k. atol \<le> srv_closure_residual ((correction ^^ j) srv)) \<and>
              (k < max_iter \<longrightarrow> srv_closure_residual ((correction ^^ k) srv) < atol)))"
proof (cases "rp (True, 2) (cc_k_sampling_points C) 1")
  case (Inl e)
  then show ?thesis
    using planar
    by (simp add: ClosedDiscreteCurvesTestCase_srv_projection_vec_def ClosedDiscreteCurvesTestCase_is_planar_def
                  ClosedDiscreteCurvesTestCase_get_srv_point_def ClosedDiscreteCurves_space_def)
next
  case (Inr srv)
  obtain k where k: "k \<le> max_iter"
    and res: "ClosedDiscreteCurves_srv_projection correction srv atol max_iter = Some ((correction ^^ k) srv)"
    and rest: "(\<forall>j < k. atol \<le> srv_closure_residual ((correction ^^ j) srv)) \<and>
               (k < max_iter \<longrightarrow> srv_closure_residual ((correction ^^ k) srv) < atol)"
    using ClosedDiscreteCurves_srv_projection_stops [of max_iter correction srv atol] by blast
  have "ClosedDiscreteCurvesTestCase_srv_projection_vec (ClosedDiscreteCurves_space C correction)
          rp vectorization n_reps atol max_iter = vectorization (srv, (correction ^^ k) srv, max_iter, atol) n_reps"
    using planar Inr res
    by (simp add: ClosedDiscreteCurvesTestCase_srv_projection_vec_def ClosedDiscreteCurvesTestCase_is_planar_def
                  ClosedDiscreteCurvesTestCase_get_srv_point_def ClosedDiscreteCurves_space_def)
  then show ?thesis using Inr k rest by auto
qed

end
