(* ===== verification/ShapeBundleAlignment.thy ===== *)
theory ShapeBundleAlignment
  imports CurveTests Iteration
begin

text \<open>
  The horizontal geodesic of the square-root-velocity shape bundle (spec section 4.4),
  whose implementation (\<^verbatim>\<open>SRVShapeBundle.horizontal_geodesic\<close>) is not among the
  sources: it is modelled from the spec. The bundle is known through its group action
  and the operations the alignment calls, the record \<open>shape_alignment\<close>:
  \<open>sa_act g x\<close> reparametrizes \<open>x\<close> by \<open>g\<close>; \<open>sa_best p x\<close> is the group element that
  brings \<open>x\<close> closest to \<open>p\<close> in the total space; \<open>sa_geodesic p x\<close> is the
  total-space geodesic from \<open>p\<close> to \<open>x\<close>; \<open>sa_change x y\<close> measures how much the
  solution changed between successive representatives. The alignment replaces the end
  point by its best representative and recomputes, until a step changes the solution
  by less than \<open>threshold\<close> or \<open>max_iter\<close> steps have run.
  \<open>SRVShapeBundle_with_alignment B A max_iter\<close> is the bundle \<open>B\<close> of the tests
  (theory \<open>CurveTests\<close>) whose \<^verbatim>\<open>horizontal_geodesic\<close> is this alignment, with
  the bundle's iteration cap \<open>max_iter\<close>.
\<close>

record 'g shape_alignment =
  sa_act :: "'g \<Rightarrow> real arr \<Rightarrow> real arr"
  sa_best :: "real arr \<Rightarrow> real arr \<Rightarrow> 'g"
  sa_geodesic :: "real arr \<Rightarrow> real arr \<Rightarrow> real arr \<Rightarrow> real arr result"
  sa_change :: "real arr \<Rightarrow> real arr \<Rightarrow> real"

definition SRVShapeBundle_align :: "'g shape_alignment \<Rightarrow> real arr \<Rightarrow> real arr \<Rightarrow> real arr" where
  "SRVShapeBundle_align A initial_point rep = sa_act A (sa_best A initial_point rep) rep"

definition SRVShapeBundle_align_step ::
  "'g shape_alignment \<Rightarrow> real arr \<Rightarrow> real \<Rightarrow> real arr \<times> bool \<Rightarrow> real arr \<times> bool" where
  "SRVShapeBundle_align_step A initial_point threshold =
     (\<lambda>(rep, converged). let rep' = SRVShapeBundle_align A initial_point rep in
                         (rep', sa_change A rep rep' < threshold))"

definition SRVShapeBundle_horizontal_geodesic ::
  "'g shape_alignment \<Rightarrow> real arr \<Rightarrow> real arr \<Rightarrow> real \<Rightarrow> nat \<Rightarrow> (real arr \<Rightarrow> real arr result) option" where
  "SRVShapeBundle_horizontal_geodesic A initial_point end_point threshold max_iter =
     map_option (\<lambda>(rep, converged). sa_geodesic A initial_point rep)
       (bounded_iterate (\<lambda>(rep, converged). \<not> converged)
          (SRVShapeBundle_align_step A initial_point threshold) max_iter (end_point, False))"

definition SRVShapeBundle_with_alignment :: "fiber_bundle \<Rightarrow> 'g shape_alignment \<Rightarrow> nat \<Rightarrow> fiber_bundle" where
  "SRVShapeBundle_with_alignment B A max_iter =
     B\<lparr>fb_horizontal_geodesic := (\<lambda>initial_point end_point threshold.
          case SRVShapeBundle_horizontal_geodesic A initial_point end_point threshold max_iter of
            Some path \<Rightarrow> Inr path
          | None \<Rightarrow> Inl (RuntimeError ''horizontal_geodesic did not return''))\<rparr>"

lemma SRVShapeBundle_align_step_funpow:
  "(SRVShapeBundle_align_step A p threshold ^^ Suc j) (q, c) =
     ((SRVShapeBundle_align A p ^^ Suc j) q,
      sa_change A ((SRVShapeBundle_align A p ^^ j) q) ((SRVShapeBundle_align A p ^^ Suc j) q) < threshold)"
  "fst ((SRVShapeBundle_align_step A p threshold ^^ j) (q, c)) = (SRVShapeBundle_align A p ^^ j) q"
proof -
  show "fst ((SRVShapeBundle_align_step A p threshold ^^ j) (q, c)) = (SRVShapeBundle_align A p ^^ j) q"
    by (induct j) (simp_all add: SRVShapeBundle_align_step_def case_prod_unfold Let_def)
  then show "(SRVShapeBundle_align_step A p threshold ^^ Suc j) (q, c) =
     ((SRVShapeBundle_align A p ^^ Suc j) q,
      sa_change A ((SRVShapeBundle_align A p ^^ j) q) ((SRVShapeBundle_align A p ^^ Suc j) q) < threshold)"
    by (simp add: SRVShapeBundle_align_step_def case_prod_unfold Let_def)
qed

lemma SRVShapeBundle_align_orbit:
  "\<exists>gs. length gs = k \<and> (SRVShapeBundle_align A p ^^ k) q = fold (sa_act A) gs q"
proof (induct k)
  case 0
  then show ?case by simp
next
  case (Suc k)
  then obtain gs where l: "length gs = k" and h: "(SRVShapeBundle_align A p ^^ k) q = fold (sa_act A) gs q"
    by blast
  have "(SRVShapeBundle_align A p ^^ Suc k) q = fold (sa_act A) (gs @ [sa_best A p (fold (sa_act A) gs q)]) q"
    unfolding funpow.simps(2) comp_def h by (simp add: SRVShapeBundle_align_def)
  then show ?case using l by (intro exI [of _ "gs @ [sa_best A p (fold (sa_act A) gs q)]"]) simp
qed

text \<open>The horizontal geodesic returns after k <= max_iter alignment steps the total-space geodesic from the initial point to a representative of the end point's orbit, reached by k group actions; when it stops before max_iter, it has aligned at least once and its last step changed the representative by less than threshold.\<close>

lemma SRVShapeBundle_horizontal_geodesic_aligned:
  "\<exists>k \<le> max_iter. \<exists>gs. length gs = k \<and> fold (sa_act A) gs q = (SRVShapeBundle_align A p ^^ k) q \<and>
     SRVShapeBundle_horizontal_geodesic A p q threshold max_iter =
       Some (sa_geodesic A p (fold (sa_act A) gs q)) \<and>
     (k < max_iter \<longrightarrow> 0 < k \<and>
        sa_change A ((SRVShapeBundle_align A p ^^ (k - 1)) q) ((SRVShapeBundle_align A p ^^ k) q) < threshold)"
proof -
  let ?f = "SRVShapeBundle_align_step A p threshold"
  define C where "C = (\<lambda>(rep :: real arr, converged). \<not> converged)"
  from bounded_iterate_result [of max_iter C ?f "(q, False)"]
  obtain k where k: "k \<le> max_iter"
    and res: "bounded_iterate C ?f max_iter (q, False) = Some ((?f ^^ k) (q, False))"
    and stop: "k < max_iter \<longrightarrow> \<not> C ((?f ^^ k) (q, False))"
    by blast
  obtain gs where gs: "length gs = k" "(SRVShapeBundle_align A p ^^ k) q = fold (sa_act A) gs q"
    using SRVShapeBundle_align_orbit by blast
  have geo: "SRVShapeBundle_horizontal_geodesic A p q threshold max_iter = Some (sa_geodesic A p (fold (sa_act A) gs q))"
    unfolding SRVShapeBundle_horizontal_geodesic_def C_def [symmetric] res
    using SRVShapeBundle_align_step_funpow(2) [where A = A and p = p and threshold = threshold and j = k and q = q and c = False] gs(2)
    by (simp add: case_prod_unfold)
  have "k < max_iter \<longrightarrow> 0 < k \<and>
          sa_change A ((SRVShapeBundle_align A p ^^ (k - 1)) q) ((SRVShapeBundle_align A p ^^ k) q) < threshold"
  proof
    assume "k < max_iter"
    then have conv: "snd ((?f ^^ k) (q, False))" using stop by (simp add: C_def case_prod_unfold)
    then have "k \<noteq> 0" by (cases k) simp_all
    then obtain j where j: "k = Suc j" by (cases k) auto
    show "0 < k \<and> sa_change A ((SRVShapeBundle_align A p ^^ (k - 1)) q) ((SRVShapeBundle_align A p ^^ k) q) < threshold"
      using conv j SRVShapeBundle_align_step_funpow(1) [where A = A and p = p and threshold = threshold and j = j and q = q and c = False] by simp
  qed
  then have "length gs = k \<and> fold (sa_act A) gs q = (SRVShapeBundle_align A p ^^ k) q \<and>
     SRVShapeBundle_horizontal_geodesic A p q threshold max_iter = Some (sa_geodesic A p (fold (sa_act A) gs q)) \<and>
     (k < max_iter \<longrightarrow> 0 < k \<and>
        sa_change A ((SRVShapeBundle_align A p ^^ (k - 1)) q) ((SRVShapeBundle_align A p ^^ k) q) < threshold)"
    using gs geo by simp
  then show ?thesis using k by (intro exI [of _ k]) auto
qed

text \<open>C27: test_horizontal_geodesic on the bundle whose horizontal geodesic is the alignment of the spec evaluates at the given times the total-space geodesic from the initial point to the k-th alignment iterate of the end point, a representative of its orbit reached by k <= max_iter group actions, and compares it with the expected curve; stopping before max_iter means the last alignment step changed the representative by less than threshold.\<close>

theorem SRVShapeBundleTestCase_horizontal_geodesic_aligned:
  "\<exists>k \<le> max_iter. \<exists>gs. length gs = k \<and> fold (sa_act A) gs q = (SRVShapeBundle_align A p ^^ k) q \<and>
     SRVShapeBundleTestCase_horizontal_geodesic (SRVShapeBundle_with_alignment B A max_iter) p q times' expected atol threshold =
       bindE (sa_geodesic A p (fold (sa_act A) gs q) times') (\<lambda>res. allclose_tol atol res expected) \<and>
     (k < max_iter \<longrightarrow> 0 < k \<and>
        sa_change A ((SRVShapeBundle_align A p ^^ (k - 1)) q) ((SRVShapeBundle_align A p ^^ k) q) < threshold)"
proof -
  obtain k gs where k: "k \<le> max_iter" and l: "length gs = k" and orb: "fold (sa_act A) gs q = (SRVShapeBundle_align A p ^^ k) q"
    and geo: "SRVShapeBundle_horizontal_geodesic A p q threshold max_iter = Some (sa_geodesic A p (fold (sa_act A) gs q))"
    and stop: "k < max_iter \<longrightarrow> 0 < k \<and>
        sa_change A ((SRVShapeBundle_align A p ^^ (k - 1)) q) ((SRVShapeBundle_align A p ^^ k) q) < threshold"
    using SRVShapeBundle_horizontal_geodesic_aligned [of max_iter A q p threshold] by blast
  have "SRVShapeBundleTestCase_horizontal_geodesic (SRVShapeBundle_with_alignment B A max_iter) p q times' expected atol threshold =
          bindE (sa_geodesic A p (fold (sa_act A) gs q) times') (\<lambda>res. allclose_tol atol res expected)"
    using geo by (simp add: SRVShapeBundleTestCase_horizontal_geodesic_def SRVShapeBundle_with_alignment_def)
  with k l orb stop show ?thesis by (intro exI [of _ k] conjI exI [of _ gs]) simp_all
qed

end
