(* ===== verification/Spec2Isabelle.thy ===== *)
theory Spec2Isabelle
  imports NFoldGeodesic NFoldSampling ExponentialSampling CurveTests ClosedCurveTests ClosedCurveProjector
    ShapeBundleAlignment
begin

text \<open>
  \<^bold>\<open>A verification library for geomstats' N-fold product manifolds and the
  shape-bundle tests.\<close>

  \<^bold>\<open>The program.\<close> \<^verbatim>\<open>src/geomstats/geometry/nfold_manifold.py\<close> builds the product
  \<open>M\<^sup>n\<close> of \<open>n_copies\<close> copies of a base manifold (\<^verbatim>\<open>NFoldManifold\<close>) and the
  product metric, optionally scaled per copy (\<^verbatim>\<open>NFoldMetric\<close>). Every operation
  flattens the copies into the batch axis, calls the base manifold or its metric
  once on the flattened batch, and reshapes the result back, reducing over the copies
  with a logical AND (\<^verbatim>\<open>belongs\<close>, \<^verbatim>\<open>is_tangent\<close>) or a scaled sum
  (\<^verbatim>\<open>inner_product\<close>); \<^verbatim>\<open>geodesic\<close> returns a closure that scales the initial
  tangent vector by the times and applies the product \<^verbatim>\<open>exp\<close>.
  \<^verbatim>\<open>src/geomstats/information_geometry/exponential.py\<close> is a concrete manifold of
  the same contract (exponential distributions with the Fisher-Rao metric), used
  here as a base of the product.
  \<^verbatim>\<open>src/geomstats/test_cases/geometry/discrete_curves.py\<close> holds the test
  procedures of the square-root-velocity shape bundle (\<^verbatim>\<open>SRVShapeBundleTestCase\<close>),
  which check the spec's fiber-bundle invariants: orthogonality of the horizontal
  and vertical parts, and horizontality of a horizontal geodesic's finite-difference
  velocity. Its \<^verbatim>\<open>ClosedDiscreteCurvesTestCase\<close> checks the closed-curve
  projection and that sampled closed curves end where they start; the harness
  \<^verbatim>\<open>src/tests/tests_geomstats/test_geometry/test_discrete_curves.py\<close> instantiates
  these test classes over Euclidean spaces of dimension 2 and 3.

  \<^bold>\<open>The theories.\<close>
  \<^item> \<open>Prelude\<close>: the error values (\<open>ValueError\<close>, \<open>NotImplementedError\<close>,
    \<open>RuntimeError\<close>, \<open>IndexError\<close>, \<open>AxisError\<close>), the result type
    \<open>error + 'a\<close> with \<open>bindE\<close> (an exception stops the method, as in Python) and
    \<open>mapE\<close> (a list comprehension whose items may raise), and the row-major block
    lemmas on \<open>chunks\<close> and \<open>block\<close> that every reshape rests on.
  \<^item> \<open>Arrays\<close>: the array runtime behind \<^verbatim>\<open>geomstats.backend\<close> as a record of
    shape and flat row-major data, with NumPy's \<open>reshape\<close> (also with \<open>-1\<close>),
    broadcasting, \<open>all\<close>/\<open>sum\<close> over the last axis, the \<open>einsum\<close> forms the
    sources use (\<open>einsum_scale\<close>, \<open>einsum_scalar_ellipsis\<close>), \<open>stack\<close>, iteration
    over the first axis (\<open>unstack\<close>), \<open>squeeze\<close>, \<open>allclose\<close>, the pieces the
    curve tests use (\<open>linspace\<close>, the slices \<open>a[1:]\<close> and \<open>a[:-1]\<close>,
    \<open>sum\<close> over axis 1, \<open>zeros\<close>, \<open>assertAllClose\<close>), and the batch-shape
    resolver \<^verbatim>\<open>get_batch_shape\<close>. These are modelled from the spec and NumPy's
    documented behaviour, as the backend is not among the sources.
  \<^item> \<open>Manifold\<close>: the manifold/metric contract as records of batched operations
    (\<open>manifold\<close>, \<open>metric\<close>) and the vectorization contract a base must meet
    (\<open>belongs_vectorized\<close>, \<open>is_tangent_vectorized\<close>, \<open>binary_vectorized\<close>,
    \<open>inner_product_vectorized\<close>, \<open>metric_matrix_vectorized\<close>,
    \<open>projection_vectorized\<close>, \<open>sampler_sized\<close>): on a batch of shape
    \<open>(n, *shape)\<close> the base acts on each point by a pointwise function.
  \<^item> \<open>NFold\<close>: one definition per method of \<^verbatim>\<open>NFoldManifold\<close> and
    \<^verbatim>\<open>NFoldMetric\<close> but \<^verbatim>\<open>geodesic\<close> (with \<^verbatim>\<open>default_metric\<close>), named \<open>Class_method\<close>, each the source's
    sequence of reshapes and delegations; the invariants \<open>nfold_wf\<close> and
    \<open>nfold_metric_wf\<close> that the constructors establish; the construction errors;
    membership, tangency, tangent projection and inner product copy by copy, and
    the tangent projection landing in the product tangent space.
  \<^item> \<open>NFoldMetricMaps\<close>: \<^verbatim>\<open>metric_matrix\<close> copy by copy with its scales, and its
    failure when the base's last shape entry is not its dimension; \<^verbatim>\<open>exp\<close> and
    \<^verbatim>\<open>log\<close> copy by copy and their round trips, and \<^verbatim>\<open>exp\<close> of a batch of
    tangent vectors at one broadcast base point, entry by entry.
  \<^item> \<open>NFoldSampling\<close>: \<^verbatim>\<open>random_point\<close> (shape, and failure on zero samples) and
    \<^verbatim>\<open>projection\<close> (copy by copy, and landing in the product manifold).
  \<^item> \<open>NFoldGeodesic\<close>: \<^verbatim>\<open>geodesic\<close> with its path closure
    (\<open>NFoldMetric_geodesic\<close>, \<open>NFoldMetric_geodesic_path\<close>,
    \<open>NFoldMetric_path_single\<close>, \<open>geodesic_time\<close>): the two specification errors,
    the consistent case, the path of the initial- and boundary-value problems at any
    times, its end points, and its failure on two batch axes.
  \<^item> \<open>Exponential\<close>: \<^verbatim>\<open>ExponentialDistributions\<close> and \<^verbatim>\<open>ExponentialMetric\<close>,
    the inherited \<^verbatim>\<open>OpenSet\<close> tangent operations and the inherited matrix inner
    product, packed as \<open>ExponentialDistributions rs\<close>; the exp/log round trips, the
    geodesics' end points and their agreement with \<open>exp\<close>, the squared distance
    against the metric, membership (its exact threshold and result shape),
    projection, and the density; and the proof that the
    manifold meets every predicate of the vectorization contract (the implementation
    side of the interface whose client side is the \<open>NFold*\<close> theories).
  \<^item> \<open>ExponentialSampling\<close>: the range of \<^verbatim>\<open>random_point\<close>, the floor that \<^verbatim>\<open>projection\<close> applies, and
    \<^verbatim>\<open>ExponentialDistributionsRandomVariable._flatten_params\<close> with SciPy's
    exponential density (\<open>expon_pdf\<close>, modelled from SciPy's documentation).
  \<^item> \<open>CurveTests\<close>: the bundle interface the curve tests call (\<open>fiber_bundle\<close>)
    and every test of \<^verbatim>\<open>SRVShapeBundleTestCase\<close>:
    \<^verbatim>\<open>test_tangent_vector_projections_orthogonality_with_metric\<close>,
    \<^verbatim>\<open>test_horizontal_geodesic\<close> and its vectorized form, and
    \<^verbatim>\<open>test_horizontal_geodesic_has_horizontal_derivative\<close> with its
    finite-difference velocity, the random draws being their inputs; what each test
    accepts, and the velocity estimate on a straight line.
  \<^item> \<open>ClosedCurveTests\<close>: the closed-curve space interface (\<open>closed_curves\<close>), every
    procedure of \<^verbatim>\<open>ClosedDiscreteCurvesTestCase\<close>, indexing \<^verbatim>\<open>a[..., i, :]\<close>
    (\<open>index_axis_m2\<close>, in \<open>Arrays\<close>), \<^verbatim>\<open>_get_srv_point\<close> (whose
    \<^verbatim>\<open>DiscreteCurves.random_point\<close> is a parameter), and the harness fixture
    \<^verbatim>\<open>closed_discrete_curves_spaces\<close>; what the closedness test accepts, and which
    projection tests run on which fixture.
  \<^item> \<open>Iteration\<close>: the capped loop of the spec's iterative solvers
    (\<open>bounded_iterate\<close>, a \<open>while_option\<close> on the iterate and its step count) and
    the lemma that it returns after at most \<open>max_iter\<close> steps, at the first
    acceptable iterate or at the cap; \<open>funpow_contract\<close> bounds a measure along the
    iterates of a step that shrinks it by a constant factor.
  \<^item> \<open>ClosedCurveProjector\<close> and \<open>ShapeBundleAlignment\<close>: the closed-curve
    projector (spec section 4.5) and the horizontal-geodesic alignment (spec section
    4.4), whose implementations are not among the sources, modelled from the spec
    over the steps the spec leaves open (the correction step; the group action and
    the best-representative search), and plugged into the tests of
    \<open>ClosedCurveTests\<close> and \<open>CurveTests\<close> (\<open>ClosedDiscreteCurves_space\<close>,
    \<open>SRVShapeBundle_with_alignment\<close>).
  \<^item> This theory: the fixtures (\<open>expo_pair\<close>, \<open>expo_triple\<close>: products of the
    exponential manifold; \<open>matrices_2x2\<close>: the space of \<open>2 \<times> 2\<close> matrices, a base
    whose last shape entry is not its dimension; \<open>stationary_bundle\<close>: a bundle
    for the curve tests; \<open>collapsing_curves_r3\<close>: closed curves in 3-space with a
    projection that is wrong everywhere; \<open>close_by_reflection\<close>, \<open>collapse_srv\<close>:
    correction steps;
    \<open>shift_alignment\<close>: an alignment by translation), the property that spans the
    product and the exponential manifold (\<open>NFoldManifold_random_point_expo_bound\<close>),
    and the witnesses, which instantiate each theorem at a concrete input.

  \<^bold>\<open>What the theorems show.\<close> A product point belongs iff every copy belongs;
  tangency is checked copy by copy; the tangent projection is the direct sum of the
  base projections and lands in the product tangent space when the base's lands in
  the base's; the product inner product
  is the scaled sum of the per-copy inner products, and the product metric matrix
  the per-copy matrices scaled; product \<open>exp\<close> and \<open>log\<close> invert each other when
  the base's do, and a batch of tangent vectors at one base point is exponentiated
  entry by entry; the geodesic from \<open>p\<close> to \<open>q\<close> passes through \<open>p\<close> at time 0 and
  \<open>q\<close> at time 1, and the initial-value geodesic is \<open>exp(t v)\<close> copy by copy; the
  geodesic call fails as the spec requires when under- or inconsistently specified;
  projection lands in the manifold, and the exponential manifold's projection
  floors at \<open>atol\<close> and is idempotent; the exponential manifold's membership test
  accepts exactly the coordinates at least \<open>-atol\<close>; its samples lie between the
  bounds; the scales handed to SciPy are the inverse
  rates, so sampling and density agree (the one theorem about a library the
  sources call, through the documented SciPy density); sampling returns one base sample of
  \<open>n * n_copies\<close> points in the product shape. Error theorems give the exact
  exception of each failing branch. The orthogonality test accepts exactly when
  every inner product of the two parts is within \<open>atol\<close> of 0, and the
  horizontal-derivative test exactly when the 19 per-time norms of the vertical
  parts are. The closedness test accepts exactly the batches whose every curve
  ends within tolerance of where it starts; the projection tests are skipped, and
  pass, on every non-planar ambient space, which includes one of the harness's two
  classes.
  The closed-curve projector returns within \<open>max_iter\<close> corrections, at the first
  iterate whose closure residual is below \<open>atol\<close> or at the cap, and the test of it
  cannot tell which. It is live: when each correction shrinks the residual by a
  factor \<open>c\<close> and \<open>c ^ max_iter\<close> times the initial residual is below \<open>atol\<close>, the
  returned iterate is closed within \<open>atol\<close>. Its vectorization test draws one open
  curve and, on the harness's planar fixture, hands the check that curve with its
  iterate, or fails with the draw's error. The horizontal geodesic returns within \<open>max_iter\<close> alignments
  the geodesic to a representative of the end point's orbit.

  \<^bold>\<open>Findings.\<close> The composite passes \<open>bound\<close> positionally, which
  \<^verbatim>\<open>ExponentialDistributions.random_point\<close> reads as its lower bound, so with the
  default bound every sample is 1.0; \<^verbatim>\<open>metric_matrix\<close> sizes matrices by
  \<^verbatim>\<open>shape[-1]\<close> instead of the base dimension; \<^verbatim>\<open>random_point(0)\<close> raises;
  the geodesic path breaks on two batch axes; the density is parametrised by the
  rate though documented by the scale; the ambiguous-geodesic message lacks a space;
  the curve test's finite-difference velocity multiplies by \<open>n_times\<close> where the
  spacing of \<^verbatim>\<open>linspace(0, 1, n_times)\<close> is \<open>1 / (n_times - 1)\<close>, overestimating
  the velocity by \<open>20 / 19\<close>, and it ignores its \<open>n_times\<close> parameter; the
  closed-curve projection is never tested outside the plane; the exponential
  manifold's projection also moves positive coordinates below \<open>atol\<close>, which its
  docstring does not say; and its membership test squeezes every axis of size 1,
  so a batch of one point gives a 0-dimensional result instead of the documented
  batch shape.

  \<^bold>\<open>Modelling choices and bounds.\<close> Floats are reals: rounding is not modelled,
  and non-finite results (division by zero, \<open>ln\<close> of a non-positive number) are
  outside the lemmas, whose hypotheses keep parameters positive. Randomness is a
  fixed sequence of uniform draws \<open>rs\<close>. A base manifold is known only through the
  contract, so the product's lemmas hold for every base that meets it. Every
  definition is total and executable (the one recursion, \<open>chunks\<close>, terminates on
  the length of its list). The source code has no loop but list comprehensions and
  no concurrency; the two iterative solvers of the spec are capped by their
  \<open>max_iter\<close>, which is their fuel: their termination theorems show they always
  return within it, and at which iterate. For the projector, fuel \<open>N\<close> is enough
  to close the curve when \<open>c ^ N\<close> times the initial residual is below \<open>atol\<close>. Such
  an \<open>N\<close> exists whenever the correction contracts the residual by a factor
  \<open>c < 1\<close>: it is about \<open>log (r0 / atol) / log (1 / c)\<close> for initial residual \<open>r0\<close>. The geodesic lemmas assume at most
  three point axes, the bound of the source's \<^verbatim>\<open>"ijk"[:point_ndim]\<close>; the path is
  evaluated on a one-dimensional time array (a Python scalar is the
  0-dimensional case; a Python list, wrapped by \<^verbatim>\<open>gs.array([t])\<close>, is not modelled).

  \<^bold>\<open>Not modelled.\<close> The fiber-bundle and closed-curve components that the spec
  describes are present only through their tests; their implementations
  (\<^verbatim>\<open>SRVShapeBundle\<close>, \<^verbatim>\<open>srv_projection\<close>) are not among the sources, so the
  bundle and the closed-curve space are interface records, and their iterative
  solvers are modelled from the spec only down to the steps it leaves open (the
  correction step, the group action and the best-representative search, the quotient
  distance); the tests that call them are modelled over interface records, their
  random draws (the data generators, and the \<^verbatim>\<open>DiscreteCurves\<close> sampler
  that \<^verbatim>\<open>_get_srv_point\<close> calls) being inputs. Of the harness only the closed-curve fixture is modelled; its other
  fixtures construct spaces of classes outside the sources. SciPy's sampler, which
  \<^verbatim>\<open>sample\<close> reaches through the inherited \<^verbatim>\<open>ScipyUnivariateRandomVariable.rvs\<close>,
  is a library the sources only call, and a parameter here.
\<close>

section \<open>Fixtures\<close>

text \<open>The product of two copies of the exponential manifold, the draws all \<open>1/2\<close>.\<close>

definition expo_pair :: nfold_manifold where
  "expo_pair =
     \<lparr>base_manifold = ExponentialDistributions (\<lambda>_. 1 / 2), n_copies = 2, nf_dim = 2,
      nf_shape = [2, 1], nf_default_coords_type = ''intrinsic''\<rparr>"

definition expo_triple :: nfold_manifold where
  "expo_triple =
     \<lparr>base_manifold = ExponentialDistributions (\<lambda>_. 1 / 2), n_copies = 3, nf_dim = 3,
      nf_shape = [3, 1], nf_default_coords_type = ''intrinsic''\<rparr>"

definition expo_pair_metric :: nfold_metric where
  "expo_pair_metric = \<lparr>nm_space = expo_pair, scales = Some [1, 2]\<rparr>"

text \<open>
  The space of \<open>2 \<times> 2\<close> real matrices with the Frobenius metric (geomstats'
  \<^verbatim>\<open>Matrices(2, 2)\<close>): dimension 4, point shape \<open>(2, 2)\<close>, metric matrix the
  \<open>4 \<times> 4\<close> identity at every point, exp and log by addition and subtraction.
\<close>

definition eye4 :: "real list" where
  "eye4 = [1, 0, 0, 0, 0, 1, 0, 0, 0, 0, 1, 0, 0, 0, 0, 1]"

definition matrices_2x2 :: manifold where
  "matrices_2x2 =
     \<lparr>m_dim = 4, m_shape = [2, 2], m_default_coords_type = ''extrinsic'',
      m_belongs = (\<lambda>p atol. Inr \<lparr>ashape = take (length (ashape p) - 2) (ashape p),
                                 adata = replicate (prod_list (take (length (ashape p) - 2) (ashape p))) True\<rparr>),
      m_is_tangent = (\<lambda>v p atol. Inr \<lparr>ashape = take (length (ashape v) - 2) (ashape v),
                                     adata = replicate (prod_list (take (length (ashape v) - 2) (ashape v))) True\<rparr>),
      m_to_tangent = (\<lambda>v p. Inr v),
      m_projection = Some (\<lambda>p. Inr p),
      m_random_point = (\<lambda>n bound. Inr \<lparr>ashape = [n, 2, 2], adata = replicate (n * 4) 0\<rparr>),
      m_metric = \<lparr>metric_matrix_op = (\<lambda>p. Inr \<lparr>ashape = [length (adata p) div 4, 4, 4],
                                                adata = concat (map (\<lambda>_. eye4) (chunks 4 (adata p)))\<rparr>),
                  inner_product_op = (\<lambda>u v p. Inr \<lparr>ashape = take (length (ashape p) - 2) (ashape p),
                                                 adata = map2 (\<lambda>x y. sum_list (map2 (*) x y))
                                                           (chunks 4 (adata u)) (chunks 4 (adata v))\<rparr>),
                  exp_op = (\<lambda>v p. bin_op (+) p v),
                  log_op = (\<lambda>q p. bin_op (-) q p)\<rparr>\<rparr>"

definition matrices_pair_metric :: nfold_metric where
  "matrices_pair_metric =
     \<lparr>nm_space = \<lparr>base_manifold = matrices_2x2, n_copies = 2, nf_dim = 8, nf_shape = [2, 2, 2],
                   nf_default_coords_type = ''extrinsic''\<rparr>,
      scales = None\<rparr>"

text \<open>A shape bundle whose horizontal geodesic from any point is the constant curve at that point and whose vertical norms are the absolute values of the velocity.\<close>

definition stationary_bundle :: fiber_bundle where
  "stationary_bundle =
     \<lparr>fb_horizontal_projection = (\<lambda>v p. Inr v),
      fb_vertical_projection = (\<lambda>v p. Inr (amap (\<lambda>x. 0) v)),
      fb_vertical_norm = (\<lambda>v p. Inr (amap abs v)),
      fb_horizontal_geodesic = (\<lambda>p q threshold. Inr (\<lambda>t. Inr \<lparr>ashape = length (adata t) # ashape p,
                                                     adata = concat (replicate (length (adata t)) (adata p))\<rparr>)),
      fb_default_threshold = 1 / 1000,
      fb_inner_product = (\<lambda>u v p. bindE (bin_op (*) u v) sum_last),
      fb_point_ndim = 1\<rparr>"

text \<open>Closed curves in 3-dimensional Euclidean space with a projection that sends every curve to 0.\<close>

definition collapsing_curves_r3 :: closed_curves where
  "collapsing_curves_r3 =
     \<lparr>cc_ambient_is_euclidean = True, cc_ambient_dim = 3, cc_k_sampling_points = 5,
      cc_projection = (\<lambda>p. Inr (amap (\<lambda>x. 0) p)),
      cc_srv_projection = (\<lambda>s atol max_iter. Inr (amap (\<lambda>x. 0) s))\<rparr>"

text \<open>A correction step of the closed-curve projector that reflects the first row of a two-row curve into the second, and a shape alignment whose group acts by translation and whose geodesic stays at the aligned representative.\<close>

definition close_by_reflection :: "real arr \<Rightarrow> real arr" where
  "close_by_reflection q = q\<lparr>adata := take 2 (adata q) @ map uminus (take 2 (adata q))\<rparr>"

text \<open>A correction step that collapses a representation to zero, which shrinks the closure residual by any factor.\<close>

definition collapse_srv :: "real arr \<Rightarrow> real arr" where
  "collapse_srv q = q\<lparr>adata := map (\<lambda>_. 0) (adata q)\<rparr>"

definition shift_alignment :: "real shape_alignment" where
  "shift_alignment =
     \<lparr>sa_act = (\<lambda>g x. amap (\<lambda>v. v + g) x), sa_best = (\<lambda>p x. hd (adata p) - hd (adata x)),
      sa_geodesic = (\<lambda>p x t. Inr x), sa_change = (\<lambda>x y. \<bar>hd (adata y) - hd (adata x)\<bar>)\<rparr>"

section \<open>Properties spanning the composite and the exponential manifold\<close>

text \<open>C30: NFoldManifold.random_point over ExponentialDistributions passes its bound positionally, so the bound becomes the base sampler's lower_bound and the upper bound stays 1.0: every sample is (1 - bound) * r + bound for its uniform draw r, and with the default bound 1.0 every sample is exactly 1.0.\<close>

theorem NFoldManifold_random_point_expo_bound:
  assumes M: "base_manifold M = ExponentialDistributions rs" and wf: "nfold_wf M" and n: "0 < n"
  shows "\<exists>r. NFoldManifold_random_point M n bound = Inr r \<and>
             adata r = map (\<lambda>i. (1 - bound) * rs i + bound) [0..<n * n_copies M]"
proof -
  let ?s = "ExponentialDistributions_random_point rs (n * n_copies M) bound 1"
  have sz: "sampler_sized (base_manifold M)" using M by (simp add: ExponentialDistributions_sampler_sized)
  have smp: "m_random_point (base_manifold M) (n * n_copies M) bound = Inr ?s" using M by simp
  have "adata ?s = map (\<lambda>i. (1 - bound) * rs i + bound) [0..<n * n_copies M]"
    by (simp add: ExponentialDistributions_random_point_def Let_def)
  then show ?thesis
    using NFoldSampling.NFoldManifold_random_point_data [OF wf sz smp] n by auto
qed

section \<open>Witnesses\<close>

lemma expo_pair_wf: "nfold_wf expo_pair"
  by (simp add: nfold_wf_def expo_pair_def)

lemma expo_pair_metric_wf: "nfold_metric_wf expo_pair_metric"
  by (simp add: nfold_metric_wf_def expo_pair_metric_def expo_pair_wf) (simp add: expo_pair_def)

theorem NFoldManifold_belongs_copies_witness:
  "\<exists>r. NFoldManifold_belongs expo_pair \<lparr>ashape = [2, 2, 1], adata = [1, 2, 3, -1]\<rparr> 0 = Inr r \<and>
       ashape r = [2] \<and> adata r = [True, False]"
proof -
  have pos: "0 < point_size (base_manifold expo_pair)" by (simp add: expo_pair_def)
  have wf: "wf_arr \<lparr>ashape = [2, 2, 1], adata = [1, 2, 3, -1 :: real]\<rparr>"
    by (simp add: wf_arr_def)
  have sh: "ashape \<lparr>ashape = [2, 2, 1], adata = [1, 2, 3, -1 :: real]\<rparr> = [2] @ nf_shape expo_pair"
    by (simp add: expo_pair_def)
  have vec: "belongs_vectorized (base_manifold expo_pair) (\<lambda>p atol. - atol \<le> hd p)"
    by (simp add: expo_pair_def ExponentialDistributions_belongs_vectorized)
  obtain r where r: "NFoldManifold_belongs expo_pair \<lparr>ashape = [2, 2, 1], adata = [1, 2, 3, -1]\<rparr> 0 = Inr r"
      "ashape r = [2]" "length (adata r) = 2"
    and el: "\<forall>i < 2. adata r ! i \<longleftrightarrow> (\<forall>j < 2. - 0 \<le> hd (block 1 [1, 2, 3, -1 :: real] (i * 2 + j)))"
    using NFold.NFoldManifold_belongs_copies [OF expo_pair_wf pos vec wf sh, of 0]
    by (auto simp: expo_pair_def)
  have "adata r = [True, False]"
  proof (rule nth_equalityI)
    show "length (adata r) = length [True, False]" using r(3) by simp
    fix i assume "i < length (adata r)"
    then have "i = 0 \<or> i = 1" using r(3) by auto
    then show "adata r ! i = [True, False] ! i"
      using el by (auto simp: block_def numeral_2_eq_2 All_less_Suc)
  qed
  then show ?thesis using r by blast
qed

lemma expo_pair_pos: "0 < point_size (base_manifold expo_pair)"
  by (simp add: expo_pair_def)

lemma expo_pair_space: "nm_space expo_pair_metric = expo_pair"
  by (simp add: expo_pair_metric_def)

theorem NFoldMetric_inner_product_sum_witness:
  "NFoldMetric_inner_product expo_pair_metric \<lparr>ashape = [2, 1], adata = [1, 1]\<rparr>
     \<lparr>ashape = [2, 1], adata = [1, 1]\<rparr> \<lparr>ashape = [2, 1], adata = [1, 2]\<rparr> =
     Inr \<lparr>ashape = [], adata = [3 / 2]\<rparr>"
proof -
  have vec: "inner_product_vectorized (base_manifold expo_pair) (\<lambda>x y z. hd x * (1 / (hd z)\<^sup>2) * hd y)"
    using ExponentialDistributions_inner_product_vectorized [of "\<lambda>_. 1 / 2"]
    by (simp add: expo_pair_def)
  have wu: "wf_arr \<lparr>ashape = [2, 1], adata = [1, 1 :: real]\<rparr>"
    and wb: "wf_arr \<lparr>ashape = [2, 1], adata = [1, 2 :: real]\<rparr>"
    by (simp_all add: wf_arr_def)
  have su: "ashape \<lparr>ashape = [2, 1], adata = [1, 1 :: real]\<rparr> = [] @ nf_shape expo_pair"
    by (simp add: expo_pair_def)
  show ?thesis
    using NFold.NFoldMetric_inner_product_sum [OF expo_pair_metric_wf expo_pair_space expo_pair_pos vec wu su wu _ wb]
    by (simp add: expo_pair_def expo_pair_metric_def scale_weight_def block_def numeral_2_eq_2 lessThan_Suc)
qed

lemma expo_pair_to_tangent: "binary_vectorized (base_manifold expo_pair) (m_to_tangent (base_manifold expo_pair)) (\<lambda>x y. [hd x])"
  using ExponentialDistributions_to_tangent_vectorized [of "\<lambda>_. 1 / 2"]
  by (simp add: expo_pair_def)

theorem NFoldManifold_to_tangent_is_tangent_witness:
  "\<exists>w. NFoldManifold_to_tangent expo_pair \<lparr>ashape = [2, 1], adata = [3, -1]\<rparr> \<lparr>ashape = [2, 1], adata = [1, 2]\<rparr> = Inr w \<and>
       NFoldManifold_is_tangent expo_pair w \<lparr>ashape = [2, 1], adata = [1, 2]\<rparr> 0 =
         Inr \<lparr>ashape = [], adata = [True]\<rparr>"
proof -
  have wv: "wf_arr \<lparr>ashape = [2, 1], adata = [3, -1 :: real]\<rparr>"
    and wb: "wf_arr \<lparr>ashape = [2, 1], adata = [1, 2 :: real]\<rparr>"
    by (simp_all add: wf_arr_def)
  have sv: "ashape \<lparr>ashape = [2, 1], adata = [3, -1 :: real]\<rparr> = [] @ nf_shape expo_pair"
    by (simp add: expo_pair_def)
  have vecI: "is_tangent_vectorized (base_manifold expo_pair) (\<lambda>x y atol. True)"
    using ExponentialDistributions_is_tangent_vectorized [of "\<lambda>_. 1 / 2"] by (simp add: expo_pair_def)
  have lands: "\<forall>x y. length x = point_size (base_manifold expo_pair) \<longrightarrow>
                 length y = point_size (base_manifold expo_pair) \<longrightarrow> (\<lambda>x y atol. True) ([hd x] :: real list) y (0 :: real)"
    by simp
  show ?thesis
    using NFold.NFoldManifold_to_tangent_is_tangent [OF expo_pair_wf expo_pair_pos expo_pair_to_tangent vecI lands wv sv wb]
    by simp
qed

theorem NFoldManifold_to_tangent_direct_sum_witness:
  "\<exists>r. NFoldManifold_to_tangent expo_pair \<lparr>ashape = [2, 1], adata = [3, -1]\<rparr> \<lparr>ashape = [2, 1], adata = [1, 2]\<rparr> = Inr r
      \<and> ashape r = [2, 1] \<and> block 1 (adata r) 0 = [3] \<and> block 1 (adata r) 1 = [-1]"
proof -
  have wv: "wf_arr \<lparr>ashape = [2, 1], adata = [3, -1 :: real]\<rparr>"
    and wb: "wf_arr \<lparr>ashape = [2, 1], adata = [1, 2 :: real]\<rparr>"
    by (simp_all add: wf_arr_def)
  have sv: "ashape \<lparr>ashape = [2, 1], adata = [3, -1 :: real]\<rparr> = [] @ nf_shape expo_pair"
    by (simp add: expo_pair_def)
  show ?thesis
    using NFold.NFoldManifold_to_tangent_direct_sum [OF expo_pair_wf expo_pair_pos expo_pair_to_tangent wv sv wb]
    by (auto simp: expo_pair_def block_def numeral_2_eq_2 All_less_Suc)
qed

theorem NFoldManifold_is_tangent_copies_witness:
  "NFoldManifold_is_tangent expo_pair \<lparr>ashape = [2, 1], adata = [3, -1]\<rparr> \<lparr>ashape = [2, 1], adata = [1, 2]\<rparr> 0 =
     Inr \<lparr>ashape = [], adata = [True]\<rparr>"
proof -
  have wv: "wf_arr \<lparr>ashape = [2, 1], adata = [3, -1 :: real]\<rparr>"
    and wb: "wf_arr \<lparr>ashape = [2, 1], adata = [1, 2 :: real]\<rparr>"
    by (simp_all add: wf_arr_def)
  have sv: "ashape \<lparr>ashape = [2, 1], adata = [3, -1 :: real]\<rparr> = [] @ nf_shape expo_pair"
    by (simp add: expo_pair_def)
  have vec: "is_tangent_vectorized (base_manifold expo_pair) (\<lambda>x y atol. True)"
    using ExponentialDistributions_is_tangent_vectorized [of "\<lambda>_. 1 / 2"]
    by (simp add: expo_pair_def)
  show ?thesis
    using NFold.NFoldManifold_is_tangent_copies [OF expo_pair_wf expo_pair_pos vec wv sv wb, of 0]
    by (simp add: expo_pair_def chunks.simps)
qed

theorem ExponentialMetric_exp_log_inverse_witness:
  "bindE (ExponentialMetric_exp (array1 [3]) (array1 [2])) (\<lambda>q. ExponentialMetric_log q (array1 [2])) =
     Inr (array1 [3]) \<and>
   bindE (ExponentialMetric_log (array1 [3]) (array1 [2])) (\<lambda>v. ExponentialMetric_exp v (array1 [2])) =
     Inr (array1 [3])"
  by (rule Exponential.ExponentialMetric_exp_log_inverse) (simp_all add: array1_def wf_arr_def)

theorem NFoldManifold_dim_shape_witness:
  "NFoldManifold (ExponentialDistributions (\<lambda>_. 1 / 2)) 0 =
     Inl (ValueError ''n_copies is required to be an integer > 0'') \<and>
   NFoldManifold (ExponentialDistributions (\<lambda>_. 1 / 2)) 2 = Inr expo_pair"
proof -
  have "NFoldManifold (ExponentialDistributions (\<lambda>_. 1 / 2)) 2 = Inr expo_pair \<longleftrightarrow>
        0 < (2 :: int) \<and> expo_pair = \<lparr>base_manifold = ExponentialDistributions (\<lambda>_. 1 / 2), n_copies = nat 2,
          nf_dim = nat 2 * m_dim (ExponentialDistributions (\<lambda>_. 1 / 2)),
          nf_shape = nat 2 # m_shape (ExponentialDistributions (\<lambda>_. 1 / 2)),
          nf_default_coords_type = m_default_coords_type (ExponentialDistributions (\<lambda>_. 1 / 2))\<rparr>"
    using NFold.NFoldManifold_dim_shape [of "ExponentialDistributions (\<lambda>_. 1 / 2)" 2 expo_pair] by blast
  moreover have "NFoldManifold (ExponentialDistributions (\<lambda>_. 1 / 2)) 0 =
                 Inl (ValueError ''n_copies is required to be an integer > 0'')"
    using NFold.NFoldManifold_dim_shape [of "ExponentialDistributions (\<lambda>_. 1 / 2)" 0 expo_pair] by simp
  ultimately show ?thesis by (simp add: expo_pair_def)
qed

theorem NFoldMetric_scales_errors_witness:
  "NFoldMetric expo_triple (Some [1, 2]) =
     Inl (ValueError ''Number of scales should be equal to number of factors'') \<and>
   NFoldMetric expo_pair (Some [1, -2]) = Inl (ValueError ''Each value in scales must be positive'') \<and>
   NFoldMetric expo_triple (Some [1, -2]) = Inl (ValueError ''Each value in scales must be positive'')"
  using NFold.NFoldMetric_scales_errors [of "[1, 2]" expo_triple]
        NFold.NFoldMetric_scales_errors [of "[1, -2]" expo_pair]
        NFold.NFoldMetric_scales_errors [of "[1, -2]" expo_triple]
  by (simp add: expo_triple_def)

theorem NFoldManifold_projection_unsupported_witness:
  "NFoldManifold_projection (expo_pair\<lparr>base_manifold := (base_manifold expo_pair)\<lparr>m_projection := None\<rparr>\<rparr>)
      \<lparr>ashape = [2, 1], adata = [1, 2]\<rparr> =
   Inl (NotImplementedError ''The base manifold does not implement a projection method.'')"
  by (rule NFold.NFoldManifold_projection_unsupported) simp


lemma matrices_2x2_metric_matrix: "metric_matrix_vectorized matrices_2x2 (\<lambda>_. eye4)"
  by (simp add: metric_matrix_vectorized_def matrices_2x2_def point_size_def batch_arr_def eye4_def
                length_chunks)

lemma expo_pair_exp: "binary_vectorized (base_manifold expo_pair) (exp_op (m_metric (base_manifold expo_pair)))
                        (\<lambda>x y. [exp (hd x / hd y) * hd y])"
  using ExponentialDistributions_exp_vectorized [of "\<lambda>_. 1 / 2"] by (simp add: expo_pair_def)

lemma expo_pair_log: "binary_vectorized (base_manifold expo_pair) (log_op (m_metric (base_manifold expo_pair)))
                        (\<lambda>x y. [hd y * ln (hd x / hd y)])"
  using ExponentialDistributions_log_vectorized [of "\<lambda>_. 1 / 2"] by (simp add: expo_pair_def)

lemma expo_pair_sampler: "sampler_sized (base_manifold expo_pair)"
  by (simp add: expo_pair_def ExponentialDistributions_sampler_sized)

theorem NFoldMetric_metric_matrix_dim_mismatch_witness:
  "NFoldMetric_metric_matrix matrices_pair_metric \<lparr>ashape = [1, 2, 2, 2], adata = replicate 8 1\<rparr> =
     Inl (ValueError ''cannot reshape array'')"
  using NFoldMetricMaps.NFoldMetric_metric_matrix_dim_mismatch
          [where g = matrices_pair_metric and M = "nm_space matrices_pair_metric" and mm = "\<lambda>_. eye4"
             and b = "\<lparr>ashape = [1, 2, 2, 2], adata = replicate 8 1\<rparr>" and bs = "[1]"]
        matrices_2x2_metric_matrix
  by (simp add: matrices_pair_metric_def nfold_metric_wf_def nfold_wf_def point_size_def wf_arr_def)
     (simp add: matrices_2x2_def)

theorem NFoldMetric_metric_matrix_copies_witness:
  "\<exists>r. NFoldMetric_metric_matrix expo_pair_metric \<lparr>ashape = [2, 1], adata = [1, 2]\<rparr> = Inr r \<and>
       ashape r = [2, 1, 1] \<and> adata r = [1, 1 / 2]"
proof -
  have vec: "metric_matrix_vectorized (base_manifold expo_pair) (\<lambda>x. [1 / (hd x)\<^sup>2])"
    using ExponentialDistributions_metric_matrix_vectorized [of "\<lambda>_. 1 / 2"] by (simp add: expo_pair_def)
  obtain r where r: "NFoldMetric_metric_matrix expo_pair_metric \<lparr>ashape = [2, 1], adata = [1, 2]\<rparr> = Inr r"
      "wf_arr r" "ashape r = [2, 1, 1]"
    and el: "\<forall>k < 2. block 1 (adata r) k = map ((*) (scale_weight (Some [1, 2]) (k mod 2))) [1 / (hd (block 1 [1, 2 :: real] k))\<^sup>2]"
    using NFoldMetricMaps.NFoldMetric_metric_matrix_copies
            [OF expo_pair_metric_wf expo_pair_space expo_pair_pos _ _ _ vec, of "\<lparr>ashape = [2, 1], adata = [1, 2]\<rparr>" "[]"]
    by (auto simp: expo_pair_def expo_pair_metric_def wf_arr_def)
  obtain x y where xy: "adata r = [x, y]"
    using r(2,3) by (auto simp: wf_arr_def numeral_2_eq_2 length_Suc_conv)
  have "x = 1" "y = 1 / 2"
    using el xy by (auto simp: block_def scale_weight_def numeral_2_eq_2 All_less_Suc)
  then show ?thesis using r xy by blast
qed

lemma expo_pair_log_value:
  "NFoldMetric_log expo_pair_metric \<lparr>ashape = [2, 1], adata = [exp 1, 1]\<rparr> \<lparr>ashape = [2, 1], adata = [1, 1]\<rparr> =
     Inr \<lparr>ashape = [2, 1], adata = [1, 0]\<rparr>"
  using NFoldMetric_log_concat [OF expo_pair_metric_wf expo_pair_space expo_pair_pos expo_pair_log,
          of "\<lparr>ashape = [2, 1], adata = [exp 1, 1]\<rparr>" "[]" "\<lparr>ashape = [2, 1], adata = [1, 1]\<rparr>"]
  by (simp add: expo_pair_def wf_arr_def chunks.simps)

theorem NFoldMetric_log_exp_witness:
  "bindE (NFoldMetric_exp expo_pair_metric \<lparr>ashape = [2, 1], adata = [1, 2]\<rparr> \<lparr>ashape = [2, 1], adata = [1, 1]\<rparr>)
         (\<lambda>q. NFoldMetric_log expo_pair_metric q \<lparr>ashape = [2, 1], adata = [1, 1]\<rparr>) =
   Inr \<lparr>ashape = [2, 1], adata = [1, 2]\<rparr>"
  using NFoldMetricMaps.NFoldMetric_log_exp [OF expo_pair_metric_wf expo_pair_space expo_pair_pos expo_pair_exp expo_pair_log,
          of "\<lparr>ashape = [2, 1], adata = [1, 2]\<rparr>" "[]" "\<lparr>ashape = [2, 1], adata = [1, 1]\<rparr>"]
  by (simp add: expo_pair_def wf_arr_def chunks.simps)

theorem NFoldMetric_exp_log_witness:
  "bindE (NFoldMetric_log expo_pair_metric \<lparr>ashape = [2, 1], adata = [1, 2]\<rparr> \<lparr>ashape = [2, 1], adata = [1, 1]\<rparr>)
         (\<lambda>v. NFoldMetric_exp expo_pair_metric v \<lparr>ashape = [2, 1], adata = [1, 1]\<rparr>) =
   Inr \<lparr>ashape = [2, 1], adata = [1, 2]\<rparr>"
  using NFoldMetricMaps.NFoldMetric_exp_log [OF expo_pair_metric_wf expo_pair_space expo_pair_pos expo_pair_exp expo_pair_log,
          of "\<lparr>ashape = [2, 1], adata = [1, 2]\<rparr>" "[]" "\<lparr>ashape = [2, 1], adata = [1, 1]\<rparr>"]
  by (simp add: expo_pair_def wf_arr_def chunks.simps)

theorem NFoldManifold_random_point_shape_witness:
  "\<exists>r. NFoldManifold_random_point expo_pair 2 1 = Inr r \<and> wf_arr r \<and> ashape r = [2, 2, 1]"
  using NFoldSampling.NFoldManifold_random_point_shape
          [OF expo_pair_wf expo_pair_sampler, of 2 1 "ExponentialDistributions_random_point (\<lambda>_. 1 / 2) 4 1 1"]
  by (fastforce simp: expo_pair_def)

theorem NFoldManifold_random_point_zero_witness:
  "NFoldManifold_random_point expo_pair 0 1 =
     Inl (ValueError ''cannot select an axis to squeeze out which has size not equal to one'')"
  using NFoldSampling.NFoldManifold_random_point_zero
          [OF expo_pair_wf expo_pair_sampler, of 1 "ExponentialDistributions_random_point (\<lambda>_. 1 / 2) 0 1 1"]
  by (simp add: expo_pair_def)

theorem NFoldManifold_random_point_expo_bound_witness:
  "\<exists>r. NFoldManifold_random_point expo_pair 2 1 = Inr r \<and> adata r = [1, 1, 1, 1]"
  using NFoldManifold_random_point_expo_bound [of expo_pair "\<lambda>_. 1 / 2" 2 1] expo_pair_wf
  by (simp add: expo_pair_def upt_rec)

theorem NFoldManifold_projection_belongs_witness:
  "\<exists>y. NFoldManifold_projection expo_pair \<lparr>ashape = [2, 1], adata = [-1, 3]\<rparr> = Inr y \<and>
       NFoldManifold_belongs expo_pair y 0 = Inr \<lparr>ashape = [], adata = [True]\<rparr>"
proof -
  have vecP: "projection_vectorized (base_manifold expo_pair) (\<lambda>x. [if hd x < gs_atol then gs_atol else hd x])"
    using ExponentialDistributions_projection_vectorized [of "\<lambda>_. 1 / 2"] by (simp add: expo_pair_def)
  have vecB: "belongs_vectorized (base_manifold expo_pair) (\<lambda>p atol. - atol \<le> hd p)"
    using ExponentialDistributions_belongs_vectorized [of "\<lambda>_. 1 / 2"] by (simp add: expo_pair_def)
  have lands: "\<forall>x. length x = point_size (base_manifold expo_pair) \<longrightarrow>
                   - 0 \<le> hd [if hd x < gs_atol then gs_atol else hd x :: real]"
    by (simp add: gs_atol_def)
  show ?thesis
    using NFoldSampling.NFoldManifold_projection_belongs [OF expo_pair_wf expo_pair_pos vecP vecB lands,
            of "\<lparr>ashape = [2, 1], adata = [-1, 3]\<rparr>" "[]"]
    by (simp add: expo_pair_def wf_arr_def)
qed

theorem ExponentialMetric_geodesic_bvp_endpoints_witness:
  "\<exists>path. ExponentialMetric_geodesic_bvp (array1 [1]) (array1 [2]) = Inr path \<and>
          path (array1 [0, 1]) = Inr \<lparr>ashape = [2, 1], adata = [1, 2]\<rparr>"
  using Exponential.ExponentialMetric_geodesic_bvp_endpoints [of 1 2] by simp

theorem ExponentialMetric_squared_dist_log_witness:
  "ExponentialMetric_squared_dist (array1 [1]) (array1 [2]) =
   bindE (ExponentialMetric_log (array1 [2]) (array1 [1])) (\<lambda>v. ExponentialMetric_inner_product v v (array1 [1]))"
  using Exponential.ExponentialMetric_squared_dist_log [of 1 2] by simp

theorem NFoldMetric_geodesic_inconsistent_witness:
  "NFoldMetric_geodesic expo_pair_metric \<lparr>ashape = [2, 1], adata = [1, 1]\<rparr>
      (Some \<lparr>ashape = [2, 1], adata = [exp 1, 1]\<rparr>) (Some \<lparr>ashape = [2, 1], adata = [0, 0]\<rparr>) =
   Inl (RuntimeError ''The shooting tangent vector is too far from the initial tangent vector.'')"
proof -
  have "allclose \<lparr>ashape = [2, 1], adata = [1, 0]\<rparr> \<lparr>ashape = [2, 1], adata = [0, 0 :: real]\<rparr> = Inr False"
    by (simp add: allclose_def bin_op_same wf_arr_def gs_atol_def gs_rtol_def)
  then show ?thesis
    using NFoldGeodesic.NFoldMetric_geodesic_inconsistent [OF expo_pair_log_value] by simp
qed

theorem NFoldMetric_geodesic_consistent_witness:
  "NFoldMetric_geodesic expo_pair_metric \<lparr>ashape = [2, 1], adata = [1, 1]\<rparr>
      (Some \<lparr>ashape = [2, 1], adata = [exp 1, 1]\<rparr>) (Some \<lparr>ashape = [2, 1], adata = [1, 0]\<rparr>) =
   NFoldMetric_geodesic expo_pair_metric \<lparr>ashape = [2, 1], adata = [1, 1]\<rparr>
      (Some \<lparr>ashape = [2, 1], adata = [exp 1, 1]\<rparr>) None"
proof -
  have "allclose \<lparr>ashape = [2, 1], adata = [1, 0]\<rparr> \<lparr>ashape = [2, 1], adata = [1, 0 :: real]\<rparr> = Inr True"
    by (simp add: allclose_def bin_op_same wf_arr_def gs_atol_def gs_rtol_def)
  then show ?thesis
    using NFoldGeodesic.NFoldMetric_geodesic_consistent [OF expo_pair_log_value] by simp
qed

theorem NFoldMetric_geodesic_endpoints_witness:
  "\<exists>path. NFoldMetric_geodesic expo_pair_metric \<lparr>ashape = [2, 1], adata = [1, 1]\<rparr>
             (Some \<lparr>ashape = [2, 1], adata = [2, 3]\<rparr>) None = Inr path \<and>
          path (array1 [0, 1]) = Inr \<lparr>ashape = [2, 2, 1], adata = [1, 1, 2, 3]\<rparr>"
  using NFoldGeodesic.NFoldMetric_geodesic_endpoints
          [OF expo_pair_metric_wf expo_pair_space expo_pair_pos expo_pair_exp expo_pair_log,
           of "\<lparr>ashape = [2, 1], adata = [2, 3]\<rparr>" "\<lparr>ashape = [2, 1], adata = [1, 1]\<rparr>"]
  by (simp add: expo_pair_def wf_arr_def chunks.simps)

theorem NFoldMetric_geodesic_ivp_times_witness:
  "\<exists>path. NFoldMetric_geodesic expo_pair_metric \<lparr>ashape = [2, 1], adata = [1, 1]\<rparr>
             None (Some \<lparr>ashape = [2, 1], adata = [1, 0]\<rparr>) = Inr path \<and>
          path (array1 [1]) = Inr \<lparr>ashape = [1, 2, 1], adata = [exp 1, 1]\<rparr>"
  using NFoldGeodesic.NFoldMetric_geodesic_ivp_times
          [OF expo_pair_metric_wf expo_pair_space expo_pair_pos expo_pair_exp,
           of "\<lparr>ashape = [2, 1], adata = [1, 0]\<rparr>" "\<lparr>ashape = [2, 1], adata = [1, 1]\<rparr>" "[1]"]
  by (simp add: expo_pair_def wf_arr_def chunks.simps)

theorem NFoldMetric_geodesic_batch2_fails_witness:
  "\<exists>path. NFoldMetric_geodesic expo_pair_metric \<lparr>ashape = [1, 3, 2, 1], adata = replicate 6 1\<rparr>
             None (Some \<lparr>ashape = [1, 3, 2, 1], adata = replicate 6 0\<rparr>) = Inr path \<and>
          path (array1 [0, 1]) = Inl (ValueError ''operands could not be broadcast together with remapped shapes'')"
  using NFoldGeodesic.NFoldMetric_geodesic_batch2_fails
          [OF expo_pair_space, of "\<lparr>ashape = [1, 3, 2, 1], adata = replicate 6 0\<rparr>" 1 3
              "\<lparr>ashape = [1, 3, 2, 1], adata = replicate 6 1\<rparr>" "[0, 1]"]
  by (simp add: expo_pair_def wf_arr_def)


theorem NFoldMetric_geodesic_batch_elementwise_witness:
  "\<exists>path r. NFoldMetric_geodesic expo_pair_metric \<lparr>ashape = [2, 2, 1], adata = [1, 1, 1, 1]\<rparr>
               None (Some \<lparr>ashape = [2, 2, 1], adata = [1, 0, 0, 1]\<rparr>) = Inr path \<and>
            path (array1 [1]) = Inr r \<and> ashape r = [2, 1, 2, 1] \<and>
            (\<forall>i < 2. \<exists>path_i. NFoldMetric_geodesic expo_pair_metric (arr_index \<lparr>ashape = [2, 2, 1], adata = [1, 1, 1, 1]\<rparr> i)
                                None (Some (arr_index \<lparr>ashape = [2, 2, 1], adata = [1, 0, 0, 1]\<rparr> i)) = Inr path_i \<and>
                 path_i (array1 [1]) = Inr \<lparr>ashape = [1, 2, 1], adata = block 2 (adata r) i\<rparr>)"
  using NFoldGeodesic.NFoldMetric_geodesic_batch_elementwise
          [OF expo_pair_metric_wf expo_pair_space expo_pair_pos expo_pair_exp,
           of "\<lparr>ashape = [2, 2, 1], adata = [1, 0, 0, 1]\<rparr>" 2 "\<lparr>ashape = [2, 2, 1], adata = [1, 1, 1, 1]\<rparr>" "[1]"]
  by (simp add: expo_pair_def wf_arr_def)

theorem SRVShapeBundleTestCase_velocity_affine_witness:
  "SRVShapeBundleTestCase_velocity 3 \<lparr>ashape = [3, 1], adata = [0, 1 / 2, 1]\<rparr> =
   Inr \<lparr>ashape = [2, 1], adata = [3 / 2, 3 / 2]\<rparr>"
  using CurveTests.SRVShapeBundleTestCase_velocity_affine [where n = 3 and s = "[1]" and c = "[0]" and w = "[1]"]
  by (simp add: linspace_def upt_rec numeral_2_eq_2)

theorem SRVShapeBundleTestCase_horizontal_derivative_accepts_witness:
  "SRVShapeBundleTestCase_horizontal_derivative stationary_bundle 1 5 (array1 [2]) (array1 [2]) (1 / 10) = Inr True"
  using CurveTests.SRVShapeBundleTestCase_horizontal_derivative_accepts
          [of 1 stationary_bundle "array1 [2]" "array1 [2]" _
              "\<lparr>ashape = [20, 1], adata = replicate 20 2\<rparr>" "\<lparr>ashape = [19, 1], adata = replicate 19 0\<rparr>"
              "\<lparr>ashape = [19, 1], adata = replicate 19 2\<rparr>" "\<lparr>ashape = [19, 1], adata = replicate 19 0\<rparr>" 1 5 "1 / 10"]
  by (simp add: stationary_bundle_def array1_def linspace_def SRVShapeBundleTestCase_velocity_def
                slice_tail_def slice_init_def bin_op_same wf_arr_def amap_def)

theorem SRVShapeBundleTestCase_orthogonality_accepts_witness:
  "SRVShapeBundleTestCase_orthogonality stationary_bundle \<lparr>ashape = [2, 1], adata = [1, 2]\<rparr>
     \<lparr>ashape = [2, 1], adata = [3, -1]\<rparr> (1 / 10) = Inr True"
  using CurveTests.SRVShapeBundleTestCase_orthogonality_accepts
          [of stationary_bundle "\<lparr>ashape = [2, 1], adata = [3, -1]\<rparr>" "\<lparr>ashape = [2, 1], adata = [1, 2]\<rparr>"
              "\<lparr>ashape = [2, 1], adata = [3, -1]\<rparr>" "\<lparr>ashape = [2, 1], adata = [0, 0]\<rparr>"
              "\<lparr>ashape = [2], adata = [0, 0]\<rparr>" "1 / 10"]
  by (simp add: stationary_bundle_def amap_def bin_op_same wf_arr_def sum_last_def get_batch_shape_def
                broadcast_shapes.simps Let_def chunks.simps)

theorem ClosedDiscreteCurvesTestCase_random_point_is_closed_accepts_witness:
  "ClosedDiscreteCurvesTestCase_random_point_is_closed \<lparr>ashape = [1, 3, 2], adata = [0, 1, 2, 3, 0, 1]\<rparr> 0 = Inr True \<and>
   ClosedDiscreteCurvesTestCase_random_point_is_closed \<lparr>ashape = [1, 3, 2], adata = [0, 1, 2, 3, 0, 2]\<rparr> 0 = Inr False"
  using ClosedCurveTests.ClosedDiscreteCurvesTestCase_random_point_is_closed_accepts
          [of "\<lparr>ashape = [1, 3, 2], adata = [0, 1, 2, 3, 0, 1]\<rparr>" "[1]" 3 2 0]
        ClosedCurveTests.ClosedDiscreteCurvesTestCase_random_point_is_closed_accepts
          [of "\<lparr>ashape = [1, 3, 2], adata = [0, 1, 2, 3, 0, 2]\<rparr>" "[1]" 3 2 0]
  by (simp add: wf_arr_def chunks.simps gs_rtol_def)

theorem ClosedDiscreteCurvesTestCase_nonplanar_vacuous_witness:
  "ClosedDiscreteCurvesTestCase_projection_is_itself collapsing_curves_r3 \<lparr>ashape = [1, 2, 3], adata = [1, 2, 3, 1, 2, 3]\<rparr> 0 = Inr True \<and>
   ClosedDiscreteCurvesTestCase_srv_projection_vec collapsing_curves_r3 (\<lambda>a k n. Inl (ValueError ''no sample''))
     (\<lambda>d n. Inr False) 2 0 1000 = Inr True"
  using ClosedCurveTests.ClosedDiscreteCurvesTestCase_nonplanar_vacuous
          [of collapsing_curves_r3 _ _ _ _ "\<lparr>ashape = [1, 2, 3], adata = [1, 2, 3, 1, 2, 3]\<rparr>"
              "\<lambda>a k n. Inl (ValueError ''no sample'')" "\<lambda>d n. Inr False" 1000]
  by (simp add: collapsing_curves_r3_def)

theorem ExponentialDistributions_random_point_bounds_witness:
  "list_all (\<lambda>x. 1 / 10 \<le> x \<and> x \<le> 1) (adata (ExponentialDistributions_random_point (\<lambda>i. 1 / 2) 2 (1 / 10) 1))"
  using ExponentialSampling.ExponentialDistributions_random_point_bounds [of "1 / 10" 1 "\<lambda>i. 1 / 2" 2]
  by (simp add: list_all_iff)

theorem ExponentialDistributions_projection_floor_witness:
  "adata (ExponentialDistributions_projection (array1 [-1, 1 / 100, 2]) (1 / 10)) = [1 / 10, 1 / 10, 2] \<and>
   list_all (\<lambda>x. 1 / 10 \<le> x) (adata (ExponentialDistributions_projection (array1 [-1, 1 / 100, 2]) (1 / 10))) \<and>
   adata (ExponentialDistributions_projection (array1 [-1, 1 / 100, 2]) (1 / 10)) ! 2 = 2"
  using ExponentialSampling.ExponentialDistributions_projection_floor [of "array1 [-1, 1 / 100, 2]" "1 / 10"]
  by (simp add: ExponentialDistributions_projection_def amap_def array1_def list_all_iff)

theorem ExponentialDistributionsRandomVariable_scale_matches_pdf_witness:
  "ExponentialDistributionsRandomVariable_flatten_params (array1 [2, 4]) [2] = Inr (array1 [1 / 2, 1 / 4]) \<and>
   ExponentialDistributions_point_to_pdf (array1 [2]) (array1 [1]) = Inr (array1 [expon_pdf 1 (1 / 2)])"
  using ExponentialSampling.ExponentialDistributionsRandomVariable_scale_matches_pdf [of "[2, 4]"] by (simp add: numeral_2_eq_2)

theorem NFoldMetric_exp_broadcast_witness:
  "\<exists>r. NFoldMetric_exp expo_pair_metric \<lparr>ashape = [2, 2, 1], adata = [0, 1, 1, 0]\<rparr> \<lparr>ashape = [2, 1], adata = [1, 2]\<rparr> = Inr r \<and>
       ashape r = [2, 2, 1] \<and>
       NFoldMetric_exp expo_pair_metric (arr_index \<lparr>ashape = [2, 2, 1], adata = [0, 1, 1, 0]\<rparr> 1)
         \<lparr>ashape = [2, 1], adata = [1, 2]\<rparr> = Inr (arr_index r 1)"
proof -
  obtain r where "NFoldMetric_exp expo_pair_metric \<lparr>ashape = [2, 2, 1], adata = [0, 1, 1, 0]\<rparr> \<lparr>ashape = [2, 1], adata = [1, 2]\<rparr> = Inr r"
    and "ashape r = [2, 2, 1]"
    and "\<forall>i < 2. NFoldMetric_exp expo_pair_metric (arr_index \<lparr>ashape = [2, 2, 1], adata = [0, 1, 1, 0]\<rparr> i)
                  \<lparr>ashape = [2, 1], adata = [1, 2]\<rparr> = Inr (arr_index r i)"
    using NFoldMetricMaps.NFoldMetric_exp_broadcast [OF expo_pair_metric_wf expo_pair_space expo_pair_pos expo_pair_exp,
            of "\<lparr>ashape = [2, 2, 1], adata = [0, 1, 1, 0]\<rparr>" 2 "\<lparr>ashape = [2, 1], adata = [1, 2]\<rparr>"]
    by (auto simp: expo_pair_def wf_arr_def)
  then show ?thesis by auto
qed

theorem ClosedDiscreteCurvesTestCase_srv_projection_iterate_witness:
  "ClosedDiscreteCurvesTestCase_srv_projection (ClosedDiscreteCurves_space collapsing_curves_r3 close_by_reflection)
     \<lparr>ashape = [2, 2], adata = [1, 0, 1, 0]\<rparr> \<lparr>ashape = [2, 2], adata = [1, 0, -1, 0]\<rparr> (1 / 10) 5 = Inr True"
proof -
  let ?open = "\<lparr>ashape = [2, 2], adata = [1, 0, 1, 0 :: real]\<rparr>"
  let ?closed = "\<lparr>ashape = [2, 2], adata = [1, 0, -1, 0 :: real]\<rparr>"
  have r2: "srv_closure_residual ?open = 1"
    by (simp add: srv_closure_residual_def chunks.simps upt_rec Let_def)
  have c1: "(close_by_reflection ^^ Suc j) ?open = ?closed" for j
    by (induct j) (simp_all add: close_by_reflection_def)
  obtain k where res: "ClosedDiscreteCurvesTestCase_srv_projection (ClosedDiscreteCurves_space collapsing_curves_r3 close_by_reflection)
                         ?open ?closed (1 / 10) 5 = allclose_tol (1 / 10) ((close_by_reflection ^^ k) ?open) ?closed"
    and stop: "k < 5 \<longrightarrow> srv_closure_residual ((close_by_reflection ^^ k) ?open) < 1 / 10"
    and k: "k \<le> 5"
    using ClosedCurveProjector.ClosedDiscreteCurvesTestCase_srv_projection_iterate
            [of 5 collapsing_curves_r3 close_by_reflection ?open ?closed "1 / 10"] by blast
  have "k \<noteq> 0" using stop r2 by (cases "k = 0") simp_all
  then obtain j where "k = Suc j" by (cases k) auto
  then show ?thesis
    using res c1 by (simp add: allclose_tol_def bin_op_same wf_arr_def gs_rtol_def)
qed

theorem ClosedDiscreteCurvesTestCase_srv_projection_converges_witness:
  "ClosedDiscreteCurvesTestCase_srv_projection (ClosedDiscreteCurves_space collapsing_curves_r3 collapse_srv)
     \<lparr>ashape = [2, 2], adata = [1, 0, 1, 0]\<rparr> \<lparr>ashape = [2, 2], adata = [0, 0, 0, 0]\<rparr> 1 1 = Inr True"
proof -
  let ?open = "\<lparr>ashape = [2, 2], adata = [1, 0, 1, 0 :: real]\<rparr>"
  let ?zero = "\<lparr>ashape = [2, 2], adata = [0, 0, 0, 0 :: real]\<rparr>"
  have r1: "srv_closure_residual ?open = 1"
    by (simp add: srv_closure_residual_def chunks.simps upt_rec Let_def)
  have contract: "srv_closure_residual (collapse_srv q) \<le> 1 / 2 * srv_closure_residual q" for q
    using srv_closure_residual_nonneg [of q] by (simp add: collapse_srv_def srv_closure_residual_zero)
  obtain k where k: "k \<le> 1"
    and res: "ClosedDiscreteCurvesTestCase_srv_projection (ClosedDiscreteCurves_space collapsing_curves_r3 collapse_srv)
                ?open ?zero 1 1 = allclose_tol 1 ((collapse_srv ^^ k) ?open) ?zero"
    and closed: "srv_closure_residual ((collapse_srv ^^ k) ?open) < 1"
    using ClosedCurveProjector.ClosedDiscreteCurvesTestCase_srv_projection_converges
            [of collapse_srv "1 / 2" 1 ?open 1 collapsing_curves_r3 ?zero, OF contract] r1 by auto
  have "k = 1" using k closed r1 by (cases k) simp_all
  then show ?thesis
    using res by (simp add: collapse_srv_def allclose_tol_def bin_op_same wf_arr_def gs_rtol_def)
qed

theorem ClosedDiscreteCurvesTestCase_srv_projection_vec_iterate_witness:
  "ClosedDiscreteCurvesTestCase_srv_projection_vec
     (ClosedDiscreteCurves_space (closed_discrete_curves_spaces (\<lambda>d k p. Inr p) (\<lambda>d k s atol m. Inr s) (2, 2))
        close_by_reflection)
     (\<lambda>a k n. Inr \<lparr>ashape = [k, snd a], adata = [1, 0, 1, 0]\<rparr>)
     (\<lambda>(srv, expected, m, atol) n. allclose_tol atol expected \<lparr>ashape = [2, 2], adata = [1, 0, -1, 0]\<rparr>)
     3 (1 / 10) 5 = Inr True"
proof -
  let ?C = "closed_discrete_curves_spaces (\<lambda>d k p. Inr p) (\<lambda>d k s atol m. Inr s) (2, 2)"
  let ?rp = "\<lambda>(a :: bool \<times> nat) k (n :: nat). Inr \<lparr>ashape = [k, snd a], adata = [1, 0, 1, 0 :: real]\<rparr> :: real arr result"
  let ?V = "\<lambda>(srv :: real arr, expected :: real arr, m :: nat, atol :: real) (n :: nat).
              allclose_tol atol expected \<lparr>ashape = [2, 2], adata = [1, 0, -1, 0]\<rparr>"
  let ?open = "\<lparr>ashape = [2, 2], adata = [1, 0, 1, 0 :: real]\<rparr>"
  let ?closed = "\<lparr>ashape = [2, 2], adata = [1, 0, -1, 0 :: real]\<rparr>"
  have planar: "ClosedDiscreteCurvesTestCase_is_planar ?C"
    by (simp add: ClosedDiscreteCurvesTestCase_is_planar_def closed_discrete_curves_spaces_def)
  have draw: "?rp (True, 2) (cc_k_sampling_points ?C) 1 = Inr ?open"
    by (simp add: closed_discrete_curves_spaces_def)
  have r2: "srv_closure_residual ?open = 1"
    by (simp add: srv_closure_residual_def chunks.simps upt_rec Let_def)
  have c1: "(close_by_reflection ^^ Suc j) ?open = ?closed" for j
    by (induct j) (simp_all add: close_by_reflection_def)
  obtain k where res: "ClosedDiscreteCurvesTestCase_srv_projection_vec (ClosedDiscreteCurves_space ?C close_by_reflection)
                         ?rp ?V 3 (1 / 10) 5 = ?V (?open, (close_by_reflection ^^ k) ?open, 5, 1 / 10) 3"
    and stop: "k < 5 \<longrightarrow> srv_closure_residual ((close_by_reflection ^^ k) ?open) < 1 / 10"
    using ClosedCurveProjector.ClosedDiscreteCurvesTestCase_srv_projection_vec_iterate
            [OF planar, where rp = ?rp and correction = close_by_reflection and vectorization = ?V
              and n_reps = 3 and atol = "1 / 10" and max_iter = 5] draw by auto
  have "k \<noteq> 0" using stop r2 by (cases "k = 0") simp_all
  then obtain j where "k = Suc j" by (cases k) auto
  then show ?thesis
    using res c1 by (simp add: allclose_tol_def bin_op_same wf_arr_def gs_rtol_def)
qed

theorem SRVShapeBundleTestCase_horizontal_geodesic_aligned_witness:
  "SRVShapeBundleTestCase_horizontal_geodesic (SRVShapeBundle_with_alignment stationary_bundle shift_alignment 5)
     (array1 [0]) (array1 [3]) (array1 [0, 1]) (array1 [0]) (1 / 10) (1 / 1000) = Inr True"
proof -
  let ?A = shift_alignment and ?p = "array1 [0 :: real]" and ?q = "array1 [3 :: real]"
  have aligned: "(SRVShapeBundle_align ?A ?p ^^ Suc j) ?q = ?p" for j
    by (induct j) (simp_all add: SRVShapeBundle_align_def shift_alignment_def amap_def array1_def)
  obtain k gs where k: "k \<le> 5" and orb: "fold (sa_act ?A) gs ?q = (SRVShapeBundle_align ?A ?p ^^ k) ?q"
    and res: "SRVShapeBundleTestCase_horizontal_geodesic (SRVShapeBundle_with_alignment stationary_bundle ?A 5) ?p ?q (array1 [0, 1]) ?p (1 / 10) (1 / 1000) =
         bindE (sa_geodesic ?A ?p (fold (sa_act ?A) gs ?q) (array1 [0, 1])) (\<lambda>res. allclose_tol (1 / 10) res ?p)"
    and stop: "k < 5 \<longrightarrow> 0 < k"
    using ShapeBundleAlignment.SRVShapeBundleTestCase_horizontal_geodesic_aligned
         [where max_iter = 5 and B = stationary_bundle and A = ?A and p = ?p and q = ?q and times' = "array1 [0, 1]"
            and expected = ?p and atol = "1 / 10" and threshold = "1 / 1000"]
    by blast
  have "k \<noteq> 0" using stop k by auto
  then obtain j where "k = Suc j" by (cases k) auto
  then show ?thesis
    using res orb aligned [of j] by (simp add: shift_alignment_def allclose_tol_def bin_op_same wf_arr_def array1_def)
qed

end
